(* ===== verification/Prelude.thy ===== *)
theory Prelude
  imports Main "HOL-Library.Sublist"
begin

text \<open>
  Shared vocabulary of the relay-counter development: Go error values, Go map
  indexing with its zero value, HTTP header maps, and the rule collections the
  component theories feed.  Go's \<open>error\<close> values are modelled by the string their
  \<open>Error()\<close> method returns; the router never inspects an error beyond that string.
\<close>

named_theorems http_simps "evaluation rules of the net/http model"
named_theorems handler_simps "evaluation rules of the router's handlers"
named_theorems lifecycle_simps "evaluation rules of the server lifecycle"

type_synonym goerr = string

text \<open>An \<open>http.Header\<close> is a \<open>map[string][]string\<close> keyed by canonical header names.\<close>

type_synonym header = "string \<rightharpoonup> string list"

text \<open>
  Go's map index expression \<open>m[k]\<close> never fails: a missing key reads as the zero
  value of the element type (\<open>false\<close> for \<open>map[string]bool\<close>).
\<close>

definition go_index :: "('k \<rightharpoonup> 'v) \<Rightarrow> 'v \<Rightarrow> 'k \<Rightarrow> 'v" where
  "go_index m z k = (case m k of None \<Rightarrow> z | Some v \<Rightarrow> v)"

lemma go_index_None [simp]: "m k = None \<Longrightarrow> go_index m z k = z"
  by (simp add: go_index_def)

lemma go_index_Some [simp]: "m k = Some v \<Longrightarrow> go_index m z k = v"
  by (simp add: go_index_def)

lemma go_index_upd [simp]:
  "go_index (m(k' \<mapsto> v)) z k = (if k = k' then v else go_index m z k)"
  by (simp add: go_index_def)

lemma go_index_bool_iff: "go_index m False k \<longleftrightarrow> m k = Some True"
  by (cases "m k") simp_all

text \<open>Substring containment, used to state what a response body carries.\<close>

lemma sublist_middle [intro, simp]: "sublist ys (xs @ ys @ zs)"
  by (rule sublist_appendI)

end
