(* ===== verification/Http.thy ===== *)
theory Http
  imports Prelude
begin

text \<open>
  The part of Go's \<open>net/http\<close> the router relies on: a request (method, URL path,
  query, headers, body, cancellation of its context; the query is \<open>None\<close> for a
  request target without \<open>?\<close>, else the raw query after it), the response writer with the
  semantics of \<open>http.ResponseWriter\<close> (the first \<open>WriteHeader\<close> fixes the status
  and snapshots the header map, later calls are ignored, \<open>Write\<close> without a status
  sends 200 first, a write on a broken connection returns an error), the logrus
  entries a handler emits, and the state a handler runs in.  A handler is a
  function of the request and that state returning its outcome: it returns
  normally or panics with an error value, as the handlers of \<open>router.go\<close> do when
  a write fails.
\<close>

abbreviation MethodGet :: string where "MethodGet \<equiv> ''GET''"
abbreviation MethodPost :: string where "MethodPost \<equiv> ''POST''"

abbreviation StatusOK :: int where "StatusOK \<equiv> 200"
abbreviation StatusMovedPermanently :: int where "StatusMovedPermanently \<equiv> 301"
abbreviation StatusBadRequest :: int where "StatusBadRequest \<equiv> 400"
abbreviation StatusUnauthorized :: int where "StatusUnauthorized \<equiv> 401"
abbreviation StatusNotFound :: int where "StatusNotFound \<equiv> 404"
abbreviation StatusMethodNotAllowed :: int where "StatusMethodNotAllowed \<equiv> 405"
abbreviation StatusInternalServerError :: int where "StatusInternalServerError \<equiv> 500"

record request =
  req_method :: string
  req_path :: string
  req_query :: "string option"
  req_header :: header
  req_body :: string
  req_ctx_done :: bool

text \<open>\<open>Header.Get\<close>: the first value stored under the key, the empty string if none.\<close>

definition header_get :: "header \<Rightarrow> string \<Rightarrow> string" where
  "header_get h k = (case h k of Some (v # _) \<Rightarrow> v | _ \<Rightarrow> [])"

record writer =
  w_header :: header
  w_status :: "int option"
  w_sent_header :: header
  w_body :: string
  w_fail :: "goerr option"

text \<open>A writer before the handler runs; \<open>f\<close> is the error the connection returns on
  every write (\<open>None\<close> for a healthy connection or an \<open>httptest.ResponseRecorder\<close>).\<close>

definition fresh_writer :: "goerr option \<Rightarrow> writer" where
  "fresh_writer f = \<lparr>w_header = Map.empty, w_status = None, w_sent_header = Map.empty,
     w_body = [], w_fail = f\<rparr>"

definition WriteHeader :: "int \<Rightarrow> writer \<Rightarrow> writer" where
  "WriteHeader code w =
     (case w_status w of
        None \<Rightarrow> w\<lparr>w_status := Some code, w_sent_header := w_header w\<rparr>
      | Some _ \<Rightarrow> w)"

definition Write :: "string \<Rightarrow> writer \<Rightarrow> goerr option \<times> writer" where
  "Write bs w =
     (let w1 = WriteHeader StatusOK w in
      case w_fail w1 of
        Some e \<Rightarrow> (Some e, w1)
      | None \<Rightarrow> (None, w1\<lparr>w_body := w_body w1 @ bs\<rparr>))"

definition header_set :: "string \<Rightarrow> string \<Rightarrow> writer \<Rightarrow> writer" where
  "header_set k v w = w\<lparr>w_header := (w_header w)(k \<mapsto> [v])\<rparr>"

definition header_del :: "string \<Rightarrow> writer \<Rightarrow> writer" where
  "header_del k w = w\<lparr>w_header := (w_header w)(k := None)\<rparr>"

text \<open>The status the client receives: a handler that never wrote answers 200.\<close>

definition resp_status :: "writer \<Rightarrow> int" where
  "resp_status w = (case w_status w of None \<Rightarrow> StatusOK | Some c \<Rightarrow> c)"

datatype log_level = Info | Error

record log_entry =
  log_lvl :: log_level
  log_msg :: string
  log_fields :: "(string \<times> string) list"

definition error_entry :: "string \<Rightarrow> log_entry" where
  "error_entry m = \<lparr>log_lvl = Error, log_msg = m, log_fields = [(''err'', m)]\<rparr>"

definition info_entry :: "string \<Rightarrow> log_entry" where
  "info_entry m = \<lparr>log_lvl = Info, log_msg = m, log_fields = []\<rparr>"

record 's hstate =
  hs_w :: writer
  hs_store :: 's
  hs_log :: "log_entry list"

datatype outcome = Returned | Panicked goerr

type_synonym 's handler = "request \<Rightarrow> 's hstate \<Rightarrow> outcome \<times> 's hstate"

definition hs_header_set :: "string \<Rightarrow> string \<Rightarrow> 's hstate \<Rightarrow> 's hstate" where
  "hs_header_set k v st = st\<lparr>hs_w := header_set k v (hs_w st)\<rparr>"

definition hs_write_header :: "int \<Rightarrow> 's hstate \<Rightarrow> 's hstate" where
  "hs_write_header code st = st\<lparr>hs_w := WriteHeader code (hs_w st)\<rparr>"

definition hs_write :: "string \<Rightarrow> 's hstate \<Rightarrow> goerr option \<times> 's hstate" where
  "hs_write bs st = (case Write bs (hs_w st) of (e, w') \<Rightarrow> (e, st\<lparr>hs_w := w'\<rparr>))"

text \<open>\<open>_, err := w.Write(b); if err != nil { panic(err) }\<close>, the write idiom of
  \<open>router.go\<close>.\<close>

definition write_or_panic :: "string \<Rightarrow> 's hstate \<Rightarrow> outcome \<times> 's hstate" where
  "write_or_panic bs st =
     (case hs_write bs st of
        (Some err, st') \<Rightarrow> (Panicked err, st')
      | (None, st') \<Rightarrow> (Returned, st'))"

text \<open>\<open>http.Error\<close>: plain-text headers, the status, then the message and a newline
  through \<open>fmt.Fprintln\<close>, whose write error is dropped.\<close>

definition http_Error :: "string \<Rightarrow> int \<Rightarrow> 's hstate \<Rightarrow> 's hstate" where
  "http_Error msg code st =
     (let w1 = header_set ''X-Content-Type-Options'' ''nosniff''
                 (header_set ''Content-Type'' ''text/plain; charset=utf-8''
                   (header_del ''Content-Length'' (hs_w st)));
          st1 = hs_write_header code (st\<lparr>hs_w := w1\<rparr>)
      in snd (hs_write (msg @ ''\<newline>'') st1))"

definition NotFound :: "'s handler" where
  "NotFound r st = (Returned, http_Error ''404 page not found'' StatusNotFound st)"

text \<open>The state a request starts in: a fresh writer, the store as it is, no log.\<close>

definition start_state :: "goerr option \<Rightarrow> 's \<Rightarrow> 's hstate" where
  "start_state f s = \<lparr>hs_w = fresh_writer f, hs_store = s, hs_log = []\<rparr>"

subsection \<open>Evaluation rules\<close>

lemma WriteHeader_fresh [http_simps]:
  "w_status w = None \<Longrightarrow> WriteHeader c w = w\<lparr>w_status := Some c, w_sent_header := w_header w\<rparr>"
  by (simp add: WriteHeader_def)

lemma WriteHeader_again [http_simps]: "w_status w = Some c' \<Longrightarrow> WriteHeader c w = w"
  by (simp add: WriteHeader_def)

lemma w_status_WriteHeader [simp]:
  "w_status (WriteHeader c w) = Some (case w_status w of None \<Rightarrow> c | Some c' \<Rightarrow> c')"
  by (simp add: WriteHeader_def split: option.split)

lemma w_fail_WriteHeader [simp]: "w_fail (WriteHeader c w) = w_fail w"
  by (simp add: WriteHeader_def split: option.split)

lemma w_body_WriteHeader [simp]: "w_body (WriteHeader c w) = w_body w"
  by (simp add: WriteHeader_def split: option.split)

lemma header_set_simps [simp]:
  "w_status (header_set k v w) = w_status w" "w_fail (header_set k v w) = w_fail w"
  "w_body (header_set k v w) = w_body w"
  "w_status (header_del k w) = w_status w" "w_fail (header_del k w) = w_fail w"
  "w_body (header_del k w) = w_body w"
  by (simp_all add: header_set_def header_del_def)

lemma Write_ok [http_simps]:
  "w_fail w = None \<Longrightarrow>
   Write bs w = (None, (WriteHeader StatusOK w)\<lparr>w_body := w_body w @ bs\<rparr>)"
  by (simp add: Write_def)

lemma Write_fail [http_simps]:
  "w_fail w = Some e \<Longrightarrow> Write bs w = (Some e, WriteHeader StatusOK w)"
  by (simp add: Write_def)

lemma hs_write_ok [http_simps]:
  "w_fail (hs_w st) = None \<Longrightarrow>
   hs_write bs st = (None, st\<lparr>hs_w := (WriteHeader StatusOK (hs_w st))\<lparr>w_body := w_body (hs_w st) @ bs\<rparr>\<rparr>)"
  by (simp add: hs_write_def Write_ok)

lemma hs_write_fail [http_simps]:
  "w_fail (hs_w st) = Some e \<Longrightarrow> hs_write bs st = (Some e, st\<lparr>hs_w := WriteHeader StatusOK (hs_w st)\<rparr>)"
  by (simp add: hs_write_def Write_fail)

lemma start_state_simps [simp]:
  "hs_w (start_state c s) = fresh_writer c" "hs_store (start_state c s) = s"
  "hs_log (start_state c s) = []"
  "w_status (fresh_writer c) = None" "w_fail (fresh_writer c) = c" "w_body (fresh_writer c) = []"
  by (simp_all add: start_state_def fresh_writer_def)

lemma hs_write_frame [simp]:
  "hs_store (snd (hs_write bs st)) = hs_store st" "hs_log (snd (hs_write bs st)) = hs_log st"
  by (simp_all add: hs_write_def Write_def Let_def split: option.split)

lemma write_or_panic_ok [http_simps]:
  "w_fail (hs_w st) = None \<Longrightarrow>
   write_or_panic bs st = (Returned, snd (hs_write bs st))"
  by (simp add: write_or_panic_def hs_write_ok)

lemma write_or_panic_fail [http_simps]:
  "w_fail (hs_w st) = Some e \<Longrightarrow> write_or_panic bs st = (Panicked e, snd (hs_write bs st))"
  by (simp add: write_or_panic_def hs_write_fail)

lemma write_or_panic_frame [simp]:
  "hs_store (snd (write_or_panic bs st)) = hs_store st"
  "hs_log (snd (write_or_panic bs st)) = hs_log st"
  by (simp_all add: write_or_panic_def hs_write_def Write_def Let_def split: option.split)


lemma hs_write_header_frame:
  "hs_store (hs_write_header c st) = hs_store st" "hs_log (hs_write_header c st) = hs_log st"
  by (simp_all add: hs_write_header_def)

end
