(* ===== verification/Auth.thy ===== *)
theory Auth
  imports Http
begin

text \<open>
  The authorization gate, \<open>Router.AuthorizationHandler\<close> of \<open>router.go\<close>: a middleware
  that wraps a handler.  The health-check path \<open>/\<close> passes through whatever the
  credentials; any other request passes only when the value of its
  \<open>Authorization\<close> header indexes \<open>true\<close> in the key map \<open>apiKeys\<close> (a missing
  key indexes Go's zero value \<open>false\<close>); otherwise the gate answers 401 with the
  body \<open>Unauthorized\<close>, panicking if that write fails, and the wrapped handler never
  runs.
\<close>

definition authorized :: "(string \<rightharpoonup> bool) \<Rightarrow> request \<Rightarrow> bool" where
  "authorized apiKeys r = go_index apiKeys False (header_get (req_header r) ''Authorization'')"

definition AuthorizationHandler :: "(string \<rightharpoonup> bool) \<Rightarrow> 's handler \<Rightarrow> 's handler" where
  "AuthorizationHandler apiKeys h r st =
     (if req_path r = ''/'' then h r st
      else if \<not> authorized apiKeys r then
        write_or_panic ''Unauthorized'' (hs_write_header StatusUnauthorized st)
      else h r st)"

subsection \<open>Behaviour of the gate\<close>

lemma authorized_iff:
  "authorized apiKeys r \<longleftrightarrow> apiKeys (header_get (req_header r) ''Authorization'') = Some True"
  by (simp add: authorized_def go_index_bool_iff)

lemma auth_health [handler_simps]:
  "req_path r = ''/'' \<Longrightarrow> AuthorizationHandler k h r st = h r st"
  by (simp add: AuthorizationHandler_def)

lemma auth_pass [handler_simps]:
  "authorized k r \<Longrightarrow> AuthorizationHandler k h r st = h r st"
  by (simp add: AuthorizationHandler_def)

lemma auth_reject [handler_simps]:
  "req_path r \<noteq> ''/'' \<Longrightarrow> \<not> authorized k r \<Longrightarrow>
   AuthorizationHandler k h r st = write_or_panic ''Unauthorized'' (hs_write_header StatusUnauthorized st)"
  by (simp add: AuthorizationHandler_def)

text \<open>What the rejection writes on a healthy connection to a fresh writer.\<close>

lemma reject_response:
  assumes "w_status (hs_w st) = None" and "w_fail (hs_w st) = None"
  defines "res \<equiv> write_or_panic ''Unauthorized'' (hs_write_header StatusUnauthorized st)"
  shows "fst res = Returned" and "resp_status (hs_w (snd res)) = StatusUnauthorized"
    and "w_body (hs_w (snd res)) = w_body (hs_w st) @ ''Unauthorized''"
    and "hs_store (snd res) = hs_store st" and "hs_log (snd res) = hs_log st"
  using assms
  by (simp_all add: write_or_panic_ok hs_write_ok hs_write_header_def resp_status_def
      write_or_panic_def)

text \<open>C10: a request with no \<open>Authorization\<close> header at all presents the empty string
  as its credential, so it is authorized exactly when the key map maps the empty
  string to true, as the tests' key map \<open>{"": true}\<close> does.\<close>

theorem missing_header_uses_empty_key:
  assumes "req_header r ''Authorization'' = None"
  shows "authorized apiKeys r \<longleftrightarrow> apiKeys [] = Some True"
  using assms by (simp add: authorized_iff header_get_def)

theorem missing_header_uses_empty_key_witness:
  "authorized [[] \<mapsto> True]
     \<lparr>req_method = ''POST'', req_path = ''/v0/count'', req_query = None, req_header = Map.empty, req_body = [],
      req_ctx_done = False\<rparr>"
  using missing_header_uses_empty_key [of "\<lparr>req_method = ''POST'', req_path = ''/v0/count'', req_query = None,
      req_header = Map.empty, req_body = [], req_ctx_done = False\<rparr>" "[[] \<mapsto> True]"]
  by simp

lemma reject_broken:
  "w_fail (hs_w st) = Some e \<Longrightarrow>
   fst (write_or_panic ''Unauthorized'' (hs_write_header StatusUnauthorized st)) = Panicked e"
  by (simp add: write_or_panic_fail hs_write_header_def)

end
