(* ===== verification/Json.thy ===== *)
theory Json
  imports Prelude
begin

text \<open>
  The JSON text the router sends: Go's \<open>encoding/json\<close> string encoder
  (\<open>encodeState.string\<close> with HTML escaping on, as \<open>json.Marshal\<close> uses it) and the
  encoding of a \<open>map[string]string\<close> payload.  Strings are Go strings, that is byte
  sequences: an ASCII byte that is not HTML-safe is escaped, a valid UTF-8 sequence is
  copied except U+2028 and U+2029, and a byte that does not start a valid sequence
  becomes U+FFFD (escaped \<open>\ufffd\<close>), as \<open>utf8.DecodeRuneInString\<close> decides.  The escapes are those of
  Go releases before 1.22 (backspace and form feed as \<open>\u0008\<close>, \<open>\u000c\<close>).
\<close>

abbreviation bslash :: char where "bslash \<equiv> CHR 0x5C"
abbreviation dquote :: char where "dquote \<equiv> CHR 0x22"

definition hex_digit :: "nat \<Rightarrow> char" where
  "hex_digit n = ''0123456789abcdef'' ! n"

text \<open>\<open>htmlSafeSet\<close>: printable ASCII except the quote, the backslash, \<open><\<close>, \<open>>\<close>, \<open>&\<close>.\<close>

definition html_safe :: "char \<Rightarrow> bool" where
  "html_safe c \<longleftrightarrow> (0x20::nat) \<le> of_char c \<and> of_char c < (0x80::nat) \<and>
     c \<notin> {dquote, bslash, CHR ''<'', CHR ''>'', CHR ''&''}"

definition escape_ascii :: "char \<Rightarrow> string" where
  "escape_ascii c =
     (if c = bslash \<or> c = dquote then [bslash, c]
      else if of_char c = (10::nat) then [bslash, CHR ''n'']
      else if of_char c = (13::nat) then [bslash, CHR ''r'']
      else if of_char c = (9::nat) then [bslash, CHR ''t'']
      else [bslash, CHR ''u'', CHR ''0'', CHR ''0'',
            hex_digit (of_char c div 16), hex_digit (of_char c mod 16)])"

definition in_range :: "nat \<Rightarrow> nat \<Rightarrow> char \<Rightarrow> bool" where
  "in_range lo hi c \<longleftrightarrow> lo \<le> of_char c \<and> of_char c \<le> hi"

text \<open>
  \<open>utf8_seq s\<close> is the length of the valid UTF-8 sequence that starts \<open>s\<close>, or 0 where
  \<open>utf8.DecodeRuneInString\<close> answers \<open>(RuneError, 1)\<close>: a stray continuation or an
  overlong lead byte, a sequence cut short, an overlong form, a surrogate or a code
  point beyond U+10FFFF.
\<close>

text \<open>The length a lead byte announces (0: not a lead byte), and the range allowed for
  the first continuation byte, which excludes overlong forms, surrogates and code
  points beyond U+10FFFF.\<close>

definition seq_len :: "nat \<Rightarrow> nat" where
  "seq_len x =
     (if x < 0x80 then 1 else if x < 0xC2 then 0 else if x \<le> 0xDF then 2
      else if x \<le> 0xEF then 3 else if x \<le> 0xF4 then 4 else 0)"

definition first_cont :: "nat \<Rightarrow> char \<Rightarrow> bool" where
  "first_cont x c =
     in_range (if x = 0xE0 then 0xA0 else if x = 0xF0 then 0x90 else 0x80)
              (if x = 0xED then 0x9F else if x = 0xF4 then 0x8F else 0xBF) c"

definition conts_ok :: "nat \<Rightarrow> string \<Rightarrow> bool" where
  "conts_ok x cs =
     (case cs of [] \<Rightarrow> True | c1 # more \<Rightarrow> first_cont x c1 \<and> list_all (in_range 0x80 0xBF) more)"

fun utf8_seq :: "string \<Rightarrow> nat" where
  "utf8_seq [] = 0"
| "utf8_seq (b # rest) =
     (let x = of_char b; n = seq_len x in
      if n \<noteq> 0 \<and> n - 1 \<le> length rest \<and> conts_ok x (take (n - 1) rest) then n else 0)"

definition line_sep :: "string \<Rightarrow> bool" where
  "line_sep s \<longleftrightarrow> take 2 s = [CHR 0xE2, CHR 0x80] \<and>
     (take 1 (drop 2 s) = [CHR 0xA8] \<or> take 1 (drop 2 s) = [CHR 0xA9])"

function json_str :: "string \<Rightarrow> string" where
  "json_str [] = []"
| "json_str (c # cs) =
     (if of_char c < (0x80::nat) then
        (if html_safe c then c # json_str cs else escape_ascii c @ json_str cs)
      else if utf8_seq (c # cs) = 0 then
        [bslash, CHR ''u'', CHR ''f'', CHR ''f'', CHR ''f'', CHR ''d''] @ json_str cs
      else if line_sep (c # cs) then
        [bslash, CHR ''u'', CHR ''2'', CHR ''0'', CHR ''2'',
         hex_digit (of_char ((c # cs) ! 2) mod 16)] @ json_str (drop 2 cs)
      else take (utf8_seq (c # cs)) (c # cs) @ json_str (drop (utf8_seq (c # cs) - 1) cs))"
  by pat_completeness auto
termination
  by (relation "measure length") auto

text \<open>\<open>json.Marshal\<close> of a string and of a \<open>map[string]string\<close>.  Marshal sorts a
  map's keys; the router's payloads have one key each, so the list is in that order.\<close>

definition json_quote :: "string \<Rightarrow> string" where
  "json_quote s = dquote # json_str s @ [dquote]"

definition json_member :: "string \<times> string \<Rightarrow> string" where
  "json_member kv = json_quote (fst kv) @ '':'' @ json_quote (snd kv)"

fun json_members :: "(string \<times> string) list \<Rightarrow> string" where
  "json_members [] = []"
| "json_members [kv] = json_member kv"
| "json_members (kv # kvs) = json_member kv @ '','' @ json_members kvs"

definition json_map :: "(string \<times> string) list \<Rightarrow> string" where
  "json_map kvs = CHR ''{'' # json_members kvs @ ''}''"

subsection \<open>Plain text is copied\<close>

text \<open>A string of HTML-safe ASCII bytes is encoded as itself between quotes.\<close>

definition plain_text :: "string \<Rightarrow> bool" where
  "plain_text s \<longleftrightarrow> (\<forall>c\<in>set s. html_safe c)"

lemma html_safe_ascii: "html_safe c \<Longrightarrow> of_char c < (0x80::nat)"
  by (simp add: html_safe_def)

lemma json_str_plain: "plain_text s \<Longrightarrow> json_str s = s"
  by (induction s) (auto simp: plain_text_def html_safe_ascii)

lemma json_quote_plain: "plain_text s \<Longrightarrow> json_quote s = dquote # s @ [dquote]"
  by (simp add: json_quote_def json_str_plain)

lemma json_map_single: "json_map [(k, v)] = CHR ''{'' # json_quote k @ '':'' @ json_quote v @ ''}''"
  by (simp add: json_map_def json_member_def)

lemma utf8_seq_le: "utf8_seq s \<le> 4"
  by (cases s rule: utf8_seq.cases) (auto simp: Let_def seq_len_def)

end
