(* ===== verification/Store.thy ===== *)
theory Store
  imports Prelude
begin

text \<open>
  The data the router forwards and the persistence interface it forwards to.
  \<open>types.RelayCount\<close> (package \<open>types\<close>, outside \<open>src/\<close>) is one day of relay usage of
  one application; its \<open>time.Time\<close> is read as an instant in nanoseconds and Go's
  \<open>int\<close> counts as integers, which the router passes through without arithmetic.
  \<open>Driver\<close> is the Go interface of \<open>router.go\<close>: a record of its two methods, each
  taking whether the request context is cancelled and acting on a store state
  \<open>'s\<close> that the router never looks into.  A JSON decoder of the request body is the
  other collaborator of the ingestion handler and is taken as a parameter of the
  same kind.
\<close>

type_synonym time = int

record relay_count =
  rc_AppPublicKey :: string
  rc_Day :: time
  rc_Success :: int
  rc_Error :: int

record 's driver =
  WriteRelayCount :: "bool \<Rightarrow> relay_count \<Rightarrow> 's \<Rightarrow> goerr option \<times> 's"
  ReadRelayCounts :: "bool \<Rightarrow> time \<Rightarrow> time \<Rightarrow> 's \<Rightarrow> (goerr + relay_count list) \<times> 's"

type_synonym decoder = "string \<Rightarrow> goerr + relay_count"

subsection \<open>A reference store\<close>

text \<open>
  The contract of section 2 of the specification, implemented in memory: a write appends the
  record unless the request context is cancelled, a read returns the records whose day
  lies in the closed interval.  It serves as the store of the end-to-end properties and
  of the test scenarios.
\<close>

definition mem_driver :: "relay_count list driver" where
  "mem_driver =
     \<lparr>WriteRelayCount = (\<lambda>done c s. if done then (Some ''context canceled'', s) else (None, s @ [c])),
      ReadRelayCounts = (\<lambda>done from to s.
        if done then (Inl ''context canceled'', s)
        else (Inr (filter (\<lambda>c. from \<le> rc_Day c \<and> rc_Day c \<le> to) s), s))\<rparr>"

lemma mem_write_read:
  assumes "WriteRelayCount mem_driver False c s = (None, s')"
    and "from \<le> rc_Day c" and "rc_Day c \<le> to"
  shows "\<exists>cs. fst (ReadRelayCounts mem_driver False from to s') = Inr cs \<and> c \<in> set cs"
  using assms by (auto simp: mem_driver_def split: if_splits)

end
