(* ===== verification/Handlers.thy ===== *)
theory Handlers
  imports Http Json Store
begin

text \<open>
  The handlers of \<open>router.go\<close> and the response helpers they call.  \<open>logError\<close>
  appends a logrus entry at level Error carrying the message in the field \<open>err\<close>.
  \<open>RespondWithJSON\<close> and \<open>RespondWithError\<close> are the helpers of
  \<open>utils-go/json-response\<close>: marshal the payload map, set the JSON content type,
  write the status and the body, and panic if the write fails.
  \<open>HealthCheck\<close> writes 200 and a fixed text.  \<open>CreateCount\<close> decodes the body
  into a relay count (400 and no store call when that fails), calls the driver's
  \<open>WriteRelayCount\<close> once with the request's context (500 with the error's message
  when it fails) and answers \<open>{"result":"ok"}\<close> otherwise.
\<close>

definition logError :: "goerr \<Rightarrow> 's hstate \<Rightarrow> 's hstate" where
  "logError err st = st\<lparr>hs_log := hs_log st @ [error_entry err]\<rparr>"

definition RespondWithJSON :: "int \<Rightarrow> (string \<times> string) list \<Rightarrow> 's hstate \<Rightarrow> outcome \<times> 's hstate" where
  "RespondWithJSON code payload st =
     write_or_panic (json_map payload)
       (hs_write_header code (hs_header_set ''Content-Type'' ''application/json'' st))"

definition RespondWithError :: "int \<Rightarrow> string \<Rightarrow> 's hstate \<Rightarrow> outcome \<times> 's hstate" where
  "RespondWithError code message st = RespondWithJSON code [(''error'', message)] st"

definition respondWithResultOK :: "'s hstate \<Rightarrow> outcome \<times> 's hstate" where
  "respondWithResultOK st = RespondWithJSON StatusOK [(''result'', ''ok'')] st"

definition HealthCheck :: "'s handler" where
  "HealthCheck r st =
     write_or_panic ''Transaction HTTP DB is up and running!'' (hs_write_header StatusOK st)"

definition CreateCount :: "decoder \<Rightarrow> 's driver \<Rightarrow> 's handler" where
  "CreateCount decode drv r st =
     (case decode (req_body r) of
        Inl err \<Rightarrow>
          RespondWithError StatusBadRequest err
            (logError (''WriteCount in JSON decoding failed: '' @ err) st)
      | Inr count \<Rightarrow>
          (case WriteRelayCount drv (req_ctx_done r) count (hs_store st) of
             (Some err, s') \<Rightarrow>
               RespondWithError StatusInternalServerError err
                 (logError (''WriteCount in WriteSession failed: '' @ err) (st\<lparr>hs_store := s'\<rparr>))
           | (None, s') \<Rightarrow> respondWithResultOK (st\<lparr>hs_store := s'\<rparr>)))"

subsection \<open>The response helpers\<close>

text \<open>On a healthy connection whose status is not yet written, a JSON response sends
  exactly the status and the marshalled payload and touches neither store nor log.\<close>

lemma RespondWithJSON_healthy:
  fixes code :: int and payload :: "(string \<times> string) list"
  assumes "w_status (hs_w st) = None" and "w_fail (hs_w st) = None"
  defines "res \<equiv> RespondWithJSON code payload st"
  shows "fst res = Returned" and "resp_status (hs_w (snd res)) = code"
    and "w_body (hs_w (snd res)) = w_body (hs_w st) @ json_map payload"
    and "hs_store (snd res) = hs_store st" and "hs_log (snd res) = hs_log st"
  using assms
  by (simp_all add: RespondWithJSON_def write_or_panic_def hs_write_ok hs_write_header_def
      hs_header_set_def resp_status_def)

lemma RespondWithJSON_broken:
  "w_fail (hs_w st) = Some e \<Longrightarrow> fst (RespondWithJSON code payload st) = Panicked e"
  by (simp add: RespondWithJSON_def write_or_panic_def hs_write_fail hs_write_header_def
      hs_header_set_def)

lemma RespondWithJSON_frame [simp]:
  "hs_store (snd (RespondWithJSON code payload st)) = hs_store st"
  "hs_log (snd (RespondWithJSON code payload st)) = hs_log st"
  by (simp_all add: RespondWithJSON_def hs_write_header_def hs_header_set_def)

text \<open>The success envelope is the literal text \<open>{"result":"ok"}\<close>, and an error envelope
  carries the encoded message as a contiguous part of its text.\<close>

lemma result_ok_body:
  "json_map [(''result'', ''ok'')] =
     [CHR ''{'', dquote] @ ''result'' @ [dquote, CHR '':'', dquote] @ ''ok'' @ [dquote, CHR ''}'']"
  by (simp add: json_map_single json_quote_plain plain_text_def html_safe_def)

lemma error_body_contains: "sublist (json_str e) (json_map [(k, e)])"
proof -
  have "json_map [(k, e)] = (CHR ''{'' # json_quote k @ '':'' @ [dquote]) @ json_str e @ ([dquote] @ ''}'')"
    by (simp add: json_map_single json_quote_def)
  then show ?thesis by (simp only: sublist_appendI)
qed

lemma logError_simps [simp]:
  "hs_w (logError m st) = hs_w st" "hs_store (logError m st) = hs_store st"
  "hs_log (logError m st) = hs_log st @ [\<lparr>log_lvl = Error, log_msg = m, log_fields = [(''err'', m)]\<rparr>]"
  by (simp_all add: logError_def error_entry_def)

lemma HealthCheck_healthy:
  assumes "w_status (hs_w st) = None" and "w_fail (hs_w st) = None"
  shows "fst (HealthCheck r st) = Returned" and "resp_status (hs_w (snd (HealthCheck r st))) = StatusOK"
    and "w_body (hs_w (snd (HealthCheck r st))) = w_body (hs_w st) @ ''Transaction HTTP DB is up and running!''"
    and "hs_store (snd (HealthCheck r st)) = hs_store st" and "hs_log (snd (HealthCheck r st)) = hs_log st"
  using assms
  by (simp_all add: HealthCheck_def write_or_panic_def hs_write_ok hs_write_header_def resp_status_def)

lemma HealthCheck_broken:
  "w_fail (hs_w st) = Some e \<Longrightarrow> fst (HealthCheck r st) = Panicked e"
  by (simp add: HealthCheck_def write_or_panic_def hs_write_fail hs_write_header_def)

subsection \<open>The branches of the ingestion handler\<close>

lemma CreateCount_decode_error [handler_simps]:
  "decode (req_body r) = Inl err \<Longrightarrow>
   CreateCount decode drv r st =
     RespondWithError StatusBadRequest err (logError (''WriteCount in JSON decoding failed: '' @ err) st)"
  by (simp add: CreateCount_def)

lemma CreateCount_write_error [handler_simps]:
  "decode (req_body r) = Inr c \<Longrightarrow>
   WriteRelayCount drv (req_ctx_done r) c (hs_store st) = (Some err, s') \<Longrightarrow>
   CreateCount decode drv r st =
     RespondWithError StatusInternalServerError err
       (logError (''WriteCount in WriteSession failed: '' @ err) (st\<lparr>hs_store := s'\<rparr>))"
  by (simp add: CreateCount_def)

lemma CreateCount_ok [handler_simps]:
  "decode (req_body r) = Inr c \<Longrightarrow>
   WriteRelayCount drv (req_ctx_done r) c (hs_store st) = (None, s') \<Longrightarrow>
   CreateCount decode drv r st = respondWithResultOK (st\<lparr>hs_store := s'\<rparr>)"
  by (simp add: CreateCount_def)

text \<open>On a connection whose writes fail, every branch of the handler panics with the
  connection's error: no write failure is swallowed.\<close>

lemma CreateCount_broken:
  "w_fail (hs_w st) = Some e \<Longrightarrow> fst (CreateCount decode drv r st) = Panicked e"
  by (auto simp: CreateCount_def RespondWithError_def respondWithResultOK_def
      intro!: RespondWithJSON_broken split: sum.split prod.split option.split)

text \<open>Whatever happens, the store afterwards is the store before (decoding failed)
  or the state after exactly one call of \<open>WriteRelayCount\<close> with the decoded record.\<close>

lemma CreateCount_store:
  "hs_store (snd (CreateCount decode drv r st)) =
     (case decode (req_body r) of
        Inl _ \<Rightarrow> hs_store st
      | Inr c \<Rightarrow> snd (WriteRelayCount drv (req_ctx_done r) c (hs_store st)))"
  by (simp add: CreateCount_def RespondWithError_def respondWithResultOK_def
      split: sum.split prod.split option.split)

end
