(* ===== verification/UrlPath.thy ===== *)
theory UrlPath
  imports Prelude
begin

text \<open>
  The path handling gorilla's \<open>Router.ServeHTTP\<close> does before it matches a route:
  \<open>cleanPath\<close> of \<open>mux.go\<close>, which calls \<open>path.Clean\<close> of Go's \<open>path\<close> package on a
  rooted path, and the \<open>Location\<close> it sends when the cleaned path differs, written by
  \<open>url.URL.String\<close> of \<open>net/url\<close> (path escaping in \<open>encodePath\<close> mode, then the
  query).  For the client side of the redirect the theory models how \<open>net/url\<close> reads
  such a request target back: the query cut at the first \<open>?\<close> and \<open>unescape\<close> of the
  path.  Strings are Go strings, so a character is a byte.
\<close>

subsection \<open>path.Clean on a rooted path\<close>

text \<open>The loop of \<open>path.Clean\<close> after the leading slash: \<open>acc\<close> is the output buffer
  \<open>out\<close> past its first byte, reversed, so \<open>out.w > dotdot\<close> is \<open>acc \<noteq> []\<close>.  Empty
  and \<open>.\<close> elements are skipped, \<open>..\<close> backtracks to the last slash of the buffer
  (never past the root), and a real element is copied after a slash.\<close>

function clean_loop :: "string \<Rightarrow> string \<Rightarrow> string" where
  "clean_loop acc [] = acc"
| "clean_loop acc (c # cs) =
     (if c = CHR ''/'' then clean_loop acc cs
      else if c = CHR ''.'' \<and> (cs = [] \<or> hd cs = CHR ''/'') then clean_loop acc cs
      else if c = CHR ''.'' \<and> hd cs = CHR ''.'' \<and> (tl cs = [] \<or> hd (tl cs) = CHR ''/'') then
        clean_loop (tl (dropWhile (\<lambda>x. x \<noteq> CHR ''/'') acc)) (tl cs)
      else clean_loop (rev (takeWhile (\<lambda>x. x \<noteq> CHR ''/'') (c # cs)) @
                         (if acc = [] then [] else CHR ''/'' # acc))
                      (dropWhile (\<lambda>x. x \<noteq> CHR ''/'') cs))"
  by pat_completeness auto
termination
  by (relation "measure (\<lambda>(acc, s). length s)") (auto simp: less_Suc_eq_le length_dropWhile_le)

text \<open>\<open>path.Clean p\<close> for a path with \<open>p[0] = '/'\<close>, the only kind \<open>cleanPath\<close> passes.\<close>

definition path_Clean :: "string \<Rightarrow> string" where
  "path_Clean p = CHR ''/'' # rev (clean_loop [] (tl p))"

definition cleanPath :: "string \<Rightarrow> string" where
  "cleanPath p =
     (if p = [] then ''/''
      else let p' = (if hd p \<noteq> CHR ''/'' then CHR ''/'' # p else p);
               np = path_Clean p'
           in if last p' = CHR ''/'' \<and> np \<noteq> ''/'' then np @ ''/'' else np)"

subsection \<open>Escaping a path: url.URL.EscapedPath and url.URL.String\<close>

definition upperhex :: string where
  "upperhex = ''0123456789ABCDEF''"

text \<open>\<open>shouldEscape(c, encodePath)\<close>: letters, digits, the marks \<open>-_.~\<close> and the
  reserved characters other than \<open>?\<close> stay; every other byte is escaped.\<close>

definition shouldEscape :: "char \<Rightarrow> bool" where
  "shouldEscape c =
     (let n = of_char c :: nat in
      if 97 \<le> n \<and> n \<le> 122 \<or> 65 \<le> n \<and> n \<le> 90 \<or> 48 \<le> n \<and> n \<le> 57 then False
      else if c \<in> set ''-_.~'' then False
      else if c \<in> set ''$&+,/:;=?@'' then c = CHR ''?''
      else True)"

fun escape_path :: "string \<Rightarrow> string" where
  "escape_path [] = []"
| "escape_path (c # cs) =
     (if shouldEscape c
      then CHR ''%'' # upperhex ! (of_char c div 16) # upperhex ! (of_char c mod 16) # escape_path cs
      else c # escape_path cs)"

definition EscapedPath :: "string \<Rightarrow> string" where
  "EscapedPath p = (if p = ''*'' then ''*'' else escape_path p)"

text \<open>\<open>url.String()\<close> of a URL with only a path and a query, as gorilla builds it from
  the request's URL: \<open>None\<close> is a URL without \<open>?\<close> (empty \<open>RawQuery\<close>, no
  \<open>ForceQuery\<close>), \<open>Some q\<close> one whose request target had \<open>?q\<close>.\<close>

definition url_String :: "string \<Rightarrow> string option \<Rightarrow> string" where
  "url_String p q =
     (let ep = EscapedPath p in
        (if CHR '':'' \<in> set (takeWhile (\<lambda>x. x \<noteq> CHR ''/'') ep) then ''./'' else []) @ ep @
        (case q of None \<Rightarrow> [] | Some q \<Rightarrow> CHR ''?'' # q))"

subsection \<open>Reading a request target back: strings.Cut and url.unescape\<close>

definition ishex :: "char \<Rightarrow> bool" where
  "ishex c \<longleftrightarrow> (let n = of_char c :: nat in 48 \<le> n \<and> n \<le> 57 \<or> 97 \<le> n \<and> n \<le> 102 \<or> 65 \<le> n \<and> n \<le> 70)"

definition unhex :: "char \<Rightarrow> nat" where
  "unhex c = (let n = of_char c :: nat in
     if 48 \<le> n \<and> n \<le> 57 then n - 48 else if 97 \<le> n \<and> n \<le> 102 then n - 87
     else if 65 \<le> n \<and> n \<le> 70 then n - 55 else 0)"

text \<open>\<open>unescape(s, encodePath)\<close>: \<open>%XX\<close> becomes the byte \<open>0xXX\<close>, \<open>+\<close> stays; a \<open>%\<close>
  without two hex digits is the error \<open>EscapeError\<close> of (at most) three bytes from
  it.  Go checks the whole string before decoding; the first bad escape is the same
  either way.\<close>

fun unescape_path :: "string \<Rightarrow> string + string" where
  "unescape_path [] = Inr []"
| "unescape_path (c # cs) =
     (if c = CHR ''%'' then
        (case cs of
           a # b # rest \<Rightarrow>
             if ishex a \<and> ishex b then map_sum id ((#) (char_of (unhex a * 16 + unhex b))) (unescape_path rest)
             else Inl (take 3 (c # cs))
         | _ \<Rightarrow> Inl (take 3 (c # cs)))
      else map_sum id ((#) c) (unescape_path cs))"

text \<open>The path and query of an origin-form request target, as \<open>url.ParseRequestURI\<close>
  splits it: the query after the first \<open>?\<close>, the path unescaped.\<close>

definition parse_target :: "string \<Rightarrow> string + string \<times> string option" where
  "parse_target s =
     (let rest = takeWhile (\<lambda>x. x \<noteq> CHR ''?'') s;
          q = (if CHR ''?'' \<in> set s then Some (tl (dropWhile (\<lambda>x. x \<noteq> CHR ''?'') s)) else None)
      in map_sum id (\<lambda>p. (p, q)) (unescape_path rest))"

subsection \<open>The rules path.Clean implements\<close>

text \<open>The documented rules of \<open>path.Clean\<close> read on path elements: split at slashes
  dropping empty elements, skip \<open>.\<close>, let \<open>..\<close> remove the element before it (none
  at the root), join with slashes after a leading one.  \<open>clean_elems\<close> keeps the
  elements seen so far as a stack, the last one on top.\<close>

function path_elems :: "string \<Rightarrow> string list" where
  "path_elems [] = []"
| "path_elems (c # cs) =
     (if c = CHR ''/'' then path_elems cs
      else takeWhile (\<lambda>x. x \<noteq> CHR ''/'') (c # cs) # path_elems (dropWhile (\<lambda>x. x \<noteq> CHR ''/'') cs))"
  by pat_completeness auto

termination
  by (relation "measure length") (auto simp: less_Suc_eq_le length_dropWhile_le)

fun clean_elems :: "string list \<Rightarrow> string list \<Rightarrow> string list" where
  "clean_elems stk [] = stk"
| "clean_elems stk (e # es) =
     (if e = ''.'' then clean_elems stk es
      else if e = ''..'' then clean_elems (tl stk) es
      else clean_elems (e # stk) es)"

fun join_elems :: "string list \<Rightarrow> string" where
  "join_elems [] = []"
| "join_elems [e] = e"
| "join_elems (e # es) = e @ CHR ''/'' # join_elems es"

definition clean_ref :: "string \<Rightarrow> string" where
  "clean_ref s = CHR ''/'' # join_elems (rev (clean_elems [] (path_elems s)))"

definition elem_ok :: "string \<Rightarrow> bool" where
  "elem_ok e \<longleftrightarrow> e \<noteq> [] \<and> CHR ''/'' \<notin> set e"

abbreviation not_slash :: "char \<Rightarrow> bool" where
  "not_slash \<equiv> \<lambda>x. x \<noteq> CHR ''/''"

definition elem_good :: "string \<Rightarrow> bool" where
  "elem_good e \<longleftrightarrow> elem_ok e \<and> e \<noteq> ''.'' \<and> e \<noteq> ''..''"

subsection \<open>The loop implements the rules\<close>

lemma join_elems_snoc:
  "join_elems (xs @ [x]) = (if xs = [] then x else join_elems xs @ CHR ''/'' # x)"
  by (induction xs rule: induct_list012) simp_all

lemma join_rev_snoc:
  "rev (join_elems (rev stk @ [e])) = rev e @ (if stk = [] then [] else CHR ''/'' # rev (join_elems (rev stk)))"
  by (simp add: join_elems_snoc)

lemma join_empty_iff:
  "(\<forall>e\<in>set es. elem_ok e) \<Longrightarrow> join_elems es = [] \<longleftrightarrow> es = []"
  by (induction es rule: induct_list012) (auto simp: elem_ok_def)

lemma backtrack:
  assumes "\<forall>e\<in>set stk. elem_ok e"
  shows "tl (dropWhile not_slash (rev (join_elems (rev stk)))) = rev (join_elems (rev (tl stk)))"

proof (cases stk)
  case (Cons e stk')
  then have "\<forall>x\<in>set (rev e). not_slash x" using assms by (auto simp: elem_ok_def)
  then have "dropWhile not_slash (rev e @ xs) = dropWhile not_slash xs" for xs
    by (simp add: dropWhile_append)
  then show ?thesis using Cons by (simp only: rev.simps(2) join_rev_snoc) (cases stk'; simp)

qed simp

text \<open>The invariant of the loop: the buffer is the stack of elements joined by
  slashes; each byte step of the loop is one element step of the rules.\<close>

lemma clean_loop_elems:
  "(\<forall>e\<in>set stk. elem_ok e) \<Longrightarrow>
   clean_loop (rev (join_elems (rev stk))) s = rev (join_elems (rev (clean_elems stk (path_elems s))))"

proof (induction s arbitrary: stk rule: length_induct)
  case (1 s)
  show ?case
  proof (cases s)
    case (Cons c cs)
    have IH: "\<And>t stk. length t < length s \<Longrightarrow> \<forall>e\<in>set stk. elem_ok e \<Longrightarrow>
      clean_loop (rev (join_elems (rev stk))) t = rev (join_elems (rev (clean_elems stk (path_elems t))))"
      using "1.IH" by blast
    consider (slash) "c = CHR ''/''"
      | (dot) "c = CHR ''.''" "cs = [] \<or> hd cs = CHR ''/''"
      | (dotdot) cs' where "c = CHR ''.''" "cs = CHR ''.'' # cs'" "cs' = [] \<or> hd cs' = CHR ''/''"
      | (elem) "c \<noteq> CHR ''/''" "\<not> (c = CHR ''.'' \<and> (cs = [] \<or> hd cs = CHR ''/''))"
          "\<not> (c = CHR ''.'' \<and> hd cs = CHR ''.'' \<and> (tl cs = [] \<or> hd (tl cs) = CHR ''/''))"
      by (cases cs) auto
    then show ?thesis
    proof cases
      case slash
      then show ?thesis using IH [of cs stk] "1.prems" Cons by simp
    next
      case dot
      then have "takeWhile not_slash cs = [] \<and> dropWhile not_slash cs = cs"
        by (cases cs) auto
      then show ?thesis using IH [of cs stk] "1.prems" Cons dot by auto
    next
      case dotdot
      then have "takeWhile not_slash cs' = [] \<and> dropWhile not_slash cs' = cs'"
        by (cases cs') auto
      moreover have "\<forall>e\<in>set (tl stk). elem_ok e" using "1.prems" by (cases stk) auto
      ultimately show ?thesis using IH [of cs' "tl stk"] "1.prems" Cons dotdot
        by (auto simp: backtrack)
    next
      case elem
      let ?e = "takeWhile not_slash (c # cs)"
      have e: "elem_ok ?e" "?e \<noteq> ''.''" "?e \<noteq> ''..''"
        using elem by (auto simp: elem_ok_def takeWhile_eq_Nil_iff dest: set_takeWhileD)
          (cases cs; auto simp: takeWhile_eq_Nil_iff)+
      have buf: "rev (join_elems (rev stk)) = [] \<longleftrightarrow> stk = []"
        using "1.prems" join_empty_iff [of "rev stk"] by auto
      have "path_elems s = ?e # path_elems (dropWhile not_slash cs)"
        using Cons elem by simp
      moreover have "clean_loop (rev (join_elems (rev stk))) s =
          clean_loop (rev (join_elems (rev (?e # stk)))) (dropWhile not_slash cs)"
        using Cons elem by (simp only: clean_loop.simps join_rev_snoc rev.simps buf) simp
      ultimately show ?thesis using IH [of "dropWhile not_slash cs" "?e # stk"] "1.prems" Cons e
        by (simp add: length_dropWhile_le le_imp_less_Suc)
    qed
  qed simp

qed

text \<open>\<open>path.Clean\<close> computes the documented rules.\<close>

lemma path_Clean_ref: "path_Clean p = clean_ref (tl p)"
  using clean_loop_elems [of "[]" "tl p"] by (simp add: path_Clean_def clean_ref_def)

lemma path_elems_ok: "\<forall>e\<in>set (path_elems s). elem_ok e"
  by (induction s rule: path_elems.induct) (auto simp: elem_ok_def dest: set_takeWhileD)

lemma clean_elems_good:
  "\<forall>e\<in>set stk. elem_good e \<Longrightarrow> \<forall>e\<in>set es. elem_ok e \<Longrightarrow> \<forall>e\<in>set (clean_elems stk es). elem_good e"

proof (induction stk es rule: clean_elems.induct)
  case (2 stk e es)
  have tl: "\<forall>x\<in>set (tl stk). elem_good x" using "2.prems"(1) by (cases stk) auto
  have es: "\<forall>x\<in>set es. elem_ok x" and e: "elem_ok e" using "2.prems"(2) by simp_all
  consider "e = ''.''" | "e = ''..''" | "e \<noteq> ''.''" "e \<noteq> ''..''" by blast
  then show ?case
  proof cases
    case 1
    then have "clean_elems stk (e # es) = clean_elems stk es" by simp
    with "2.IH"(1) [OF 1 "2.prems"(1) es] show ?thesis by (simp only:)
  next
    case 2
    then have "clean_elems stk (e # es) = clean_elems (tl stk) es" by simp
    with "2.IH"(2) [OF _ 2 tl es] show ?thesis by (simp add: 2)
  next
    case 3
    then have "elem_good e" using e by (simp add: elem_good_def)
    then have "\<forall>x\<in>set (e # stk). elem_good x" using "2.prems"(1) by simp
    moreover have "clean_elems stk (e # es) = clean_elems (e # stk) es" using 3 by simp
    ultimately show ?thesis using "2.IH"(3) [OF 3] es by (simp only:)
  qed

qed simp

lemma clean_elems_id: "\<forall>e\<in>set es. elem_good e \<Longrightarrow> clean_elems stk es = rev es @ stk"
  by (induction stk es rule: clean_elems.induct) (auto simp: elem_good_def)

lemma path_elems_append_slash: "path_elems (s @ CHR ''/'' # t) = path_elems s @ path_elems t"

proof (induction s rule: path_elems.induct)
  case (2 c cs)
  show ?case
  proof (cases "c = CHR ''/''")
    case True
    then show ?thesis using "2.IH"(1) by simp
  next
    case False
    show ?thesis
    proof (cases "CHR ''/'' \<in> set cs")
      case True
      then have "takeWhile not_slash (cs @ CHR ''/'' # t) = takeWhile not_slash cs"
        "dropWhile not_slash (cs @ CHR ''/'' # t) = dropWhile not_slash cs @ CHR ''/'' # t"
        by (simp_all add: takeWhile_append1 dropWhile_append1)
      then show ?thesis using False "2.IH"(2) [OF False] by simp
    next
      case True': False
      then have all: "\<And>x. x \<in> set cs \<Longrightarrow> not_slash x" by auto
      have "takeWhile not_slash (cs @ CHR ''/'' # t) = cs"
        using takeWhile_append2 [of cs not_slash, OF all] by simp
      moreover have "dropWhile not_slash (cs @ CHR ''/'' # t) = CHR ''/'' # t"
        using dropWhile_append2 [of cs not_slash, OF all] by simp
      moreover have "takeWhile not_slash cs = cs" "dropWhile not_slash cs = []"
        using all by (simp_all add: takeWhile_eq_all_conv)
      ultimately show ?thesis using False by (simp del: takeWhile_eq_all_conv dropWhile_eq_Nil_conv)
    qed
  qed

qed simp

lemma path_elems_single:
  assumes "elem_ok e" shows "path_elems e = [e]"

proof (cases e)
  case (Cons c cs)
  with assms have "dropWhile not_slash cs = [] \<and> takeWhile not_slash cs = cs"
    by (auto simp: elem_ok_def dropWhile_eq_Nil_conv takeWhile_eq_all_conv)
  with Cons assms show ?thesis by (auto simp: elem_ok_def simp del: dropWhile_eq_Nil_conv)

qed (use assms in \<open>simp add: elem_ok_def\<close>)

lemma elem_ok_last: "elem_ok e \<Longrightarrow> last e \<noteq> CHR ''/''"
  by (metis elem_ok_def last_in_set)

lemma path_elems_join: "\<forall>e\<in>set es. elem_ok e \<Longrightarrow> path_elems (join_elems es) = es"
  by (induction es rule: join_elems.induct) (simp_all add: path_elems_append_slash path_elems_single)

lemma join_last: "es \<noteq> [] \<Longrightarrow> \<forall>e\<in>set es. elem_ok e \<Longrightarrow> join_elems es \<noteq> [] \<and> last (join_elems es) \<noteq> CHR ''/''"
  by (induction es rule: join_elems.induct) (auto simp: elem_ok_last, simp_all add: elem_ok_def)

lemma path_Clean_form:
  obtains es where "path_Clean p = CHR ''/'' # join_elems es" "\<forall>e\<in>set es. elem_good e"
  using clean_elems_good [of "[]" "path_elems (tl p)"] path_elems_ok
  by (simp add: path_Clean_ref clean_ref_def)

lemma path_Clean_idem: "path_Clean (path_Clean p) = path_Clean p"

proof -
  obtain es where es: "path_Clean p = CHR ''/'' # join_elems es" "\<forall>e\<in>set es. elem_good e"
    by (rule path_Clean_form)
  then have "\<forall>e\<in>set es. elem_ok e" by (simp add: elem_good_def)
  with es show ?thesis by (simp add: path_Clean_ref clean_ref_def path_elems_join clean_elems_id)

qed

lemma path_Clean_slash: "p \<noteq> [] \<Longrightarrow> path_Clean (p @ ''/'') = path_Clean p"
  using path_elems_append_slash [of "tl p" "[]"] by (simp add: path_Clean_ref clean_ref_def)

lemma path_Clean_last: "last (path_Clean p) = CHR ''/'' \<Longrightarrow> path_Clean p = ''/''"

proof -
  obtain es where es: "path_Clean p = CHR ''/'' # join_elems es" "\<forall>e\<in>set es. elem_good e"
    by (rule path_Clean_form)
  assume "last (path_Clean p) = CHR ''/''"
  with es join_last [of es] show ?thesis by (cases "es = []") (auto simp: elem_good_def)

qed

lemma hd_path_Clean [simp]: "path_Clean p \<noteq> [] \<and> hd (path_Clean p) = CHR ''/''"
  by (simp add: path_Clean_def)

lemma cleanPath_rooted: "cleanPath p \<noteq> [] \<and> hd (cleanPath p) = CHR ''/''"
  by (simp add: cleanPath_def Let_def)

lemma cleanPath_of_rooted:
  "p \<noteq> [] \<Longrightarrow> hd p = CHR ''/'' \<Longrightarrow>
   cleanPath p = (if last p = CHR ''/'' \<and> path_Clean p \<noteq> ''/'' then path_Clean p @ ''/'' else path_Clean p)"
  by (simp add: cleanPath_def Let_def)

lemma cleanPath_root_form:
  obtains p' where "p' \<noteq> []" "hd p' = CHR ''/''" "cleanPath p = cleanPath p'"

proof (cases p)
  case Nil
  then show ?thesis by (intro that [of "''/''"]) (simp_all add: cleanPath_def path_Clean_def)

next
  case (Cons c t)
  show ?thesis
  proof (cases "c = CHR ''/''")
    case True
    then show ?thesis using Cons by (intro that [of p]) simp_all
  next
    case False
    then show ?thesis using Cons by (intro that [of "CHR ''/'' # p"]) (simp_all add: cleanPath_def)
  qed

qed

lemma cleanPath_idem_rooted:
  assumes p': "p' \<noteq> []" "hd p' = CHR ''/''"
  shows "cleanPath (cleanPath p') = cleanPath p'"

proof -
  have np: "path_Clean p' \<noteq> [] \<and> hd (path_Clean p') = CHR ''/''" by (rule hd_path_Clean)
  let ?np = "path_Clean p'"
  show ?thesis
  proof (cases "last p' = CHR ''/'' \<and> ?np \<noteq> ''/''")
    case True
    then have c: "cleanPath p' = ?np @ ''/''" using p' by (simp add: cleanPath_of_rooted)
    have s: "path_Clean (?np @ ''/'') = ?np" using np by (simp add: path_Clean_slash path_Clean_idem)
    have "cleanPath (?np @ ''/'') = (if last (?np @ ''/'') = CHR ''/'' \<and> path_Clean (?np @ ''/'') \<noteq> ''/''
        then path_Clean (?np @ ''/'') @ ''/'' else path_Clean (?np @ ''/''))"
      by (rule cleanPath_of_rooted) (use np in simp_all)
    also have "\<dots> = ?np @ ''/''" using True by (simp only: s last_snoc if_True simp_thms)
    finally show ?thesis by (simp only: c)
  next
    case False
    then have c: "cleanPath p' = ?np" using p' by (simp add: cleanPath_of_rooted)
    have r: "cleanPath ?np = (if last ?np = CHR ''/'' \<and> ?np \<noteq> ''/'' then ?np @ ''/'' else ?np)"
      using np by (simp add: cleanPath_of_rooted path_Clean_idem)
    have nc: "\<not> (last ?np = CHR ''/'' \<and> ?np \<noteq> ''/'')" using path_Clean_last [of p'] by blast
    have "cleanPath ?np = ?np" by (subst r) (rule if_not_P [OF nc])
    then show ?thesis by (simp only: c)
  qed

qed

text \<open>\<open>cleanPath\<close> is idempotent: the output of \<open>path.Clean\<close> has no empty,
  \<open>.\<close> or \<open>..\<close> element, and the trailing slash it restores is dropped and
  restored again.\<close>

lemma cleanPath_idem: "cleanPath (cleanPath p) = cleanPath p"

proof -
  obtain p' where "p' \<noteq> []" "hd p' = CHR ''/''" "cleanPath p = cleanPath p'"
    by (rule cleanPath_root_form)
  then show ?thesis by (simp add: cleanPath_idem_rooted)

qed

subsection \<open>Escaping round trip\<close>

lemma upperhex_all: "\<forall>n\<in>set [0..<16]. ishex (upperhex ! n) \<and> unhex (upperhex ! n) = n \<and> upperhex ! n \<noteq> CHR ''?''"
  by (simp add: upperhex_def ishex_def unhex_def upt_rec)

lemma upperhex_nth:
  "n < 16 \<Longrightarrow> ishex (upperhex ! n) \<and> unhex (upperhex ! n) = n \<and> upperhex ! n \<noteq> CHR ''?''"
  using upperhex_all by simp

lemma byte_nibbles: "of_char c div 16 < (16::nat) \<and> of_char c mod 16 < (16::nat)"
  using nat_of_char_less_256 [of c] by (simp add: div_less_iff_less_mult)

lemma nibble_not_query:
  "upperhex ! (of_char c div 16) \<noteq> CHR ''?'' \<and> upperhex ! (of_char c mod 16) \<noteq> CHR ''?''"
  using upperhex_nth byte_nibbles by blast

lemma shouldEscape_consts [simp]:
  "shouldEscape CHR ''%'' \<and> shouldEscape CHR ''?'' \<and> \<not> shouldEscape CHR ''/''"
  by (simp add: shouldEscape_def)

lemma escape_path_no_query: "CHR ''?'' \<notin> set (escape_path p)"
  using nibble_not_query by (induction p) (auto, metis+)

text \<open>\<open>unescape\<close> inverts \<open>escape\<close> in \<open>encodePath\<close> mode, and an escaped path
  holds no \<open>?\<close>, so the query of \<open>url.String\<close> is cut where it starts.\<close>

lemma unescape_escape_path: "unescape_path (escape_path p) = Inr p"
proof (induction p)
  case (Cons c cs)
  show ?case
  proof (cases "shouldEscape c")
    case True
    have "char_of (unhex (upperhex ! (of_char c div 16)) * 16 + unhex (upperhex ! (of_char c mod 16))) = c"
      using upperhex_nth byte_nibbles by simp
    then show ?thesis using True Cons.IH upperhex_nth byte_nibbles by simp
  next
    case False
    then have "c \<noteq> CHR ''%''" by auto
    then show ?thesis using False Cons.IH by simp
  qed
qed simp

lemma escape_path_rooted:
  "p \<noteq> [] \<Longrightarrow> hd p = CHR ''/'' \<Longrightarrow> escape_path p = CHR ''/'' # escape_path (tl p)"
  by (cases p) simp_all

lemma parse_url_String:
  assumes "p \<noteq> []" "hd p = CHR ''/''"
  shows "parse_target (url_String p q) = Inr (p, q)"
proof -
  have ep: "EscapedPath p = escape_path p" using assms by (auto simp: EscapedPath_def)
  have nq: "\<forall>x\<in>set (escape_path p). x \<noteq> CHR ''?''" using escape_path_no_query by blast
  have "url_String p q = escape_path p @ (case q of None \<Rightarrow> [] | Some q \<Rightarrow> CHR ''?'' # q)"
    using assms by (simp add: url_String_def ep escape_path_rooted)
  moreover have "takeWhile (\<lambda>x. x \<noteq> CHR ''?'') (escape_path p @ xs) = escape_path p @ takeWhile (\<lambda>x. x \<noteq> CHR ''?'') xs"
    and "dropWhile (\<lambda>x. x \<noteq> CHR ''?'') (escape_path p @ xs) = dropWhile (\<lambda>x. x \<noteq> CHR ''?'') xs" for xs
    using nq by (simp_all add: takeWhile_append2 dropWhile_append2)
  moreover have "takeWhile (\<lambda>x. x \<noteq> CHR ''?'') (escape_path p) = escape_path p"
    using nq by (simp add: takeWhile_eq_all_conv)
  ultimately show ?thesis
    by (cases q) (simp_all add: parse_target_def unescape_escape_path escape_path_no_query
        del: takeWhile_eq_all_conv)
qed

end
