(* ===== verification/Mux.thy ===== *)
theory Mux
  imports Http UrlPath
begin

text \<open>
  The dispatch of \<open>github.com/gorilla/mux\<close> as \<open>router.go\<close> uses it: routes
  registered with \<open>HandleFunc(path, f).Methods(m)\<close>, middlewares registered with
  \<open>Use\<close>, and \<open>Router.ServeHTTP\<close>.  A route matches when its path template (here
  always a literal path) equals the request path exactly and the request method is
  one of the route's methods.  Before matching, a request whose path \<open>cleanPath\<close>
  would change is answered 301 with the cleaned path (and the request's query) in
  \<open>Location\<close>, and nothing else runs: no route, no middleware.  The first matching
  route is served wrapped in the middlewares, the first registered outermost; the
  middlewares are applied only to a matched route.  A path that some route has but
  no route with that method gives 405 with an empty body; any other request gives
  \<open>http.NotFound\<close>.
\<close>

record 's route =
  route_path :: string
  route_methods :: "string list"
  route_handler :: "'s handler"

record 's mux =
  mux_routes :: "'s route list"
  mux_middlewares :: "('s handler \<Rightarrow> 's handler) list"

definition NewMuxRouter :: "'s mux" where
  "NewMuxRouter = \<lparr>mux_routes = [], mux_middlewares = []\<rparr>"

definition HandleFunc :: "string \<Rightarrow> 's handler \<Rightarrow> string list \<Rightarrow> 's mux \<Rightarrow> 's mux" where
  "HandleFunc path f methods m =
     m\<lparr>mux_routes := mux_routes m @ [\<lparr>route_path = path, route_methods = methods, route_handler = f\<rparr>]\<rparr>"

definition Use :: "('s handler \<Rightarrow> 's handler) \<Rightarrow> 's mux \<Rightarrow> 's mux" where
  "Use mw m = m\<lparr>mux_middlewares := mux_middlewares m @ [mw]\<rparr>"

datatype 's route_match = Matched "'s handler" | MethodMismatch | NoMatch

fun match_routes :: "'s route list \<Rightarrow> request \<Rightarrow> bool \<Rightarrow> 's route_match" where
  "match_routes [] r mismatch = (if mismatch then MethodMismatch else NoMatch)"
| "match_routes (rt # rts) r mismatch =
     (if route_path rt = req_path r then
        (if req_method r \<in> set (route_methods rt) then Matched (route_handler rt)
         else match_routes rts r True)
      else match_routes rts r mismatch)"

definition apply_middlewares :: "('s handler \<Rightarrow> 's handler) list \<Rightarrow> 's handler \<Rightarrow> 's handler" where
  "apply_middlewares mws h = foldr (\<lambda>mw h. mw h) mws h"

definition methodNotAllowed :: "'s handler" where
  "methodNotAllowed r st = (Returned, hs_write_header StatusMethodNotAllowed st)"

text \<open>The redirect of \<open>ServeHTTP\<close>: \<open>w.Header().Set("Location", p)\<close>, then
  \<open>w.WriteHeader(http.StatusMovedPermanently)\<close>, then return.\<close>

definition redirect :: "string \<Rightarrow> 's hstate \<Rightarrow> outcome \<times> 's hstate" where
  "redirect loc st = (Returned, hs_write_header StatusMovedPermanently (hs_header_set ''Location'' loc st))"

definition ServeHTTP :: "'s mux \<Rightarrow> 's handler" where
  "ServeHTTP m r st =
     (let p = cleanPath (req_path r) in
      if p \<noteq> req_path r then redirect (url_String p (req_query r)) st
      else case match_routes (mux_routes m) r False of
        Matched h \<Rightarrow> apply_middlewares (mux_middlewares m) h r st
      | MethodMismatch \<Rightarrow> methodNotAllowed r st
      | NoMatch \<Rightarrow> NotFound r st)"

text \<open>The matching rule read declaratively: the first route with the request's path
  and method, else 405 when some route has the path, else 404.\<close>

definition match_ref :: "'s route list \<Rightarrow> request \<Rightarrow> 's route_match" where
  "match_ref rts r =
     (case find (\<lambda>rt. route_path rt = req_path r \<and> req_method r \<in> set (route_methods rt)) rts of
        Some rt \<Rightarrow> Matched (route_handler rt)
      | None \<Rightarrow> if \<exists>rt\<in>set rts. route_path rt = req_path r then MethodMismatch else NoMatch)"

subsection \<open>Matching\<close>

text \<open>The loop over the routes computes the declarative rule; the flag records a route
  with the path seen earlier.\<close>

lemma match_routes_find:
  "match_routes rts r mm =
     (case find (\<lambda>rt. route_path rt = req_path r \<and> req_method r \<in> set (route_methods rt)) rts of
        Some rt \<Rightarrow> Matched (route_handler rt)
      | None \<Rightarrow> if mm \<or> (\<exists>rt\<in>set rts. route_path rt = req_path r) then MethodMismatch else NoMatch)"
  by (induction rts r mm rule: match_routes.induct) auto

lemma match_routes_ref: "match_routes rts r False = match_ref rts r"
  by (auto simp: match_routes_find match_ref_def split: option.split)

lemma match_routes_Matched:
  "match_routes rts r mm = Matched h \<Longrightarrow>
   \<exists>rt\<in>set rts. route_path rt = req_path r \<and> req_method r \<in> set (route_methods rt) \<and> route_handler rt = h"
  by (induction rts r mm rule: match_routes.induct) (auto split: if_splits)

lemma match_routes_NoMatch:
  "(\<forall>rt\<in>set rts. route_path rt \<noteq> req_path r) \<Longrightarrow> match_routes rts r mm = (if mm then MethodMismatch else NoMatch)"
  by (induction rts r mm rule: match_routes.induct) auto

lemma apply_middlewares_single [simp]: "apply_middlewares [mw] h = mw h"
  by (simp add: apply_middlewares_def)

lemma redirect_frame:
  "fst (redirect loc st) = Returned"
  "hs_store (snd (redirect loc st)) = hs_store st"
  "hs_log (snd (redirect loc st)) = hs_log st"
  "w_body (hs_w (snd (redirect loc st))) = w_body (hs_w st)"
  by (simp_all add: redirect_def hs_write_header_def hs_header_set_def WriteHeader_def header_set_def
      split: option.split)

lemma redirect_fresh:
  "w_status (hs_w st) = None \<Longrightarrow>
   resp_status (hs_w (snd (redirect loc st))) = StatusMovedPermanently \<and>
   w_sent_header (hs_w (snd (redirect loc st))) ''Location'' = Some [loc]"
  by (simp add: redirect_def hs_write_header_def hs_header_set_def WriteHeader_def header_set_def
      resp_status_def)

lemma NotFound_healthy:
  assumes "w_status (hs_w st) = None" and "w_fail (hs_w st) = None"
  shows "NotFound r st = (Returned, st\<lparr>hs_w := (WriteHeader StatusNotFound
            (header_set ''X-Content-Type-Options'' ''nosniff''
              (header_set ''Content-Type'' ''text/plain; charset=utf-8''
                (header_del ''Content-Length'' (hs_w st)))))\<lparr>w_body := w_body (hs_w st) @ ''404 page not found\<newline>''\<rparr>\<rparr>)"
  using assms
  by (simp add: NotFound_def http_Error_def hs_write_header_def hs_write_ok Let_def
      header_set_def header_del_def WriteHeader_def)

end
