(* ===== verification/Router.thy ===== *)
theory Router
  imports Auth Handlers Mux
begin

text \<open>
  \<open>Router\<close> and \<open>NewRouter\<close> of \<open>router.go\<close>: the router value holds the mux, the
  driver, the key map and the port (the logger is the log of the handler state).
  \<open>NewRouter\<close> registers \<open>GET /\<close> for \<open>HealthCheck\<close> and \<open>POST /v0/count\<close> for
  \<open>CreateCount\<close>, installs the authorization gate as the mux's one middleware and
  returns the router with a nil error.  \<open>serve\<close> is the server handing one request to
  the mux, \<open>rt.router.ServeHTTP\<close>, from a fresh response writer.
\<close>

record 's Router =
  rt_router :: "'s mux"
  rt_driver :: "'s driver"
  rt_apiKeys :: "string \<rightharpoonup> bool"
  rt_port :: string

definition NewRouter :: "decoder \<Rightarrow> 's driver \<Rightarrow> (string \<rightharpoonup> bool) \<Rightarrow> string \<Rightarrow> 's Router \<times> goerr option" where
  "NewRouter decode driver apiKeys port =
     (let m0 = NewMuxRouter;
          m1 = HandleFunc ''/'' HealthCheck [MethodGet] m0;
          m2 = HandleFunc ''/v0/count'' (CreateCount decode driver) [MethodPost] m1;
          m3 = Use (AuthorizationHandler apiKeys) m2
      in (\<lparr>rt_router = m3, rt_driver = driver, rt_apiKeys = apiKeys, rt_port = port\<rparr>, None))"

definition serve :: "'s Router \<Rightarrow> goerr option \<Rightarrow> 's \<Rightarrow> request \<Rightarrow> outcome \<times> 's hstate" where
  "serve rt conn s r = ServeHTTP (rt_router rt) r (start_state conn s)"

text \<open>Requests served one after another on healthy connections, each starting from the
  store the previous one left; the statuses in order.  \<open>accepted_records\<close> is what
  the ingestion route hands to the store: the decoded record of every authorized
  \<open>POST /v0/count\<close> whose body decodes.\<close>

fun serve_all :: "'s Router \<Rightarrow> 's \<Rightarrow> request list \<Rightarrow> 's \<times> int list" where
  "serve_all rt s [] = (s, [])"
| "serve_all rt s (r # rs) =
     (let st = snd (serve rt None s r); res = serve_all rt (hs_store st) rs
      in (fst res, resp_status (hs_w st) # snd res))"

definition ingests :: "(string \<rightharpoonup> bool) \<Rightarrow> request \<Rightarrow> bool" where
  "ingests keys r \<longleftrightarrow> req_path r = ''/v0/count'' \<and> req_method r = MethodPost \<and> authorized keys r"

definition accepted_records :: "decoder \<Rightarrow> (string \<rightharpoonup> bool) \<Rightarrow> request list \<Rightarrow> relay_count list" where
  "accepted_records decode keys rs =
     concat (map (\<lambda>r. if ingests keys r \<and> \<not> req_ctx_done r
                       then (case decode (req_body r) of Inl _ \<Rightarrow> [] | Inr c \<Rightarrow> [c]) else []) rs)"

subsection \<open>The router NewRouter builds\<close>

lemma cleanPath_routes [simp]: "cleanPath ''/'' = ''/''" "cleanPath ''/v0/count'' = ''/v0/count''"
  by (simp_all add: cleanPath_def path_Clean_def)

lemma NewRouter_mux:
  "rt_router (fst (NewRouter decode drv keys port)) =
     \<lparr>mux_routes = [\<lparr>route_path = ''/'', route_methods = [MethodGet], route_handler = HealthCheck\<rparr>,
                   \<lparr>route_path = ''/v0/count'', route_methods = [MethodPost],
                    route_handler = CreateCount decode drv\<rparr>],
      mux_middlewares = [AuthorizationHandler keys]\<rparr>"
  by (simp add: NewRouter_def NewMuxRouter_def HandleFunc_def Use_def)

lemma NewRouter_no_error: "snd (NewRouter decode drv keys port) = None"
  by (simp add: NewRouter_def Let_def)

text \<open>Dispatch of the built router, one lemma per outcome of route matching.\<close>

lemma serve_health_route [handler_simps]:
  "req_path r = ''/'' \<Longrightarrow> req_method r = MethodGet \<Longrightarrow>
   serve (fst (NewRouter decode drv keys port)) conn s r = HealthCheck r (start_state conn s)"
  by (simp add: serve_def ServeHTTP_def NewRouter_mux auth_health)

lemma serve_count_route [handler_simps]:
  "req_path r = ''/v0/count'' \<Longrightarrow> req_method r = MethodPost \<Longrightarrow>
   serve (fst (NewRouter decode drv keys port)) conn s r =
     AuthorizationHandler keys (CreateCount decode drv) r (start_state conn s)"
  by (simp add: serve_def ServeHTTP_def NewRouter_mux)

lemma serve_method_mismatch [handler_simps]:
  "req_path r \<in> {''/'', ''/v0/count''} \<Longrightarrow>
   (req_path r = ''/'' \<longrightarrow> req_method r \<noteq> MethodGet) \<Longrightarrow>
   (req_path r = ''/v0/count'' \<longrightarrow> req_method r \<noteq> MethodPost) \<Longrightarrow>
   serve (fst (NewRouter decode drv keys port)) conn s r = methodNotAllowed r (start_state conn s)"
  by (auto simp: serve_def ServeHTTP_def NewRouter_mux)

lemma serve_redirect [handler_simps]:
  "cleanPath (req_path r) \<noteq> req_path r \<Longrightarrow>
   serve (fst (NewRouter decode drv keys port)) conn s r =
     redirect (url_String (cleanPath (req_path r)) (req_query r)) (start_state conn s)"
  by (simp add: serve_def ServeHTTP_def)

lemma serve_no_route [handler_simps]:
  "cleanPath (req_path r) = req_path r \<Longrightarrow> req_path r \<notin> {''/'', ''/v0/count''} \<Longrightarrow>
   serve (fst (NewRouter decode drv keys port)) conn s r = NotFound r (start_state conn s)"
  by (auto simp: serve_def ServeHTTP_def NewRouter_mux)

text \<open>A property of handler states that every handler of the router keeps holds after
  any request: the redirect needs to keep it only for a non-canonical path.\<close>

lemma serve_invariant:
  assumes start: "P (start_state conn s)"
    and redir: "cleanPath (req_path r) \<noteq> req_path r \<Longrightarrow>
      P (snd (redirect (url_String (cleanPath (req_path r)) (req_query r)) (start_state conn s)))"
    and handlers: "\<And>st. P st \<Longrightarrow> P (snd (HealthCheck r st)) \<and> P (snd (NotFound r st)) \<and>
      P (snd (methodNotAllowed r st)) \<and> P (snd (CreateCount decode drv r st))"
    and auth: "\<And>h st. P st \<Longrightarrow> (\<And>st. P st \<Longrightarrow> P (snd (h r st))) \<Longrightarrow>
      P (snd (AuthorizationHandler keys h r st))"
  shows "P (snd (serve (fst (NewRouter decode drv keys port)) conn s r))"
proof (cases "req_path r \<in> {''/'', ''/v0/count''}")
  case False
  then show ?thesis using start redir handlers
    by (cases "cleanPath (req_path r) = req_path r") (simp_all add: serve_no_route serve_redirect)
next
  case True
  consider (health) "req_path r = ''/''" "req_method r = MethodGet"
    | (count) "req_path r = ''/v0/count''" "req_method r = MethodPost"
    | (mismatch) "(req_path r = ''/'' \<longrightarrow> req_method r \<noteq> MethodGet)"
        "(req_path r = ''/v0/count'' \<longrightarrow> req_method r \<noteq> MethodPost)"
    by blast
  then show ?thesis
  proof cases
    case health
    then show ?thesis using start handlers by (simp add: serve_health_route)
  next
    case count
    then show ?thesis using start handlers auth [of _ "CreateCount decode drv"]
      by (simp add: serve_count_route)
  next
    case mismatch
    with True show ?thesis using start handlers by (simp add: serve_method_mismatch)
  qed
qed

subsection \<open>What a request does to the store\<close>

lemma handler_store_frames:
  "hs_store (snd (HealthCheck r st)) = hs_store st"
  "hs_store (snd (NotFound r st)) = hs_store st"
  "hs_store (snd (methodNotAllowed r st)) = hs_store st"
  "hs_store (snd (redirect loc st)) = hs_store st"
  "hs_store (snd (write_or_panic m (hs_write_header c st))) = hs_store st"
  by (simp_all add: HealthCheck_def NotFound_def http_Error_def methodNotAllowed_def
      hs_write_header_def Let_def redirect_frame)

lemma serve_store:
  "hs_store (snd (serve (fst (NewRouter decode drv keys port)) conn s r)) =
     (if ingests keys r then
        (case decode (req_body r) of Inl _ \<Rightarrow> s | Inr c \<Rightarrow> snd (WriteRelayCount drv (req_ctx_done r) c s))
      else s)"
proof (cases "req_path r \<in> {''/'', ''/v0/count''}")
  case False
  then show ?thesis
    by (cases "cleanPath (req_path r) = req_path r")
      (auto simp: serve_no_route serve_redirect handler_store_frames ingests_def)
next
  case True
  consider (health) "req_path r = ''/''" "req_method r = MethodGet"
    | (count) "req_path r = ''/v0/count''" "req_method r = MethodPost"
    | (mismatch) "(req_path r = ''/'' \<longrightarrow> req_method r \<noteq> MethodGet)"
        "(req_path r = ''/v0/count'' \<longrightarrow> req_method r \<noteq> MethodPost)"
    by blast
  then show ?thesis
  proof cases
    case health
    then show ?thesis by (simp add: serve_health_route handler_store_frames ingests_def)
  next
    case count
    then show ?thesis
      by (cases "authorized keys r")
        (simp_all add: serve_count_route auth_pass auth_reject CreateCount_store
          handler_store_frames ingests_def hs_write_header_def split: sum.split)
  next
    case mismatch
    with True show ?thesis
      by (auto simp: serve_method_mismatch handler_store_frames ingests_def)
  qed
qed

end
