(* ===== verification/Lifecycle.thy ===== *)
theory Lifecycle
  imports Http
begin

text \<open>
  \<open>Router.RunServer\<close> (router.go 62-86).  It builds an \<open>http.Server\<close>, logs the port,
  and starts two tasks in an \<open>errgroup\<close> whose context \<open>gCtx\<close> is cancelled when the
  parent context is or when a task returns a non-nil error (the first such error is
  kept): the serve task \<open>ListenAndServe\<close>, and a watcher that waits for \<open>gCtx\<close>, logs,
  and calls \<open>Shutdown(context.Background())\<close>.  \<open>Wait\<close> returns when both tasks
  have, and its error is logged as the exit reason.

  The tasks, the listener and the clients run concurrently, so the model is a step
  function over events, each the next action of one party, with its guard; a run is
  a list of events, and the reachable states are those of every run.  The server side
  follows net/http: \<open>ListenAndServe\<close> binds or fails, accepts requests until
  shutdown starts, a fatal accept error ends it, and once shutdown has started it
  returns \<open>ErrServerClosed\<close> (also when shutdown came before it bound);
  \<open>Shutdown\<close> stops new requests at once and returns, with the error of closing
  the listeners, only when no request is in flight, since its context is never
  cancelled.  \<open>active\<close> counts the requests being handled.
\<close>

datatype serve_task = NotStarted | Listening | ServeReturned goerr

datatype watcher_task = Waiting | ShuttingDown | WatcherReturned

record lstate =
  ctx_done :: bool
  group_err :: "goerr option"
  serve_st :: serve_task
  in_shutdown :: bool
  active :: nat
  watcher_st :: watcher_task
  returned :: bool
  lc_log :: "log_entry list"

definition ErrServerClosed :: goerr where
  "ErrServerClosed = ''http: Server closed''"

text \<open>\<open>gCtx.Done()\<close> is closed once the parent is cancelled or a task failed.\<close>

definition gctx_done :: "lstate \<Rightarrow> bool" where
  "gctx_done s \<longleftrightarrow> ctx_done s \<or> group_err s \<noteq> None"

fun serve_returned :: "serve_task \<Rightarrow> bool" where
  "serve_returned (ServeReturned _) = True"
| "serve_returned _ = False"

fun serve_err :: "serve_task \<Rightarrow> goerr option" where
  "serve_err (ServeReturned e) = Some e"
| "serve_err _ = None"

text \<open>The state after \<open>RunServer\<close> logged the port and started both tasks, under a
  parent context that may already be cancelled.\<close>

definition run_start :: "string \<Rightarrow> bool \<Rightarrow> lstate" where
  "run_start port cancelled =
     \<lparr>ctx_done = cancelled, group_err = None, serve_st = NotStarted, in_shutdown = False,
      active = 0, watcher_st = Waiting, returned = False,
      lc_log = [info_entry (''Relay Counter is running in port: '' @ port)]\<rparr>"

text \<open>The serve task returns \<open>e\<close>: errgroup keeps the first error and cancels \<open>gCtx\<close>.
  \<open>ListenAndServe\<close> never returns nil.\<close>

definition serve_return :: "goerr \<Rightarrow> lstate \<Rightarrow> lstate" where
  "serve_return e s =
     s\<lparr>serve_st := ServeReturned e,
       group_err := (case group_err s of None \<Rightarrow> Some e | Some e0 \<Rightarrow> Some e0)\<rparr>"

datatype event =
    Cancel
  | Bind
  | BindFail goerr
  | Accept
  | Finish
  | AcceptFail goerr
  | Wake
  | ServerClosed
  | Drained "goerr option"
  | WaitReturns

fun lc_step :: "lstate \<Rightarrow> event \<Rightarrow> lstate option" where
  "lc_step s Cancel = (if ctx_done s then None else Some (s\<lparr>ctx_done := True\<rparr>))"
| "lc_step s Bind =
     (if serve_st s = NotStarted \<and> \<not> in_shutdown s then Some (s\<lparr>serve_st := Listening\<rparr>) else None)"
| "lc_step s (BindFail e) =
     (if serve_st s = NotStarted \<and> \<not> in_shutdown s then Some (serve_return e s) else None)"
| "lc_step s Accept =
     (if serve_st s = Listening \<and> \<not> in_shutdown s then Some (s\<lparr>active := Suc (active s)\<rparr>) else None)"
| "lc_step s Finish = (if 0 < active s then Some (s\<lparr>active := active s - 1\<rparr>) else None)"
| "lc_step s (AcceptFail e) =
     (if serve_st s = Listening \<and> \<not> in_shutdown s then Some (serve_return e s) else None)"
| "lc_step s Wake =
     (if watcher_st s = Waiting \<and> gctx_done s then
        Some (s\<lparr>watcher_st := ShuttingDown, in_shutdown := True,
                lc_log := lc_log s @ [info_entry ''HTTP router context finished'']\<rparr>)
      else None)"
| "lc_step s ServerClosed =
     (if \<not> serve_returned (serve_st s) \<and> in_shutdown s then Some (serve_return ErrServerClosed s)
      else None)"
| "lc_step s (Drained r) =
     (if watcher_st s = ShuttingDown \<and> active s = 0 then
        Some (s\<lparr>watcher_st := WatcherReturned,
                lc_log := lc_log s @ (case r of None \<Rightarrow> []
                  | Some e \<Rightarrow> [error_entry (''Error closing http server: '' @ e)])\<rparr>)
      else None)"
| "lc_step s WaitReturns =
     (if serve_returned (serve_st s) \<and> watcher_st s = WatcherReturned \<and> \<not> returned s then
        Some (s\<lparr>returned := True,
                lc_log := lc_log s @ (case group_err s of None \<Rightarrow> []
                  | Some e \<Rightarrow> [info_entry (''exit reason: '' @ e)])\<rparr>)
      else None)"

fun lc_run :: "lstate \<Rightarrow> event list \<Rightarrow> lstate option" where
  "lc_run s [] = Some s"
| "lc_run s (e # es) = (case lc_step s e of None \<Rightarrow> None | Some t \<Rightarrow> lc_run t es)"

inductive reachable :: "lstate \<Rightarrow> bool" where
  start: "reachable (run_start port cancelled)"
| step: "reachable s \<Longrightarrow> lc_step s e = Some t \<Longrightarrow> reachable t"

text \<open>How far a state is from the return of \<open>RunServer\<close>, counting the steps that
  remain possible once shutdown has started.\<close>

fun serve_rank :: "serve_task \<Rightarrow> nat" where
  "serve_rank NotStarted = 2"
| "serve_rank Listening = 1"
| "serve_rank (ServeReturned _) = 0"

fun watcher_rank :: "watcher_task \<Rightarrow> nat" where
  "watcher_rank Waiting = 2"
| "watcher_rank ShuttingDown = 1"
| "watcher_rank WatcherReturned = 0"

definition lc_measure :: "lstate \<Rightarrow> nat" where
  "lc_measure s =
     (if ctx_done s then 0 else 1) + serve_rank (serve_st s) + watcher_rank (watcher_st s)
     + active s + (if returned s then 0 else 1)"

text \<open>
  The invariant of the reachable states: the group error is the serve task's error
  (the watcher always returns nil); shutdown has started exactly when the watcher
  left its wait, and only after \<open>gCtx\<close> was done; no request is in flight before
  the server bound or after \<open>Shutdown\<close> returned; and once \<open>RunServer\<close> has
  returned both tasks have, and the last log line is the exit reason.
\<close>

definition lc_inv :: "lstate \<Rightarrow> bool" where
  "lc_inv s \<longleftrightarrow>
     group_err s = serve_err (serve_st s) \<and>
     (watcher_st s \<noteq> Waiting \<longleftrightarrow> in_shutdown s) \<and>
     (in_shutdown s \<longrightarrow> gctx_done s) \<and>
     (watcher_st s = WatcherReturned \<longrightarrow> active s = 0) \<and>
     (serve_st s = NotStarted \<longrightarrow> active s = 0) \<and>
     (returned s \<longrightarrow> serve_returned (serve_st s) \<and> watcher_st s = WatcherReturned \<and>
        (case group_err s of None \<Rightarrow> False
         | Some e \<Rightarrow> last (lc_log s) = info_entry (''exit reason: '' @ e)))"

subsection \<open>Runs and reachable states\<close>

lemma serve_rank_pos: "\<not> serve_returned st \<Longrightarrow> 0 < serve_rank st"
  by (cases st) simp_all

lemma lc_run_append:
  "lc_run s (xs @ ys) = (case lc_run s xs of None \<Rightarrow> None | Some t \<Rightarrow> lc_run t ys)"
  by (induction xs arbitrary: s) (auto split: option.split)

lemma lc_run_Cons_Some:
  "lc_run s (e # es) = Some u \<longleftrightarrow> (\<exists>t. lc_step s e = Some t \<and> lc_run t es = Some u)"
  by (simp split: option.split)

lemma lc_run_reachable: "lc_run s evs = Some t \<Longrightarrow> reachable s \<Longrightarrow> reachable t"
  by (induction evs arbitrary: s) (auto split: option.splits intro: reachable.step)

lemma lc_inv_start: "lc_inv (run_start port c)"
  by (simp add: lc_inv_def run_start_def)

lemma lc_step_inv:
  assumes "lc_step s e = Some t" and "lc_inv s"
  shows "lc_inv t"
proof (cases e)
  case Cancel
  then show ?thesis using assms by (auto simp: lc_inv_def gctx_done_def split: if_splits)
next
  case Bind
  then show ?thesis using assms by (auto simp: lc_inv_def gctx_done_def split: if_splits)
next
  case (BindFail x)
  then show ?thesis using assms by (auto simp: lc_inv_def serve_return_def gctx_done_def split: if_splits)
next
  case Accept
  then show ?thesis using assms by (auto simp: lc_inv_def gctx_done_def split: if_splits)
next
  case Finish
  then show ?thesis using assms by (auto simp: lc_inv_def gctx_done_def split: if_splits)
next
  case (AcceptFail x)
  then show ?thesis using assms by (auto simp: lc_inv_def serve_return_def gctx_done_def split: if_splits)
next
  case Wake
  then show ?thesis using assms by (auto simp: lc_inv_def gctx_done_def split: if_splits)
next
  case ServerClosed
  then show ?thesis using assms
    by (cases "serve_st s") (auto simp: lc_inv_def serve_return_def gctx_done_def split: if_splits)
next
  case (Drained x)
  then show ?thesis using assms by (auto simp: lc_inv_def gctx_done_def split: if_splits)
next
  case WaitReturns
  then show ?thesis using assms by (cases "serve_st s") (auto simp: lc_inv_def gctx_done_def split: if_splits option.split)
qed

lemma reachable_inv: "reachable s \<Longrightarrow> lc_inv s"
proof (induction rule: reachable.induct)
  case (start port cancelled)
  show ?case by (rule lc_inv_start)
next
  case (step s e t)
  then show ?case by (blast intro: lc_step_inv)
qed

lemma step_after_shutdown:
  assumes "lc_step s e = Some t" and "in_shutdown s"
  shows "in_shutdown t" and "active t \<le> active s" and "lc_measure t < lc_measure s"
proof -
  show "in_shutdown t" and "active t \<le> active s"
    using assms by (cases e; auto simp: serve_return_def split: if_splits)+
  show "lc_measure t < lc_measure s"
    using assms
    by (cases e) (auto simp: lc_measure_def serve_return_def serve_rank_pos split: if_splits)
qed

lemma step_keeps_active: "lc_step s e = Some t \<Longrightarrow> e \<noteq> Finish \<Longrightarrow> active s \<le> active t"
  by (cases e) (auto simp: serve_return_def split: if_splits)

lemma run_keeps_active: "lc_run s evs = Some t \<Longrightarrow> Finish \<notin> set evs \<Longrightarrow> active s \<le> active t"
proof (induction evs arbitrary: s)
  case Nil
  then show ?case by simp
next
  case (Cons e evs)
  then obtain u where step: "lc_step s e = Some u" and run: "lc_run u evs = Some t"
    by (auto split: option.splits)
  from step Cons.prems(2) have "active s \<le> active u" by (auto dest: step_keeps_active)
  also from run Cons.prems(2) have "active u \<le> active t" by (auto intro: Cons.IH)
  finally show ?case .
qed

text \<open>Progress: after shutdown began and before the return, some party can move.\<close>

lemma shutdown_progress:
  assumes "lc_inv s" and "in_shutdown s" and "\<not> returned s"
  shows "\<exists>e t. lc_step s e = Some t"
proof (cases "0 < active s")
  case True
  then show ?thesis by (intro exI [of _ Finish]) simp
next
  case idle: False
  show ?thesis
  proof (cases "serve_returned (serve_st s)")
    case False
    with assms(2) show ?thesis by (intro exI [of _ ServerClosed]) simp
  next
    case served: True
    show ?thesis
    proof (cases "watcher_st s")
      case Waiting
      with assms(1,2) show ?thesis by (simp add: lc_inv_def)
    next
      case ShuttingDown
      with idle show ?thesis by (intro exI [of _ "Drained None"]) simp
    next
      case WatcherReturned
      with served assms(3) show ?thesis by (intro exI [of _ WaitReturns]) simp
    qed
  qed
qed

lemma shutdown_reaches_return:
  assumes "lc_inv s" and "in_shutdown s"
  shows "\<exists>evs t. lc_run s evs = Some t \<and> returned t"
  using assms
proof (induction "lc_measure s" arbitrary: s rule: less_induct)
  case less
  show ?case
  proof (cases "returned s")
    case True
    then show ?thesis by (intro exI [of _ "[]"]) simp
  next
    case False
    with less.prems obtain e t where step: "lc_step s e = Some t"
      using shutdown_progress by blast
    with less.prems have "lc_inv t" and "in_shutdown t" and "lc_measure t < lc_measure s"
      using lc_step_inv step_after_shutdown by blast+
    with less.hyps obtain evs u where "lc_run t evs = Some u" and "returned u"
      by blast
    with step show ?thesis by (intro exI [of _ "e # evs"]) simp
  qed
qed

section \<open>Properties of RunServer\<close>

text \<open>C11: \<open>RunServer\<close> returns only after both tasks returned, shutdown ran to its end
  and no request is in flight; and only after \<open>gCtx\<close> was done.\<close>

theorem returns_only_when_drained:
  assumes "reachable s" and "returned s"
  shows "watcher_st s = WatcherReturned \<and> serve_returned (serve_st s) \<and> active s = 0 \<and>
    in_shutdown s \<and> gctx_done s"
  using reachable_inv [OF assms(1)] assms(2) by (auto simp: lc_inv_def)

text \<open>C12: when \<open>RunServer\<close> returns, the reported exit reason is the serve task's
  error, logged last: the watcher returns nil and never decides it.\<close>

theorem exit_reason_is_serve_error:
  assumes "reachable s" and "returned s"
  shows "\<exists>e. serve_st s = ServeReturned e \<and> group_err s = Some e \<and>
    last (lc_log s) = info_entry (''exit reason: '' @ e)"
proof -
  have inv: "lc_inv s" using assms(1) by (rule reachable_inv)
  then obtain e where "serve_st s = ServeReturned e"
    using assms(2) serve_returned.elims(2) unfolding lc_inv_def by blast
  with inv assms(2) show ?thesis by (auto simp: lc_inv_def)
qed

text \<open>C13: once shutdown has begun, every schedule of the remaining parties is finite:
  a run from such a state has at most \<open>lc_measure\<close> steps.\<close>

theorem shutdown_run_bounded:
  assumes "lc_run s evs = Some t" and "in_shutdown s"
  shows "length evs \<le> lc_measure s"
  using assms
proof (induction evs arbitrary: s)
  case Nil
  then show ?case by simp
next
  case (Cons e evs)
  then obtain u where step: "lc_step s e = Some u" and run: "lc_run u evs = Some t"
    by (auto split: option.splits)
  from step Cons.prems(2) have "in_shutdown u" and "lc_measure u < lc_measure s"
    by (blast dest: step_after_shutdown)+
  with run Cons.IH show ?case by fastforce
qed

text \<open>C14: from every reachable state in which \<open>gCtx\<close> is done (the parent context was
  cancelled or the server failed), some schedule leads to the return of
  \<open>RunServer\<close>: the watcher wakes, the in-flight requests finish, the serve task
  returns, \<open>Shutdown\<close> completes, \<open>Wait\<close> returns.\<close>

theorem cancel_leads_to_return:
  assumes "reachable s" and "gctx_done s"
  shows "\<exists>evs t. lc_run s evs = Some t \<and> returned t"
proof (cases "in_shutdown s")
  case True
  with reachable_inv [OF assms(1)] show ?thesis by (rule shutdown_reaches_return)
next
  case False
  have inv: "lc_inv s" using assms(1) by (rule reachable_inv)
  with False have "watcher_st s = Waiting" by (simp add: lc_inv_def)
  with assms(2) obtain u where step: "lc_step s Wake = Some u" and "in_shutdown u" by simp
  moreover from step inv have "lc_inv u" by (rule lc_step_inv)
  ultimately obtain evs t where "lc_run u evs = Some t" and "returned t"
    using shutdown_reaches_return by blast
  with step show ?thesis by (intro exI [of _ "Wake # evs"]) simp
qed

text \<open>C15: shutdown has no grace bound: while a request is in flight and never
  finishes, no schedule lets \<open>RunServer\<close> return, because \<open>Shutdown\<close> runs under
  \<open>context.Background()\<close> and waits for every request.\<close>

theorem hung_request_blocks_return:
  assumes "reachable s" and "0 < active s" and "Finish \<notin> set evs" and "lc_run s evs = Some t"
  shows "\<not> returned t"
proof
  assume ret: "returned t"
  have "reachable t" using assms(4,1) by (rule lc_run_reachable)
  with ret have "active t = 0" using reachable_inv [of t] by (auto simp: lc_inv_def)
  moreover have "active s \<le> active t" using assms(4,3) by (rule run_keeps_active)
  ultimately show False using assms(2) by simp
qed

text \<open>C16: as long as the parent context is live and the server has not failed, the
  watcher waits, no shutdown has started and \<open>RunServer\<close> has not returned.\<close>

theorem idle_until_cancelled:
  assumes "reachable s" and "\<not> gctx_done s"
  shows "watcher_st s = Waiting \<and> \<not> in_shutdown s \<and> \<not> returned s"
  using reachable_inv [OF assms(1)] assms(2) by (auto simp: lc_inv_def)

end
