(* ===== verification/JsonRead.thy ===== *)
theory JsonRead
  imports Json
begin

text \<open>
  Reading a JSON string literal the way Go's \<open>encoding/json\<close> does: the scanner checks
  the literal byte by byte (a control byte, a bad escape or a bad hexadecimal digit is a
  \<open>SyntaxError\<close> whose message names the byte with \<open>quoteChar\<close>), and \<open>unquote\<close>
  decodes it: the two-character escapes, \<open>\uXXXX\<close> escapes (a surrogate pair is joined,
  a lone surrogate becomes U+FFFD), raw ASCII bytes, valid UTF-8 sequences copied,
  and a byte that starts no valid sequence replaced by U+FFFD.  \<open>read_str\<close> starts after
  the opening quote and returns the decoded text and what follows the closing quote.
  The main results: the reader inverts the encoder \<open>json_str\<close> of the Json theory,
  up to the replacement of invalid UTF-8, and the encoder's output is always valid
  UTF-8.
\<close>

abbreviation squote :: char where "squote \<equiv> CHR 0x27"

subsection \<open>Error messages\<close>

text \<open>\<open>strconv.Quote\<close> of a byte read as the rune U+00XX, without its quotes, as
  \<open>quoteChar\<close> of the scanner uses it.\<close>

definition go_quote_rune :: "char \<Rightarrow> string" where
  "go_quote_rune c =
     (let n = of_char c :: nat in
      if c = bslash then [bslash, bslash]
      else if 0x20 \<le> n \<and> n < 0x7F then [c]
      else if n = 7 then [bslash, CHR ''a''] else if n = 8 then [bslash, CHR ''b'']
      else if n = 12 then [bslash, CHR ''f''] else if n = 10 then [bslash, CHR ''n'']
      else if n = 13 then [bslash, CHR ''r''] else if n = 9 then [bslash, CHR ''t'']
      else if n = 11 then [bslash, CHR ''v'']
      else if n < 0x80 then [bslash, CHR ''x'', hex_digit (n div 16), hex_digit (n mod 16)]
      else if n < 0xA1 \<or> n = 0xAD then
        [bslash, CHR ''u'', CHR ''0'', CHR ''0'', hex_digit (n div 16), hex_digit (n mod 16)]
      else [char_of (0xC0 + n div 64), char_of (0x80 + n mod 64)])"

definition quoteChar :: "char \<Rightarrow> string" where
  "quoteChar c =
     (if c = squote then [squote, bslash, squote, squote]
      else if c = dquote then [squote, dquote, squote]
      else squote # go_quote_rune c @ [squote])"

definition syntax_msg :: "char \<Rightarrow> string \<Rightarrow> goerr" where
  "syntax_msg c ctx = ''invalid character '' @ quoteChar c @ '' '' @ ctx"

definition ErrUnexpectedEOF :: goerr where
  "ErrUnexpectedEOF = ''unexpected EOF''"

subsection \<open>Pieces of the reader\<close>

definition fffd :: string where
  "fffd = [CHR 0xEF, CHR 0xBF, CHR 0xBD]"

definition simple_escape :: "char \<Rightarrow> char option" where
  "simple_escape d =
     (if d = dquote \<or> d = bslash \<or> d = CHR ''/'' then Some d
      else if d = CHR ''b'' then Some (char_of (8::nat)) else if d = CHR ''f'' then Some (char_of (12::nat))
      else if d = CHR ''n'' then Some (char_of (10::nat)) else if d = CHR ''r'' then Some (char_of (13::nat))
      else if d = CHR ''t'' then Some (char_of (9::nat)) else None)"

definition hex_val :: "char \<Rightarrow> nat option" where
  "hex_val c =
     (let n = of_char c :: nat in
      if 48 \<le> n \<and> n \<le> 57 then Some (n - 48)
      else if 97 \<le> n \<and> n \<le> 102 then Some (n - 87)
      else if 65 \<le> n \<and> n \<le> 70 then Some (n - 55) else None)"

fun hex_digits :: "nat \<Rightarrow> string \<Rightarrow> goerr + nat" where
  "hex_digits acc [] = Inr acc"
| "hex_digits acc (c # cs) =
     (case hex_val c of
        None \<Rightarrow> Inl (syntax_msg c [bslash, CHR ''u'', CHR '' ''] @ ''hexadecimal character escape'')
      | Some v \<Rightarrow> hex_digits (16 * acc + v) cs)"

text \<open>The four digits of a \<open>\u\<close> escape; the input ending first is an unexpected EOF.\<close>

definition hex4 :: "string \<Rightarrow> goerr + nat" where
  "hex4 s = (case hex_digits 0 (take 4 s) of
               Inl e \<Rightarrow> Inl e
             | Inr v \<Rightarrow> if length s < 4 then Inl ErrUnexpectedEOF else Inr v)"

text \<open>The UTF-8 encoding of a code point below U+110000 (\<open>utf8.EncodeRune\<close>).\<close>

definition utf8_encode :: "nat \<Rightarrow> string" where
  "utf8_encode cp =
     (if cp < 0x80 then [char_of cp]
      else if cp < 0x800 then [char_of (0xC0 + cp div 64), char_of (0x80 + cp mod 64)]
      else if cp < 0x10000 then
        [char_of (0xE0 + cp div 4096), char_of (0x80 + (cp div 64) mod 64), char_of (0x80 + cp mod 64)]
      else [char_of (0xF0 + cp div 262144), char_of (0x80 + (cp div 4096) mod 64),
            char_of (0x80 + (cp div 64) mod 64), char_of (0x80 + cp mod 64)])"

definition is_surrogate :: "nat \<Rightarrow> bool" where
  "is_surrogate cp \<longleftrightarrow> 0xD800 \<le> cp \<and> cp < 0xE000"

text \<open>\<open>utf16.DecodeRune\<close> of a high surrogate and the \<open>\uXXXX\<close> escape that follows it.\<close>

definition surrogate_pair :: "nat \<Rightarrow> string \<Rightarrow> nat option" where
  "surrogate_pair hi s =
     (if 0xD800 \<le> hi \<and> hi < 0xDC00 \<and> take 2 s = [bslash, CHR ''u''] then
        (case hex4 (drop 2 s) of
           Inr lo \<Rightarrow> if 0xDC00 \<le> lo \<and> lo < 0xE000
                     then Some (0x10000 + (hi - 0xD800) * 1024 + (lo - 0xDC00)) else None
         | Inl _ \<Rightarrow> None)
      else None)"

definition prepend :: "string \<Rightarrow> goerr + (string \<times> string) \<Rightarrow> goerr + (string \<times> string)" where
  "prepend p r = (case r of Inl e \<Rightarrow> Inl e | Inr (v, rest) \<Rightarrow> Inr (p @ v, rest))"

subsection \<open>The reader\<close>

function read_str :: "string \<Rightarrow> goerr + (string \<times> string)" where
  "read_str [] = Inl ErrUnexpectedEOF"
| "read_str (c # cs) =
     (if c = dquote then Inr ([], cs)
      else if c = bslash then
        (case cs of
           [] \<Rightarrow> Inl ErrUnexpectedEOF
         | d # rest \<Rightarrow>
             (case simple_escape d of
                Some b \<Rightarrow> prepend [b] (read_str rest)
              | None \<Rightarrow>
                  if d \<noteq> CHR ''u'' then Inl (syntax_msg d ''in string escape code'')
                  else
                    (case hex4 rest of
                       Inl e \<Rightarrow> Inl e
                     | Inr cp \<Rightarrow>
                         (case surrogate_pair cp (drop 4 rest) of
                            Some cp2 \<Rightarrow> prepend (utf8_encode cp2) (read_str (drop 10 rest))
                          | None \<Rightarrow> prepend (utf8_encode (if is_surrogate cp then 0xFFFD else cp))
                                      (read_str (drop 4 rest))))))
      else if of_char c < (0x20::nat) then Inl (syntax_msg c ''in string literal'')
      else if of_char c < (0x80::nat) then prepend [c] (read_str cs)
      else if utf8_seq (c # cs) = 0 then prepend fffd (read_str cs)
      else prepend (take (utf8_seq (c # cs)) (c # cs)) (read_str (drop (utf8_seq (c # cs) - 1) cs)))"
  by pat_completeness auto
termination
  by (relation "measure length") auto

subsection \<open>Valid UTF-8 and its sanitisation\<close>

text \<open>What both Go's encoder and decoder make of a byte string: every byte that starts
  no valid sequence replaced by U+FFFD.  A string is valid UTF-8 when nothing is
  replaced.\<close>

function utf8_sanitize :: "string \<Rightarrow> string" where
  "utf8_sanitize [] = []"
| "utf8_sanitize (c # cs) =
     (if of_char c < (0x80::nat) then c # utf8_sanitize cs
      else if utf8_seq (c # cs) = 0 then fffd @ utf8_sanitize cs
      else take (utf8_seq (c # cs)) (c # cs) @ utf8_sanitize (drop (utf8_seq (c # cs) - 1) cs))"
  by pat_completeness auto
termination
  by (relation "measure length") auto

function utf8_valid :: "string \<Rightarrow> bool" where
  "utf8_valid [] = True"
| "utf8_valid (c # cs) =
     (utf8_seq (c # cs) \<noteq> 0 \<and> utf8_valid (drop (utf8_seq (c # cs) - 1) cs))"
  by pat_completeness auto
termination
  by (relation "measure length") auto

text \<open>A string of ASCII bytes.\<close>

definition ascii_str :: "string \<Rightarrow> bool" where
  "ascii_str s \<longleftrightarrow> (\<forall>c\<in>set s. of_char c < (0x80::nat))"

subsection \<open>Lemmas on UTF-8 sequences and the reader\<close>

lemma utf8_seq_append:
  "utf8_seq xs \<noteq> 0 \<Longrightarrow> utf8_seq (xs @ ys) = utf8_seq xs"
  by (cases xs rule: utf8_seq.cases) (auto simp: Let_def split: if_splits)

lemma utf8_seq_length: "utf8_seq xs \<le> length xs"
  by (cases xs rule: utf8_seq.cases) (auto simp: Let_def)

lemma utf8_seq_take:
  "utf8_seq xs \<noteq> 0 \<Longrightarrow> utf8_seq (take (utf8_seq xs) xs) = utf8_seq xs"
  by (cases xs rule: utf8_seq.cases) (auto simp: Let_def take_Cons' split: if_splits)

lemma hex_val_hex_digit: "n < 16 \<Longrightarrow> hex_val (hex_digit n) = Some n"
  by (auto simp: hex_digit_def hex_val_def less_Suc_eq numeral_eq_Suc)

lemma hex_val_0 [simp]: "hex_val CHR ''0'' = Some 0"
  by (simp add: hex_val_def)

lemma of_char_eq_nat: "of_char c = (n::nat) \<Longrightarrow> c = char_of n"
  by auto

lemma read_str_escape_ascii:
  assumes "of_char c < (0x80::nat)" and "\<not> html_safe c"
  shows "read_str (escape_ascii c @ rest) = prepend [c] (read_str rest)"
proof -
  let ?n = "of_char c :: nat"
  have d1: "hex_val (hex_digit (?n div 16)) = Some (?n div 16)"
    using assms(1) by (intro hex_val_hex_digit) simp
  have d2: "hex_val (hex_digit (?n mod 16)) = Some (?n mod 16)"
    by (intro hex_val_hex_digit) simp
  have "hex4 (CHR ''0'' # CHR ''0'' # hex_digit (?n div 16) # hex_digit (?n mod 16) # rest) =
      Inr (16 * (?n div 16) + ?n mod 16)"
    by (simp add: hex4_def d1 d2)
  then have hx: "hex4 (CHR ''0'' # CHR ''0'' # hex_digit (?n div 16) # hex_digit (?n mod 16) # rest) = Inr ?n"
    by simp
  have sp: "surrogate_pair ?n s = None" for s
    using assms(1) by (simp add: surrogate_pair_def)
  have ns: "\<not> is_surrogate ?n" using assms(1) by (simp add: is_surrogate_def)
  have enc: "utf8_encode ?n = [c]" using assms(1) by (simp add: utf8_encode_def)
  show ?thesis
    using assms hx sp ns enc
    by (auto simp: escape_ascii_def simple_escape_def html_safe_def dest: of_char_eq_nat)
qed

lemma utf8_seq_ascii [simp]: "of_char c < (0x80::nat) \<Longrightarrow> utf8_seq (c # xs) = 1"
  by (simp add: seq_len_def conts_ok_def)

lemma utf8_seq_lead: "utf8_seq (c # xs) \<noteq> 0 \<Longrightarrow> utf8_seq (c # xs) - 1 \<le> length xs"
  using utf8_seq_length [of "c # xs"] by simp

lemma utf8_encode_consts:
  "utf8_encode 0xFFFD = fffd"
  "utf8_encode 0x2028 = [CHR 0xE2, CHR 0x80, CHR 0xA8]"
  "utf8_encode 0x2029 = [CHR 0xE2, CHR 0x80, CHR 0xA9]"
  by (simp_all add: utf8_encode_def fffd_def char_of_def bit_0)

lemma read_str_fffd:
  "read_str (bslash # CHR ''u'' # CHR ''f'' # CHR ''f'' # CHR ''f'' # CHR ''d'' # rest) =
   prepend fffd (read_str rest)"
  by (simp add: simple_escape_def hex4_def hex_val_def surrogate_pair_def is_surrogate_def
      utf8_encode_consts)

lemma line_sep_cases:
  "line_sep s \<Longrightarrow> \<exists>d t. s = CHR 0xE2 # CHR 0x80 # d # t \<and> (d = CHR 0xA8 \<or> d = CHR 0xA9)"
  by (cases s; cases "tl s"; cases "tl (tl s)") (auto simp: line_sep_def)

lemma line_sep_seq: "line_sep s \<Longrightarrow> utf8_seq s = 3"
  by (auto dest!: line_sep_cases simp: seq_len_def conts_ok_def first_cont_def in_range_def)

lemma read_str_line_sep:
  assumes "line_sep s"
  shows "read_str (bslash # CHR ''u'' # CHR ''2'' # CHR ''0'' # CHR ''2'' #
           hex_digit (of_char (s ! 2) mod 16) # rest) = prepend (take 3 s) (read_str rest)"
  using line_sep_cases [OF assms]
  by (auto simp: simple_escape_def hex4_def hex_val_def hex_digit_def surrogate_pair_def
      is_surrogate_def utf8_encode_consts)

lemma prepend_Inr [simp]: "prepend p (Inr (v, r)) = Inr (p @ v, r)"
  by (simp add: prepend_def)

lemma read_str_safe:
  "html_safe c \<Longrightarrow> read_str (c # rest) = prepend [c] (read_str rest)"
  by (simp add: html_safe_def)

lemma read_str_seq:
  assumes n: "utf8_seq (c # cs) = n" "n \<noteq> 0" and c: "\<not> of_char c < (0x80::nat)"
  shows "read_str (take n (c # cs) @ rest) = prepend (take n (c # cs)) (read_str rest)"
proof -
  have len: "n - 1 \<le> length cs" using utf8_seq_lead n by blast
  have tk: "take n (c # cs) = c # take (n - 1) cs" using n(2) by (cases n) simp_all
  have seq: "utf8_seq (take n (c # cs) @ rest) = n"
    using n utf8_seq_append utf8_seq_take by metis
  have nq: "c \<noteq> dquote" "c \<noteq> bslash" using c by auto
  have tk2: "take n (c # take (n - 1) cs @ rest) = c # take (n - 1) cs"
    using len n(2) by (cases n) simp_all
  show ?thesis
    using seq nq c n(2) tk2 len unfolding tk by (simp del: utf8_seq.simps add: min_def)
qed

lemma take_seq_Cons:
  "utf8_seq (c # cs) \<noteq> 0 \<Longrightarrow> take (utf8_seq (c # cs)) (c # cs) = c # take (utf8_seq (c # cs) - 1) cs"
  by (cases "utf8_seq (c # cs)") simp_all

lemma utf8_valid_append:
  "utf8_valid xs \<Longrightarrow> utf8_valid ys \<Longrightarrow> utf8_valid (xs @ ys)"
proof (induction xs rule: utf8_valid.induct)
  case (2 c cs)
  then have "utf8_seq (c # cs) \<noteq> 0" by simp
  moreover have "utf8_seq (c # cs) - 1 \<le> length cs" using calculation by (rule utf8_seq_lead)
  ultimately show ?case
    using 2 utf8_seq_append [of "c # cs" ys] by (simp del: utf8_seq.simps)
qed simp

lemma utf8_valid_Cons_seq:
  "utf8_valid (c # cs) \<longleftrightarrow> utf8_seq (c # cs) \<noteq> 0 \<and> utf8_valid (drop (utf8_seq (c # cs) - 1) cs)"
  by simp

lemma utf8_valid_take_seq:
  assumes "utf8_seq s \<noteq> 0"
  shows "utf8_valid (take (utf8_seq s) s)"
proof -
  obtain c cs where s: "s = c # cs" using assms by (cases s) simp_all
  let ?n = "utf8_seq s"
  have len: "?n - 1 \<le> length cs" using assms utf8_seq_lead unfolding s by blast
  have t: "take ?n s = c # take (?n - 1) cs" using assms unfolding s by (rule take_seq_Cons)
  have "utf8_seq (c # take (?n - 1) cs) = ?n" using utf8_seq_take [OF assms] t by simp
  then show ?thesis
    unfolding t utf8_valid_Cons_seq using assms len by simp
qed

lemma utf8_valid_ascii_Cons:
  "of_char c < (0x80::nat) \<Longrightarrow> utf8_valid (c # s) = utf8_valid s"
  by (simp only: utf8_valid_Cons_seq utf8_seq_ascii) simp

lemma ascii_valid: "ascii_str s \<Longrightarrow> utf8_valid s"
  by (induction s) (simp_all del: utf8_valid.simps add: utf8_valid.simps(1) ascii_str_def utf8_valid_ascii_Cons)

lemma hex_digit_ascii: "n < 16 \<Longrightarrow> of_char (hex_digit n) < (0x80::nat)"
proof -
  assume "n < 16"
  then have "hex_digit n \<in> set ''0123456789abcdef''" unfolding hex_digit_def by (intro nth_mem) simp
  then show ?thesis by auto
qed

lemma escape_ascii_valid: "of_char c < (0x80::nat) \<Longrightarrow> utf8_valid (escape_ascii c)"
  by (rule ascii_valid) (simp add: ascii_str_def escape_ascii_def hex_digit_ascii)

lemma utf8_sanitize_valid_id: "utf8_valid s \<Longrightarrow> utf8_sanitize s = s"
proof (induction s rule: utf8_valid.induct)
  case (2 c cs)
  then show ?case
    by (cases "of_char c < (0x80::nat)")
       (simp_all del: utf8_seq.simps add: take_seq_Cons)
qed simp

lemma utf8_valid_fffd: "utf8_valid (fffd @ s) = utf8_valid s"
  by (simp add: fffd_def seq_len_def conts_ok_def first_cont_def in_range_def)

lemma utf8_valid_sanitize: "utf8_valid (utf8_sanitize s)"
proof (induction s rule: utf8_sanitize.induct)
  case (2 c cs)
  show ?case
  proof (cases "of_char c < (0x80::nat)")
    case True
    then show ?thesis using 2
      by (simp del: utf8_valid.simps utf8_seq.simps add: utf8_valid_ascii_Cons)
  next
    case False
    then show ?thesis using 2 utf8_valid_take_seq [of "c # cs"]
      by (cases "utf8_seq (c # cs) = 0")
         (simp_all del: utf8_valid.simps utf8_seq.simps add: utf8_valid_fffd utf8_valid_append)
  qed
qed simp

subsection \<open>The reader inverts the encoder\<close>

text \<open>Reading back what the encoder wrote, followed by the closing quote and any
  further text, gives the original string, with each byte that starts no valid UTF-8
  sequence replaced by U+FFFD, and stops exactly after the closing quote: escaping is
  lossless for valid UTF-8 (\<open>utf8_sanitize_valid_id\<close>) and never ends the literal
  early.\<close>

lemma read_json_str:
  "read_str (json_str s @ dquote # rest) = Inr (utf8_sanitize s, rest)"
proof (induction s rule: json_str.induct)
  case 1
  then show ?case by simp
next
  case (2 c cs)
  show ?case
  proof (cases "of_char c < (0x80::nat)")
    case True
    then show ?thesis
      using 2 by (cases "html_safe c") (simp_all del: read_str.simps add: read_str_safe read_str_escape_ascii)
  next
    case ascii: False
    show ?thesis
    proof (cases "utf8_seq (c # cs) = 0")
      case True
      then show ?thesis using 2 ascii by (simp del: read_str.simps add: read_str_fffd)
    next
      case valid: False
      show ?thesis
      proof (cases "line_sep (c # cs)")
        case True
        then show ?thesis
          using 2 ascii read_str_line_sep [OF True, of "json_str (drop 2 cs) @ dquote # rest"]
          by (simp del: read_str.simps utf8_seq.simps add: line_sep_seq)
      next
        case False
        then show ?thesis
          using 2 ascii valid
            read_str_seq [OF refl valid ascii, of "json_str (drop (utf8_seq (c # cs) - 1) cs) @ dquote # rest"]
          by (simp del: read_str.simps utf8_seq.simps)
      qed
    qed
  qed
qed

text \<open>The encoder's output is always valid UTF-8, whatever bytes the Go string
  holds.\<close>

lemma json_str_valid: "utf8_valid (json_str s)"
proof (induction s rule: json_str.induct)
  case (2 c cs)
  show ?case
  proof (cases "of_char c < (0x80::nat)")
    case True
    then show ?thesis using 2
      by (simp del: utf8_valid.simps add: utf8_valid.simps(1) utf8_valid_append escape_ascii_valid utf8_valid_ascii_Cons)
  next
    case ascii: False
    consider (bad) "utf8_seq (c # cs) = 0" | (sep) "utf8_seq (c # cs) \<noteq> 0" "line_sep (c # cs)"
      | (seq) "utf8_seq (c # cs) \<noteq> 0" "\<not> line_sep (c # cs)" by blast
    then show ?thesis
    proof cases
      case bad
      then show ?thesis using 2 ascii
        by (simp del: utf8_valid.simps utf8_seq.simps add: utf8_valid.simps(1) utf8_valid_ascii_Cons)
    next
      case sep
      then show ?thesis using 2 ascii hex_digit_ascii [of "of_char ((c # cs) ! 2) mod 16"]
        by (simp del: utf8_valid.simps utf8_seq.simps add: utf8_valid.simps(1) utf8_valid_ascii_Cons)
    next
      case seq
      then show ?thesis using 2 ascii utf8_valid_take_seq [OF seq(1)]
        by (simp del: utf8_valid.simps utf8_seq.simps add: utf8_valid.simps(1) utf8_valid_append)
    qed
  qed
qed simp

end
