(* ===== verification/JsonScan.thy ===== *)
theory JsonScan
  imports JsonRead
begin

text \<open>
  The first phase of \<open>json.Decoder.Decode\<close>: Go's JSON scanner (\<open>encoding/json/scanner.go\<close>)
  as a state machine stepping one byte at a time, with its stack of parse states and
  its syntax errors, and \<open>Decoder.readValue\<close> (\<open>stream.go\<close>), which feeds the body to
  the scanner until the first value is complete and reports \<open>EOF\<close> or
  \<open>unexpected EOF\<close> when the body ends first.  The bytes after the first value are
  never looked at.  The scanned value is then cut into tokens for the second phase.
  Each function is named after the scanner function it models.
\<close>

abbreviation maxNestingDepth :: nat where "maxNestingDepth \<equiv> 10000"

datatype parse_state = ParseObjectKey | ParseObjectValue | ParseArrayValue

text \<open>The scanner's \<open>step\<close> field: which \<open>state...\<close> function reads the next byte.
  \<open>EscU k\<close> has read \<open>k\<close> hexadecimal digits of a \<open>\u\<close> escape; \<open>Lit name rest\<close> is
  inside the literal \<open>name\<close> and expects the bytes \<open>rest\<close>.\<close>

datatype sstate =
  BeginValue | BeginValueOrEmpty | BeginStringOrEmpty | BeginString
| InString | InStringEsc | EscU nat
| Neg | S0 | S1 | Dot | Dot0 | SE | ESign | E0
| Lit string string
| EndValue | EndTop

text \<open>What a step returns: continue in a state, the end of an object or array
  (\<open>scanEndObject\<close>, \<open>scanEndArray\<close>), the end of the top-level value (\<open>scanEnd\<close>), or
  a syntax error.\<close>

datatype scan = Cont sstate "parse_state list" | EndComp sstate "parse_state list" | ScanEnd
  | ScanErr goerr

definition isSpace :: "char \<Rightarrow> bool" where
  "isSpace c \<longleftrightarrow> c = CHR '' '' \<or> of_char c = (9::nat) \<or> of_char c = (10::nat) \<or> of_char c = (13::nat)"

definition is_dig :: "char \<Rightarrow> bool" where
  "is_dig c \<longleftrightarrow> in_range 48 57 c"

definition is_hex :: "char \<Rightarrow> bool" where
  "is_hex c \<longleftrightarrow> hex_val c \<noteq> None"

definition scan_error :: "char \<Rightarrow> string \<Rightarrow> scan" where
  "scan_error c ctx = ScanErr (syntax_msg c ctx)"

text \<open>The parse-state stack, top first.  \<open>pushParseState\<close> fails beyond the maximum
  nesting depth; \<open>popParseState\<close> ends the value when the stack empties.\<close>

definition pushParseState :: "char \<Rightarrow> parse_state \<Rightarrow> sstate \<Rightarrow> parse_state list \<Rightarrow> scan" where
  "pushParseState c p st ps =
     (if length (p # ps) \<le> maxNestingDepth then Cont st (p # ps) else scan_error c ''exceeded max depth'')"

definition popParseState :: "parse_state list \<Rightarrow> scan" where
  "popParseState ps = EndComp (if ps = [] then EndTop else EndValue) ps"

definition stateEndValue :: "parse_state list \<Rightarrow> char \<Rightarrow> scan" where
  "stateEndValue ps c =
     (case ps of
        [] \<Rightarrow> ScanEnd
      | p # rest \<Rightarrow>
          if isSpace c then Cont EndValue ps
          else (case p of
                  ParseObjectKey \<Rightarrow>
                    if c = CHR '':'' then Cont BeginValue (ParseObjectValue # rest)
                    else scan_error c ''after object key''
                | ParseObjectValue \<Rightarrow>
                    if c = CHR '','' then Cont BeginString (ParseObjectKey # rest)
                    else if c = CHR ''}'' then popParseState rest
                    else scan_error c ''after object key:value pair''
                | ParseArrayValue \<Rightarrow>
                    if c = CHR '','' then Cont BeginValue ps
                    else if c = CHR '']'' then popParseState rest
                    else scan_error c ''after array element''))"

definition stateBeginValue :: "parse_state list \<Rightarrow> char \<Rightarrow> scan" where
  "stateBeginValue ps c =
     (if isSpace c then Cont BeginValue ps
      else if c = CHR ''{'' then pushParseState c ParseObjectKey BeginStringOrEmpty ps
      else if c = CHR ''['' then pushParseState c ParseArrayValue BeginValueOrEmpty ps
      else if c = dquote then Cont InString ps
      else if c = CHR ''-'' then Cont Neg ps
      else if c = CHR ''0'' then Cont S0 ps
      else if c = CHR ''t'' then Cont (Lit ''true'' ''rue'') ps
      else if c = CHR ''f'' then Cont (Lit ''false'' ''alse'') ps
      else if c = CHR ''n'' then Cont (Lit ''null'' ''ull'') ps
      else if in_range 49 57 c then Cont S1 ps
      else scan_error c ''looking for beginning of value'')"

definition stateBeginString :: "parse_state list \<Rightarrow> char \<Rightarrow> scan" where
  "stateBeginString ps c =
     (if isSpace c then Cont BeginString ps
      else if c = dquote then Cont InString ps
      else scan_error c ''looking for beginning of object key string'')"

definition stateE0 :: "parse_state list \<Rightarrow> char \<Rightarrow> scan" where
  "stateE0 ps c = (if is_dig c then Cont E0 ps else stateEndValue ps c)"

definition stateESign :: "parse_state list \<Rightarrow> char \<Rightarrow> scan" where
  "stateESign ps c = (if is_dig c then Cont E0 ps else scan_error c ''in exponent of numeric literal'')"

definition stateE :: "parse_state list \<Rightarrow> char \<Rightarrow> scan" where
  "stateE ps c = (if c = CHR ''+'' \<or> c = CHR ''-'' then Cont ESign ps else stateESign ps c)"

definition state0 :: "parse_state list \<Rightarrow> char \<Rightarrow> scan" where
  "state0 ps c =
     (if c = CHR ''.'' then Cont Dot ps
      else if c = CHR ''e'' \<or> c = CHR ''E'' then Cont SE ps
      else stateEndValue ps c)"

definition stateDot0 :: "parse_state list \<Rightarrow> char \<Rightarrow> scan" where
  "stateDot0 ps c =
     (if is_dig c then Cont Dot0 ps
      else if c = CHR ''e'' \<or> c = CHR ''E'' then Cont SE ps
      else stateEndValue ps c)"

definition stateLit :: "string \<Rightarrow> string \<Rightarrow> parse_state list \<Rightarrow> char \<Rightarrow> scan" where
  "stateLit name rest ps c =
     (case rest of
        [] \<Rightarrow> stateEndValue ps c
      | r # rs \<Rightarrow>
          if c = r then Cont (if rs = [] then EndValue else Lit name rs) ps
          else scan_error c (''in literal '' @ name @ '' (expecting '' @ quoteChar r @ '')''))"

text \<open>One byte through the scanner: \<open>s.step(s, c)\<close>.\<close>

fun step :: "sstate \<Rightarrow> parse_state list \<Rightarrow> char \<Rightarrow> scan" where
  "step BeginValue ps c = stateBeginValue ps c"
| "step BeginValueOrEmpty ps c =
     (if isSpace c then Cont BeginValueOrEmpty ps
      else if c = CHR '']'' then stateEndValue ps c else stateBeginValue ps c)"
| "step BeginStringOrEmpty ps c =
     (if isSpace c then Cont BeginStringOrEmpty ps
      else if c = CHR ''}'' then stateEndValue (ParseObjectValue # tl ps) c
      else stateBeginString ps c)"
| "step BeginString ps c = stateBeginString ps c"
| "step InString ps c =
     (if c = dquote then Cont EndValue ps
      else if c = bslash then Cont InStringEsc ps
      else if of_char c < (0x20::nat) then scan_error c ''in string literal''
      else Cont InString ps)"
| "step InStringEsc ps c =
     (if c \<in> set [CHR ''b'', CHR ''f'', CHR ''n'', CHR ''r'', CHR ''t'', bslash, CHR ''/'', dquote]
      then Cont InString ps
      else if c = CHR ''u'' then Cont (EscU 0) ps
      else scan_error c ''in string escape code'')"
| "step (EscU k) ps c =
     (if is_hex c then Cont (if k = 3 then InString else EscU (Suc k)) ps
      else scan_error c (''in '' @ [bslash] @ ''u hexadecimal character escape''))"
| "step Neg ps c =
     (if c = CHR ''0'' then Cont S0 ps else if in_range 49 57 c then Cont S1 ps
      else scan_error c ''in numeric literal'')"
| "step S1 ps c = (if is_dig c then Cont S1 ps else state0 ps c)"
| "step S0 ps c = state0 ps c"
| "step Dot ps c =
     (if is_dig c then Cont Dot0 ps else scan_error c ''after decimal point in numeric literal'')"
| "step Dot0 ps c = stateDot0 ps c"
| "step SE ps c = stateE ps c"
| "step ESign ps c = stateESign ps c"
| "step E0 ps c = stateE0 ps c"
| "step (Lit name rest) ps c = stateLit name rest ps c"
| "step EndValue ps c = stateEndValue ps c"
| "step EndTop ps c = ScanEnd"

text \<open>\<open>Decoder.readValue\<close> on a body held whole in the buffer: the number of bytes of
  the first value, or the error.  \<open>n\<close> counts the bytes consumed, \<open>ns\<close> records a
  byte that is not white space (\<open>nonSpace\<close>).  At the end of the input the scanner
  is given a space: a value that ends there (a number) is complete.\<close>

fun readValue :: "sstate \<Rightarrow> parse_state list \<Rightarrow> nat \<Rightarrow> bool \<Rightarrow> string \<Rightarrow> goerr + nat" where
  "readValue st ps n ns [] =
     (if step st ps CHR '' '' = ScanEnd then Inr n
      else Inl (if ns then ErrUnexpectedEOF else ''EOF''))"
| "readValue st ps n ns (c # cs) =
     (case step st ps c of
        ScanEnd \<Rightarrow> Inr n
      | EndComp st' ps' \<Rightarrow>
          if stateEndValue ps' CHR '' '' = ScanEnd then Inr (Suc n)
          else readValue st' ps' (Suc n) (ns \<or> \<not> isSpace c) cs
      | Cont st' ps' \<Rightarrow> readValue st' ps' (Suc n) (ns \<or> \<not> isSpace c) cs
      | ScanErr e \<Rightarrow> Inl e)"

subsection \<open>Tokens of a scanned value\<close>

text \<open>The second phase walks the bytes the scanner accepted.  On such bytes a token is a
  bracket, a colon, a comma, a string literal (its raw bytes between the quotes) or a
  number or keyword literal (a maximal run of literal bytes).\<close>

datatype token = TObj | TEndObj | TArr | TEndArr | TColon | TComma | TStr string | TLit string

datatype lmode = LNorm | LStr string | LEsc string | LLit string

definition lit_char :: "char \<Rightarrow> bool" where
  "lit_char c \<longleftrightarrow> is_dig c \<or> c \<in> set ''+-.eE'' \<or> in_range 97 122 c"

function (sequential) lex :: "lmode \<Rightarrow> string \<Rightarrow> token list" where
  "lex LNorm [] = []"
| "lex LNorm (c # cs) =
     (if c = CHR ''{'' then TObj # lex LNorm cs
      else if c = CHR ''}'' then TEndObj # lex LNorm cs
      else if c = CHR ''['' then TArr # lex LNorm cs
      else if c = CHR '']'' then TEndArr # lex LNorm cs
      else if c = CHR '':'' then TColon # lex LNorm cs
      else if c = CHR '','' then TComma # lex LNorm cs
      else if c = dquote then lex (LStr []) cs
      else if isSpace c then lex LNorm cs
      else lex (LLit [c]) cs)"
| "lex (LStr acc) [] = [TStr acc]"
| "lex (LStr acc) (c # cs) =
     (if c = dquote then TStr acc # lex LNorm cs
      else if c = bslash then lex (LEsc (acc @ [c])) cs
      else lex (LStr (acc @ [c])) cs)"
| "lex (LEsc acc) [] = [TStr acc]"
| "lex (LEsc acc) (c # cs) = lex (LStr (acc @ [c])) cs"
| "lex (LLit acc) [] = [TLit acc]"
| "lex (LLit acc) (c # cs) =
     (if lit_char c then lex (LLit (acc @ [c])) cs else TLit acc # lex LNorm (c # cs))"
  by pat_completeness auto
termination
  by (relation "measure (\<lambda>(m, s). 2 * length s + (case m of LLit _ \<Rightarrow> 1 | _ \<Rightarrow> 0))") auto

subsection \<open>Evaluation rules\<close>

text \<open>The definitions a concrete body is scanned with, by \<open>simp\<close>.\<close>

lemmas scan_defs = stateBeginValue_def isSpace_def pushParseState_def popParseState_def
  stateEndValue_def stateBeginString_def stateE0_def stateESign_def stateE_def state0_def
  stateDot0_def stateLit_def is_dig_def is_hex_def in_range_def scan_error_def lit_char_def

end
