(* ===== verification/JsonAccept.thy ===== *)
theory JsonAccept
  imports JsonScan
begin

text \<open>
  The encoder and the scanner agree: what Go's \<open>encoding/json\<close> writes for a string
  and for a \<open>map[string]string\<close> is scanned by Go's own scanner as one complete value.
  \<open>scan_run\<close> runs the scanner over bytes that keep it inside a value (every step
  continues), as \<open>delta\<close> runs a deterministic automaton over a word; runs compose
  over concatenation, and \<open>readValue\<close> follows a run.
\<close>

fun scan_run :: "sstate \<Rightarrow> parse_state list \<Rightarrow> string \<Rightarrow> scan" where
  "scan_run st ps [] = Cont st ps"
| "scan_run st ps (c # cs) = (case step st ps c of Cont st' ps' \<Rightarrow> scan_run st' ps' cs | r \<Rightarrow> r)"

text \<open>The bytes the scanner keeps inside a string literal unchanged.\<close>

definition str_byte :: "char \<Rightarrow> bool" where
  "str_byte c \<longleftrightarrow> (0x20::nat) \<le> of_char c \<and> c \<noteq> dquote \<and> c \<noteq> bslash"

subsection \<open>Runs\<close>

lemma scan_run_append:
  "scan_run st ps xs = Cont st' ps' \<Longrightarrow> scan_run st ps (xs @ ys) = scan_run st' ps' ys"
  by (induction st ps xs rule: scan_run.induct) (auto split: scan.splits)

lemma readValue_run:
  "scan_run st ps xs = Cont st' ps' \<Longrightarrow>
   readValue st ps n ns (xs @ ys) = readValue st' ps' (n + length xs) (ns \<or> \<not> list_all isSpace xs) ys"
  by (induction st ps xs arbitrary: n ns rule: scan_run.induct) (auto split: scan.splits)

lemma scan_str_byte:
  "str_byte c \<Longrightarrow> scan_run InString ps (c # rest) = scan_run InString ps rest"
  by (simp add: str_byte_def)

lemma scan_plain:
  "\<forall>c\<in>set xs. str_byte c \<Longrightarrow> scan_run InString ps (xs @ rest) = scan_run InString ps rest"
  by (induction xs) (simp_all del: scan_run.simps add: scan_str_byte)

subsection \<open>The encoder's string bytes\<close>

lemma is_hex_hex_digit: "n < 16 \<Longrightarrow> is_hex (hex_digit n)"
  by (simp add: is_hex_def hex_val_hex_digit)

lemma is_hex_consts: "is_hex CHR ''0'' \<and> is_hex CHR ''2'' \<and> is_hex CHR ''d'' \<and> is_hex CHR ''f''"
  by (simp add: is_hex_def hex_val_def)

lemma scan_escape_ascii:
  assumes "of_char c < (0x80::nat)"
  shows "scan_run InString ps (escape_ascii c @ rest) = scan_run InString ps rest"
proof -
  have "is_hex (hex_digit (of_char c div 16))" "is_hex (hex_digit (of_char c mod 16))"
    using assms by (simp_all add: is_hex_hex_digit)
  then show ?thesis using is_hex_consts by (simp add: escape_ascii_def)
qed

lemma scan_fffd:
  "scan_run InString ps (bslash # CHR ''u'' # CHR ''f'' # CHR ''f'' # CHR ''f'' # CHR ''d'' # rest) =
   scan_run InString ps rest"
  using is_hex_consts by simp

lemma scan_line_sep:
  "scan_run InString ps (bslash # CHR ''u'' # CHR ''2'' # CHR ''0'' # CHR ''2'' # hex_digit (n mod 16) # rest) =
   scan_run InString ps rest"
  using is_hex_consts is_hex_hex_digit [of "n mod 16"] by simp

text \<open>Every byte of a multi-byte UTF-8 sequence is at least \<open>0x80\<close>.\<close>

lemma seq_bytes_high:
  assumes "utf8_seq (c # cs) \<noteq> 0" and "\<not> of_char c < (0x80::nat)"
  shows "\<forall>x\<in>set (take (utf8_seq (c # cs)) (c # cs)). str_byte x"
proof -
  let ?x = "of_char c :: nat"
  have ok: "conts_ok ?x (take (utf8_seq (c # cs) - 1) cs)"
    using assms(1) by (simp add: Let_def split: if_splits)
  have "\<forall>y\<in>set (take (utf8_seq (c # cs) - 1) cs). (0x80::nat) \<le> of_char y"
    using ok by (cases "take (utf8_seq (c # cs) - 1) cs")
      (auto simp: conts_ok_def first_cont_def in_range_def list_all_iff split: if_splits)
  moreover have "(0x80::nat) \<le> of_char y \<Longrightarrow> str_byte y" for y
    by (auto simp: str_byte_def)
  ultimately show ?thesis
    using assms by (auto simp del: utf8_seq.simps simp: take_seq_Cons)
qed

lemma scan_json_str: "scan_run InString ps (json_str s @ rest) = scan_run InString ps rest"
proof (induction s rule: json_str.induct)
  case (2 c cs)
  show ?case
  proof (cases "of_char c < (0x80::nat)")
    case True
    then show ?thesis using 2
      by (cases "html_safe c") (simp_all add: scan_escape_ascii scan_str_byte html_safe_def str_byte_def)
  next
    case ascii: False
    show ?thesis
    proof (cases "utf8_seq (c # cs) = 0")
      case True
      then show ?thesis using 2 ascii is_hex_consts by (simp del: utf8_seq.simps)
    next
      case valid: False
      show ?thesis
      proof (cases "line_sep (c # cs)")
        case True
        then show ?thesis using 2 ascii
          by (simp del: utf8_seq.simps add: line_sep_seq is_hex_consts is_hex_hex_digit)
      next
        case False
        then show ?thesis
          using 2 ascii valid scan_plain [OF seq_bytes_high [OF valid ascii], of ps]
          by (simp del: utf8_seq.simps)
      qed
    qed
  qed
qed simp

subsection \<open>Members and maps\<close>

lemma scan_json_member:
  assumes "st = BeginString \<or> st = BeginStringOrEmpty"
  shows "scan_run st (ParseObjectKey # ps) (json_member kv @ rest) =
         scan_run EndValue (ParseObjectValue # ps) rest"
  using assms
  by (auto simp: json_member_def json_quote_def scan_json_str stateBeginString_def stateEndValue_def
      stateBeginValue_def isSpace_def)

lemma scan_json_members:
  "kvs \<noteq> [] \<Longrightarrow> st = BeginString \<or> st = BeginStringOrEmpty \<Longrightarrow>
   scan_run st (ParseObjectKey # ps) (json_members kvs @ rest) =
   scan_run EndValue (ParseObjectValue # ps) rest"
proof (induction kvs arbitrary: st rest rule: json_members.induct)
  case (3 kv v kvs)
  then show ?case
    by (simp add: scan_json_member [of st ps kv] stateEndValue_def isSpace_def)
qed (simp_all add: scan_json_member)

text \<open>\<open>json.Marshal\<close> of a map is one complete value for \<open>Decoder.readValue\<close>,
  which stops right after its closing brace whatever follows.\<close>

lemma readValue_json_map:
  "readValue BeginValue [] n ns (json_map kvs @ rest) = Inr (n + length (json_map kvs))"
proof (cases "kvs = []")
  case True
  then show ?thesis
    by (simp add: json_map_def scan_defs stateEndValue_def)
next
  case False
  have r: "scan_run BeginValue [] (CHR ''{'' # json_members kvs) = Cont EndValue [ParseObjectValue]"
    using scan_json_members [OF False, of BeginStringOrEmpty "[]" "[]"]
    by (simp add: scan_defs)
  have "json_map kvs @ rest = (CHR ''{'' # json_members kvs) @ CHR ''}'' # rest"
    by (simp add: json_map_def)
  then have "readValue BeginValue [] n ns (json_map kvs @ rest) =
      readValue EndValue [ParseObjectValue] (n + length (CHR ''{'' # json_members kvs))
        (ns \<or> \<not> list_all isSpace (CHR ''{'' # json_members kvs)) (CHR ''}'' # rest)"
    by (simp only: readValue_run [OF r])
  then show ?thesis by (simp add: json_map_def stateEndValue_def popParseState_def isSpace_def)
qed

end
