(* ===== verification/JsonDecode.thy ===== *)
theory JsonDecode
  imports JsonScan Store
begin

text \<open>
  The second phase of \<open>json.NewDecoder(r.Body).Decode(&count)\<close> in \<open>CreateCount\<close>:
  unmarshalling the scanned value into a \<open>types.RelayCount\<close> (\<open>decodeState.object\<close>,
  \<open>literalStore\<close> of \<open>encoding/json/decode.go\<close>) and \<open>time.Time.UnmarshalJSON\<close> for its
  day.  The struct's fields are \<open>appPublicKey\<close> (string), \<open>day\<close> (\<open>time.Time\<close>),
  \<open>success\<close> and \<open>error\<close> (\<open>int64\<close>), named by their JSON keys.  A key selects the
  field whose name equals it up to Go's case folding, so \<open>"SUCCESS"\<close> sets
  \<open>success\<close>; an unknown key is skipped; a later key overwrites an earlier one;
  \<open>null\<close> leaves a field as it is.  A value of the wrong JSON type for a field is an
  \<open>UnmarshalTypeError\<close> that is saved while decoding goes on, and the first one saved
  is returned at the end; an error of \<open>time.Time.UnmarshalJSON\<close> ends decoding at once.
  An \<open>int64\<close> field takes only an integer literal within the range of \<open>int64\<close>.
  A day is parsed by \<open>parseRFC3339\<close> into an instant, in nanoseconds since the Unix
  epoch; the zone offset is applied and then dropped.
\<close>

subsection \<open>RFC 3339 timestamps\<close>

definition digits_val :: "string \<Rightarrow> nat" where
  "digits_val s = foldl (\<lambda>a c. 10 * a + (of_char c - 48)) 0 s"

text \<open>\<open>parseUint\<close> of \<open>parseRFC3339\<close>: a decimal number within bounds.\<close>

definition parseUint :: "string \<Rightarrow> nat \<Rightarrow> nat \<Rightarrow> nat option" where
  "parseUint s lo hi =
     (let x = digits_val s in if list_all is_dig s \<and> lo \<le> x \<and> x \<le> hi then Some x else None)"

definition slice :: "string \<Rightarrow> nat \<Rightarrow> nat \<Rightarrow> string" where
  "slice s a b = take (b - a) (drop a s)"

definition isLeap :: "nat \<Rightarrow> bool" where
  "isLeap y \<longleftrightarrow> y mod 4 = 0 \<and> (y mod 100 \<noteq> 0 \<or> y mod 400 = 0)"

definition daysIn :: "nat \<Rightarrow> nat \<Rightarrow> nat" where
  "daysIn m y =
     (if m = 2 then (if isLeap y then 29 else 28)
      else if m \<in> {4, 6, 9, 11} then 30 else 31)"

text \<open>Days from 1970-01-01 to a date of the proleptic Gregorian calendar.\<close>

definition days_from_civil :: "int \<Rightarrow> int \<Rightarrow> int \<Rightarrow> int" where
  "days_from_civil y m d =
     (let y' = (if m \<le> 2 then y - 1 else y);
          era = y' div 400;
          yoe = y' - era * 400;
          doy = (153 * (if m > 2 then m - 3 else m + 9) + 2) div 5 + d - 1;
          doe = yoe * 365 + yoe div 4 - yoe div 100 + doy
      in era * 146097 + doe - 719468)"

text \<open>The fractional second: a period and digits, of which the first nine count
  (\<open>parseNanoseconds\<close>); all of them are consumed.\<close>

definition parse_frac :: "string \<Rightarrow> nat \<times> string" where
  "parse_frac s =
     (if 2 \<le> length s \<and> s ! 0 = CHR ''.'' \<and> is_dig (s ! 1) then
        (let ds = takeWhile is_dig (drop 1 s); k = min 9 (length ds)
         in (digits_val (take k ds) * 10 ^ (9 - k), drop (1 + length ds) s))
      else (0, s))"

text \<open>The zone: \<open>Z\<close> or \<open>+hh:mm\<close> / \<open>-hh:mm\<close>, as the offset in seconds east of UTC.\<close>

definition parse_zone :: "string \<Rightarrow> int option" where
  "parse_zone z =
     (if z = ''Z'' then Some 0
      else if length z = 6 \<and> (z ! 0 = CHR ''+'' \<or> z ! 0 = CHR ''-'') \<and> z ! 3 = CHR '':'' then
        (case (parseUint (slice z 1 3) 0 23, parseUint (slice z 4 6) 0 59) of
           (Some h, Some m) \<Rightarrow> Some ((if z ! 0 = CHR ''-'' then -1 else 1) * (int h * 60 + int m) * 60)
         | _ \<Rightarrow> None)
      else None)"

definition parseRFC3339 :: "string \<Rightarrow> time option" where
  "parseRFC3339 s =
     (if length s < 19 then None
      else
        (let year = parseUint (slice s 0 4) 0 9999;
             month = parseUint (slice s 5 7) 1 12;
             day = parseUint (slice s 8 10) 1
                     (daysIn (case month of Some m \<Rightarrow> m | None \<Rightarrow> 1) (case year of Some y \<Rightarrow> y | None \<Rightarrow> 0));
             hour = parseUint (slice s 11 13) 0 23;
             minute = parseUint (slice s 14 16) 0 59;
             sec = parseUint (slice s 17 19) 0 59
         in case (year, month, day, hour, minute, sec) of
              (Some y, Some mo, Some d, Some h, Some mi, Some se) \<Rightarrow>
                if s ! 4 = CHR ''-'' \<and> s ! 7 = CHR ''-'' \<and> s ! 10 = CHR ''T'' \<and> s ! 13 = CHR '':'' \<and>
                   s ! 16 = CHR '':'' then
                  (case parse_frac (drop 19 s) of
                     (ns, z) \<Rightarrow>
                       (case parse_zone z of
                          Some off \<Rightarrow>
                            Some ((days_from_civil (int y) (int mo) (int d) * 86400 + int h * 3600
                                   + int mi * 60 + int se - off) * 1000000000 + int ns)
                        | None \<Rightarrow> None))
                else None
            | _ \<Rightarrow> None))"

text \<open>The error of \<open>time.Parse\<close> for a day that is not RFC 3339.  Go's message goes on to
  name the element that failed to parse; that detail is not modelled.\<close>

definition time_parse_error :: "string \<Rightarrow> goerr" where
  "time_parse_error raw =
     ''parsing time '' @ [dquote] @ raw @ [dquote] @ '' as '' @ [dquote] @ ''2006-01-02T15:04:05Z07:00''
     @ [dquote]"

definition time_not_string :: goerr where
  "time_not_string = ''Time.UnmarshalJSON: input is not a JSON string''"

subsection \<open>The fields of \<open>types.RelayCount\<close>\<close>

datatype field = FAppPublicKey | FDay | FSuccess | FError

fun field_name :: "field \<Rightarrow> string" where
  "field_name FAppPublicKey = ''appPublicKey''"
| "field_name FDay = ''day''"
| "field_name FSuccess = ''success''"
| "field_name FError = ''error''"

fun field_type :: "field \<Rightarrow> string" where
  "field_type FAppPublicKey = ''string''"
| "field_type FDay = ''time.Time''"
| "field_type FSuccess = ''int64''"
| "field_type FError = ''int64''"

text \<open>\<open>foldName\<close>: ASCII letters upper-cased; the two non-ASCII runes whose fold set holds an
  ASCII letter, U+017F (long s) and U+212A (Kelvin sign), become \<open>S\<close> and \<open>K\<close>.  Other
  bytes are kept: Go folds other non-ASCII runes to other non-ASCII runes, which never
  match an ASCII field name either.\<close>

function fold_name :: "string \<Rightarrow> string" where
  "fold_name [] = []"
| "fold_name (c # cs) =
     (if of_char c < (0x80::nat) then
        (if in_range 97 122 c then char_of (of_char c - (32::nat)) else c) # fold_name cs
      else if take 1 cs = [CHR 0xBF] \<and> c = CHR 0xC5 then CHR ''S'' # fold_name (drop 1 cs)
      else if take 2 cs = [CHR 0x84, CHR 0xAA] \<and> c = CHR 0xE2 then CHR ''K'' # fold_name (drop 2 cs)
      else c # fold_name cs)"
  by pat_completeness auto
termination
  by (relation "measure length") auto

definition field_of :: "string \<Rightarrow> field option" where
  "field_of key = find (\<lambda>f. fold_name (field_name f) = fold_name key) [FAppPublicKey, FDay, FSuccess, FError]"

text \<open>The value of a string literal's raw bytes (\<open>unquoteBytes\<close>); the scanner has
  checked them, so the reader does not fail on them.\<close>

definition unquote :: "string \<Rightarrow> string" where
  "unquote raw = (case read_str (raw @ [dquote]) of Inr (v, _) \<Rightarrow> v | Inl _ \<Rightarrow> raw)"

text \<open>\<open>strconv.ParseInt(s, 10, 64)\<close> on a JSON number literal.\<close>

definition parse_int64 :: "string \<Rightarrow> int option" where
  "parse_int64 s =
     (let neg = (take 1 s = ''-''); ds = (if neg then drop 1 s else s);
          v = (if neg then - int (digits_val ds) else int (digits_val ds))
      in if ds \<noteq> [] \<and> list_all is_dig ds \<and> - (2 ^ 63) \<le> v \<and> v < 2 ^ 63 then Some v else None)"

definition type_error :: "string \<Rightarrow> field \<Rightarrow> goerr" where
  "type_error v f =
     ''json: cannot unmarshal '' @ v @ '' into Go struct field RelayCount.'' @ field_name f
     @ '' of type '' @ field_type f"

definition top_type_error :: "string \<Rightarrow> goerr" where
  "top_type_error v = ''json: cannot unmarshal '' @ v @ '' into Go value of type types.RelayCount''"

text \<open>\<open>d.saveError\<close>: only the first error is kept.\<close>

definition saveError :: "goerr option \<Rightarrow> goerr \<Rightarrow> goerr option" where
  "saveError sv e = (case sv of None \<Rightarrow> Some e | Some e0 \<Rightarrow> Some e0)"

definition set_int :: "field \<Rightarrow> int \<Rightarrow> relay_count \<Rightarrow> relay_count" where
  "set_int f n rc = (if f = FSuccess then rc\<lparr>rc_Success := n\<rparr> else rc\<lparr>rc_Error := n\<rparr>)"

text \<open>The zero \<open>RelayCount\<close>; Go's zero \<open>time.Time\<close> is 0001-01-01 00:00:00 UTC.\<close>

definition zero_count :: relay_count where
  "zero_count = \<lparr>rc_AppPublicKey = [], rc_Day = -62135596800 * 1000000000, rc_Success = 0, rc_Error = 0\<rparr>"

type_synonym dstate = "goerr + (relay_count \<times> goerr option)"

text \<open>\<open>literalStore\<close> of a string literal into the field the key selected (\<open>None\<close>:
  an unknown key, whose value is skipped).\<close>

definition store_string :: "field option \<Rightarrow> string \<Rightarrow> relay_count \<Rightarrow> goerr option \<Rightarrow> dstate" where
  "store_string f raw rc sv =
     (case f of
        None \<Rightarrow> Inr (rc, sv)
      | Some FAppPublicKey \<Rightarrow> Inr (rc\<lparr>rc_AppPublicKey := unquote raw\<rparr>, sv)
      | Some FDay \<Rightarrow>
          (case parseRFC3339 raw of Some t \<Rightarrow> Inr (rc\<lparr>rc_Day := t\<rparr>, sv) | None \<Rightarrow> Inl (time_parse_error raw))
      | Some fld \<Rightarrow> Inr (rc, saveError sv (type_error ''string'' fld)))"

text \<open>\<open>literalStore\<close> of \<open>null\<close>, \<open>true\<close>, \<open>false\<close> or a number.\<close>

definition store_literal :: "field option \<Rightarrow> string \<Rightarrow> relay_count \<Rightarrow> goerr option \<Rightarrow> dstate" where
  "store_literal f l rc sv =
     (case f of
        None \<Rightarrow> Inr (rc, sv)
      | Some FDay \<Rightarrow> if l = ''null'' then Inr (rc, sv) else Inl time_not_string
      | Some fld \<Rightarrow>
          if l = ''null'' then Inr (rc, sv)
          else if l = ''true'' \<or> l = ''false'' then Inr (rc, saveError sv (type_error ''bool'' fld))
          else if fld = FAppPublicKey then Inr (rc, saveError sv (type_error ''number'' fld))
          else (case parse_int64 l of
                  Some n \<Rightarrow> Inr (set_int fld n rc, sv)
                | None \<Rightarrow> Inr (rc, saveError sv (type_error (''number '' @ l) fld))))"

text \<open>An object or array where the field wants a scalar: a saved type error, or the
  error of \<open>time.Time.UnmarshalJSON\<close>, which receives the raw value.\<close>

definition store_compound :: "field option \<Rightarrow> string \<Rightarrow> relay_count \<Rightarrow> goerr option \<Rightarrow> dstate" where
  "store_compound f kind rc sv =
     (case f of
        None \<Rightarrow> Inr (rc, sv)
      | Some FDay \<Rightarrow> Inl time_not_string
      | Some fld \<Rightarrow> Inr (rc, saveError sv (type_error kind fld)))"

definition finish :: "relay_count \<Rightarrow> goerr option \<Rightarrow> goerr + relay_count" where
  "finish rc sv = (case sv of None \<Rightarrow> Inr rc | Some e \<Rightarrow> Inl e)"

text \<open>The loop of \<open>decodeState.object\<close> over the tokens after \<open>{\<close>: expecting a key
  or the end, the colon, the value, skipping a compound value (\<open>d.skip\<close>, with its
  depth), and expecting a comma or the end.\<close>

datatype wstate = WKey | WColon "field option" | WVal "field option" | WSkip nat | WNext

fun walk :: "wstate \<Rightarrow> relay_count \<Rightarrow> goerr option \<Rightarrow> token list \<Rightarrow> goerr + relay_count" where
  "walk st rc sv [] = finish rc sv"
| "walk WKey rc sv (TStr k # ts) = walk (WColon (field_of (unquote k))) rc sv ts"
| "walk WKey rc sv (t # ts) = finish rc sv"
| "walk (WColon f) rc sv (t # ts) = walk (WVal f) rc sv ts"
| "walk (WVal f) rc sv (TStr raw # ts) =
     (case store_string f raw rc sv of Inl e \<Rightarrow> Inl e | Inr (rc', sv') \<Rightarrow> walk WNext rc' sv' ts)"
| "walk (WVal f) rc sv (TLit l # ts) =
     (case store_literal f l rc sv of Inl e \<Rightarrow> Inl e | Inr (rc', sv') \<Rightarrow> walk WNext rc' sv' ts)"
| "walk (WVal f) rc sv (TObj # ts) =
     (case store_compound f ''object'' rc sv of Inl e \<Rightarrow> Inl e | Inr (rc', sv') \<Rightarrow> walk (WSkip 1) rc' sv' ts)"
| "walk (WVal f) rc sv (TArr # ts) =
     (case store_compound f ''array'' rc sv of Inl e \<Rightarrow> Inl e | Inr (rc', sv') \<Rightarrow> walk (WSkip 1) rc' sv' ts)"
| "walk (WVal f) rc sv (t # ts) = finish rc sv"
| "walk (WSkip d) rc sv (t # ts) =
     (if t = TObj \<or> t = TArr then walk (WSkip (Suc d)) rc sv ts
      else if t = TEndObj \<or> t = TEndArr then
        (if d = 1 then walk WNext rc sv ts else walk (WSkip (d - 1)) rc sv ts)
      else walk (WSkip d) rc sv ts)"
| "walk WNext rc sv (TComma # ts) = walk WKey rc sv ts"
| "walk WNext rc sv (t # ts) = finish rc sv"

text \<open>\<open>d.unmarshal\<close> into the \<open>RelayCount\<close>: an object is walked; \<open>null\<close> leaves the
  zero value; any other value is a type error.\<close>

fun unmarshal :: "token list \<Rightarrow> goerr + relay_count" where
  "unmarshal (TObj # ts) = walk WKey zero_count None ts"
| "unmarshal (TArr # ts) = Inl (top_type_error ''array'')"
| "unmarshal (TStr s # ts) = Inl (top_type_error ''string'')"
| "unmarshal (TLit l # ts) =
     (if l = ''null'' then Inr zero_count
      else if l = ''true'' \<or> l = ''false'' then Inl (top_type_error ''bool'')
      else Inl (top_type_error ''number''))"
| "unmarshal ts = Inr zero_count"

text \<open>\<open>json.NewDecoder(r.Body).Decode(&count)\<close>: the first value of the body, scanned
  and then unmarshalled; the bytes after it are not read.\<close>

definition Decode :: decoder where
  "Decode body =
     (case readValue BeginValue [] 0 False body of
        Inl e \<Rightarrow> Inl e
      | Inr n \<Rightarrow> unmarshal (lex LNorm (take n body)))"

text \<open>Both counts lie in the range of \<open>int64\<close>.\<close>

definition counts_int64 :: "relay_count \<Rightarrow> bool" where
  "counts_int64 rc \<longleftrightarrow> - (2 ^ 63) \<le> rc_Success rc \<and> rc_Success rc < 2 ^ 63 \<and>
     - (2 ^ 63) \<le> rc_Error rc \<and> rc_Error rc < 2 ^ 63"

subsection \<open>Evaluation rules\<close>

text \<open>The definitions a concrete body is decoded with, by \<open>simp\<close>.\<close>

lemmas unmarshal_defs = store_string_def store_literal_def store_compound_def finish_def
  saveError_def set_int_def parse_int64_def digits_val_def field_of_def unquote_def

lemmas time_defs = parseRFC3339_def slice_def parseUint_def daysIn_def isLeap_def
  days_from_civil_def parse_frac_def parse_zone_def

subsection \<open>Decoded counts fit in int64\<close>

lemma parse_int64_range: "parse_int64 l = Some n \<Longrightarrow> - (2 ^ 63) \<le> n \<and> n < 2 ^ 63"
  by (auto simp: parse_int64_def Let_def split: if_splits)

lemma store_fns_int64:
  "store_string f raw rc sv = Inr (rc', sv') \<Longrightarrow> counts_int64 rc \<Longrightarrow> counts_int64 rc'"
  "store_literal f l rc sv = Inr (rc', sv') \<Longrightarrow> counts_int64 rc \<Longrightarrow> counts_int64 rc'"
  "store_compound f k rc sv = Inr (rc', sv') \<Longrightarrow> counts_int64 rc \<Longrightarrow> counts_int64 rc'"
  by (auto simp: store_string_def store_literal_def store_compound_def counts_int64_def set_int_def
      dest: parse_int64_range split: option.splits field.splits if_splits)

lemma walk_counts_int64:
  "walk st rc sv ts = Inr c \<Longrightarrow> counts_int64 rc \<Longrightarrow> counts_int64 c"
  by (induction st rc sv ts rule: walk.induct)
     (auto simp: finish_def dest: store_fns_int64 split: option.splits sum.splits prod.splits if_splits)

lemma zero_count_int64: "counts_int64 zero_count"
  by (simp add: counts_int64_def zero_count_def)

lemma unmarshal_counts_int64: "unmarshal ts = Inr c \<Longrightarrow> counts_int64 c"
  by (induction ts rule: unmarshal.induct)
     (auto simp: zero_count_int64 walk_counts_int64 split: if_splits)

text \<open>Every record the decoder returns has both counts within the range of Go's
  \<open>int64\<close>: a number literal outside it is a type error, not a wrapped value.\<close>

lemma Decode_counts_int64: "Decode body = Inr c \<Longrightarrow> counts_int64 c"
  using unmarshal_counts_int64 by (auto simp: Decode_def split: sum.splits)

subsection \<open>The decoder reads only the first value\<close>

lemma readValue_stops:
  "readValue st ps n ns xs = Inr m \<Longrightarrow> m < n + length xs \<Longrightarrow> readValue st ps n ns (xs @ ys) = Inr m"
  by (induction st ps n ns xs rule: readValue.induct) (auto split: scan.splits if_splits)

lemma readValue_le: "readValue st ps n ns xs = Inr m \<Longrightarrow> n \<le> m \<and> m \<le> n + length xs"
  by (induction st ps n ns xs rule: readValue.induct) (auto split: scan.splits if_splits)

text \<open>Once the scanner has found the end of the first value before the end of the
  body, whatever follows is never read: \<open>{"success":1} garbage\<close> decodes as
  \<open>{"success":1}\<close>.\<close>

lemma Decode_append_after_value:
  assumes "readValue BeginValue [] 0 False body = Inr m" and "m < length body"
  shows "Decode (body @ rest) = Decode body"
proof -
  have "readValue BeginValue [] 0 False (body @ rest) = Inr m" using assms by (simp add: readValue_stops)
  moreover have "m \<le> length body" using readValue_le [OF assms(1)] by simp
  ultimately show ?thesis using assms(1) by (simp add: Decode_def)
qed

subsection \<open>Error paths\<close>

lemma readValue_spaces:
  "list_all isSpace b \<Longrightarrow> readValue BeginValue [] n False b = Inl ''EOF''"
  by (induction b arbitrary: n) (simp_all add: stateBeginValue_def isSpace_def)

text \<open>A body that is empty or holds only white space is the error \<open>EOF\<close>.\<close>

lemma Decode_blank:
  assumes "list_all isSpace body"
  shows "Decode body = Inl ''EOF''"
  using assms by (simp add: Decode_def readValue_spaces)

text \<open>Negative counts, and the empty object and \<open>null\<close>, decode without error.\<close>

lemma Decode_zero:
  "Decode ''{}'' = Inr zero_count" "Decode ''null'' = Inr zero_count"
  by (simp_all add: Decode_def scan_defs unmarshal_defs)

subsection \<open>Nesting depth\<close>

text \<open>Arrays nested up to the scanner's maximum depth of 10000 pass the scanner (and are
  then a type error for the struct); one more level is the scanner's
  \<open>exceeded max depth\<close> error at the first bracket beyond the limit.\<close>

lemma step_open:
  "st \<in> {BeginValue, BeginValueOrEmpty} \<Longrightarrow> length ps < 10000 \<Longrightarrow>
   step st ps CHR ''['' = Cont BeginValueOrEmpty (ParseArrayValue # ps)"
  by (auto simp: stateBeginValue_def pushParseState_def isSpace_def)

lemma step_open_deep:
  "st \<in> {BeginValue, BeginValueOrEmpty} \<Longrightarrow> length ps = 10000 \<Longrightarrow>
   step st ps CHR ''['' = scan_error CHR ''['' ''exceeded max depth''"
  by (auto simp: stateBeginValue_def pushParseState_def isSpace_def)

lemma readValue_opens:
  "st \<in> {BeginValue, BeginValueOrEmpty} \<Longrightarrow> length ps + j \<le> 10000 \<Longrightarrow> 0 < j \<Longrightarrow>
   readValue st ps n ns (replicate j CHR ''['' @ xs) =
   readValue BeginValueOrEmpty (replicate j ParseArrayValue @ ps) (n + j) True xs"
proof (induction j arbitrary: st ps n ns)
  case 0
  then show ?case by simp
next
  case (Suc j)
  have s: "step st ps CHR ''['' = Cont BeginValueOrEmpty (ParseArrayValue # ps)"
    using Suc.prems by (intro step_open) auto
  show ?case
  proof (cases j)
    case 0
    then show ?thesis using s by (simp add: isSpace_def)
  next
    case (Suc j')
    then show ?thesis
      using s Suc.IH [of BeginValueOrEmpty "ParseArrayValue # ps" "Suc n" True] Suc.prems
      by (simp add: isSpace_def replicate_app_Cons_same)
  qed
qed

lemma readValue_closes:
  "st \<in> {BeginValueOrEmpty, EndValue} \<Longrightarrow>
   readValue st (replicate (Suc k) ParseArrayValue) n ns (replicate (Suc k) CHR '']'' @ xs) = Inr (n + Suc k)"
proof (induction k arbitrary: st n ns)
  case 0
  then show ?case by (auto simp: stateEndValue_def popParseState_def isSpace_def)
next
  case (Suc k)
  have "step st (replicate (Suc (Suc k)) ParseArrayValue) CHR '']'' = EndComp EndValue (replicate (Suc k) ParseArrayValue)"
    using Suc.prems by (auto simp: stateEndValue_def popParseState_def isSpace_def)
  then show ?case
    using Suc.IH [of EndValue "Suc n"] by (simp add: stateEndValue_def isSpace_def)
qed

lemma Decode_nested_ok:
  assumes "0 < n" and "n \<le> 10000"
  shows "Decode (replicate n CHR ''['' @ replicate n CHR '']'') = Inl (top_type_error ''array'')"
proof -
  obtain k where n: "n = Suc k" using assms(1) by (cases n) auto
  have rv: "readValue BeginValue [] 0 False (replicate n CHR ''['' @ replicate n CHR '']'') = Inr (n + n)"
    using readValue_opens [of BeginValue "[]" n 0 False "replicate n CHR '']''"] assms
      readValue_closes [of BeginValueOrEmpty k n True "[]"]
    by (simp add: n del: readValue.simps replicate.simps)
  have b: "replicate n CHR ''['' @ replicate n CHR '']'' = CHR ''['' # (replicate k CHR ''['' @ replicate n CHR '']'')"
    by (simp add: n)
  show ?thesis
    by (simp only: Decode_def rv sum.case take_all length_append length_replicate order_refl)
       (simp add: b)
qed

lemma Decode_nested_deep:
  assumes "10000 \<le> n"
  shows "Decode (replicate (Suc n) CHR ''['' @ rest) = Inl (syntax_msg CHR ''['' ''exceeded max depth'')"
proof -
  have "Suc n = 10000 + Suc (n - 10000)" using assms by simp
  then have r: "replicate (Suc n) CHR ''['' @ rest = replicate 10000 CHR ''['' @ (CHR ''['' # replicate (n - 10000) CHR ''['' @ rest)"
    by (metis append.assoc replicate_Suc replicate_add append_Cons append_Nil)
  have "readValue BeginValue [] 0 False (replicate (Suc n) CHR ''['' @ rest) =
        readValue BeginValueOrEmpty (replicate 10000 ParseArrayValue) 10000 True
          (CHR ''['' # replicate (n - 10000) CHR ''['' @ rest)"
    unfolding r
    using readValue_opens [of BeginValue "[]" 10000 0 False "CHR ''['' # replicate (n - 10000) CHR ''['' @ rest"]
    by (simp del: readValue.simps)
  also have "\<dots> = Inl (syntax_msg CHR ''['' ''exceeded max depth'')"
  proof -
    have "step BeginValueOrEmpty (replicate 10000 ParseArrayValue) CHR ''['' = scan_error CHR ''['' ''exceeded max depth''"
      by (rule step_open_deep) simp_all
    then show ?thesis by (simp only: readValue.simps(2) scan_error_def scan.case)
  qed
  finally show ?thesis by (simp add: Decode_def)
qed

end
