(* ===== verification/JsonRoundtrip.thy ===== *)
theory JsonRoundtrip
  imports JsonAccept JsonDecode
begin

text \<open>
  \<open>json.Marshal\<close> of a \<open>types.RelayCount\<close> and its way back through the decoder.
  Marshal writes the struct's fields in declaration order under their JSON keys: the
  key string as encoded by \<open>json_str\<close>, the day as the text \<open>time.Time.MarshalJSON\<close>
  returns (a quoted RFC 3339 timestamp; here a parameter, since its digits depend on
  the zone and the Go release, with the documented contract that it parses back to
  the instant), and the counts as \<open>strconv.AppendInt(b, v, 10)\<close> writes them.
\<close>

text \<open>\<open>strconv.AppendInt\<close> in base 10: the decimal digits, most significant first, with
  a minus sign for a negative value.\<close>

fun nat_digits :: "nat \<Rightarrow> string" where
  "nat_digits n = (if n < 10 then [char_of (48 + n)] else nat_digits (n div 10) @ [char_of (48 + n mod 10)])"

definition format_int :: "int \<Rightarrow> string" where
  "format_int i = (if i < 0 then CHR ''-'' # nat_digits (nat (- i)) else nat_digits (nat i))"

definition Marshal_RelayCount :: "string \<Rightarrow> relay_count \<Rightarrow> string" where
  "Marshal_RelayCount day rc =
     CHR ''{'' # json_quote ''appPublicKey'' @ CHR '':'' # json_quote (rc_AppPublicKey rc) @
     CHR '','' # json_quote ''day'' @ CHR '':'' # dquote # day @ dquote #
     CHR '','' # json_quote ''success'' @ CHR '':'' # format_int (rc_Success rc) @
     CHR '','' # json_quote ''error'' @ CHR '':'' # format_int (rc_Error rc) @ ''}''"

declare nat_digits.simps [simp del]

subsection \<open>Decimal digits\<close>

lemma nat_digits_dig: "list_all is_dig (nat_digits n) \<and> nat_digits n \<noteq> []"
proof (induction n rule: nat_digits.induct)
  case (1 n)
  have "is_dig (char_of (48 + k)) " if "k < 10" for k :: nat
    using that by (simp add: is_dig_def in_range_def)
  then show ?case using 1 unfolding nat_digits.simps [of n] by simp
qed

lemma digits_val_snoc: "digits_val (xs @ [c]) = 10 * digits_val xs + (of_char c - 48)"
  by (simp add: digits_val_def)

lemma nat_digits_val: "digits_val (nat_digits n) = n"
proof (induction n rule: nat_digits.induct)
  case (1 n)
  have d: "of_char (char_of (48 + k) :: char) - 48 = k" if "k < 10" for k :: nat
    using that by (simp add: of_char_of)
  show ?case
  proof (cases "n < 10")
    case True
    then show ?thesis using d [OF True] unfolding nat_digits.simps [of n] by (simp add: digits_val_def)
  next
    case False
    then show ?thesis using 1 d [of "n mod 10"] unfolding nat_digits.simps [of n] by (simp add: digits_val_snoc)
  qed
qed

lemma nat_digits_not_minus: "take 1 (nat_digits n) \<noteq> ''-''"
proof
  assume "take 1 (nat_digits n) = ''-''"
  moreover obtain c cs where "nat_digits n = c # cs" "is_dig c"
    using nat_digits_dig [of n] by (cases "nat_digits n") auto
  ultimately show False by (simp add: is_dig_def in_range_def)
qed

lemma parse_format_int:
  assumes "- (2 ^ 63) \<le> i" and "i < 2 ^ 63"
  shows "parse_int64 (format_int i) = Some i"
proof (cases "i < 0")
  case True
  then show ?thesis
    using assms nat_digits_dig [of "nat (- i)"] nat_digits_val [of "nat (- i)"]
    by (simp add: parse_int64_def format_int_def Let_def)
next
  case False
  then show ?thesis
    using assms nat_digits_dig [of "nat i"] nat_digits_val [of "nat i"] nat_digits_not_minus [of "nat i"]
    by (simp add: parse_int64_def format_int_def Let_def)
qed


subsection \<open>The scanner and the lexer on a count\<close>

lemma nat_digits_lead:
  "\<exists>c cs. nat_digits n = c # cs \<and> (n = 0 \<longrightarrow> c = CHR ''0'' \<and> cs = []) \<and> (n \<noteq> 0 \<longrightarrow> in_range 49 57 c)"
proof (induction n rule: nat_digits.induct)
  case (1 n)
  show ?case
  proof (cases "n < 10")
    case True
    moreover have "char_of (48::nat) = CHR ''0''" by (simp add: char_of_def bit_0)
    ultimately show ?thesis unfolding nat_digits.simps [of n] by (auto simp: in_range_def of_char_of)
  next
    case False
    then obtain c cs where "nat_digits (n div 10) = c # cs" "in_range 49 57 c" using 1 by auto
    with False show ?thesis unfolding nat_digits.simps [of n] by auto
  qed
qed

lemma scan_digits_S1: "list_all is_dig xs \<Longrightarrow> scan_run S1 ps xs = Cont S1 ps"
  by (induction xs) simp_all

lemma step_begin_digit:
  assumes "in_range 49 57 c"
  shows "step BeginValue ps c = Cont S1 ps \<and> step Neg ps c = Cont S1 ps"
proof -
  have "c \<notin> {CHR ''{'', CHR ''['', dquote, CHR ''-'', CHR ''0'', CHR ''t'', CHR ''f'', CHR ''n''}"
    using assms unfolding in_range_def by auto
  moreover have "\<not> isSpace c" using assms unfolding in_range_def isSpace_def by auto
  ultimately show ?thesis using assms by (simp add: stateBeginValue_def)
qed

lemma scan_format_int:
  "\<exists>st. (st = S0 \<or> st = S1) \<and> scan_run BeginValue ps (format_int i) = Cont st ps"
proof -
  obtain c cs where c: "nat_digits (nat \<bar>i\<bar>) = c # cs" and
    z: "nat \<bar>i\<bar> = 0 \<longrightarrow> c = CHR ''0'' \<and> cs = []" and nz: "nat \<bar>i\<bar> \<noteq> 0 \<longrightarrow> in_range 49 57 c"
    using nat_digits_lead by blast
  have d: "scan_run S1 ps cs = Cont S1 ps"
    using nat_digits_dig [of "nat \<bar>i\<bar>"] c by (simp add: scan_digits_S1)
  show ?thesis
  proof (cases "i = 0")
    case True
    then have "format_int i = [CHR ''0'']" using c z by (simp add: format_int_def)
    then show ?thesis by (simp add: stateBeginValue_def isSpace_def)
  next
    case False
    then have r: "in_range 49 57 c" using nz by simp
    have m: "step BeginValue ps CHR ''-'' = Cont Neg ps" by (simp add: stateBeginValue_def isSpace_def)
    have "format_int i = (if i < 0 then [CHR ''-''] else []) @ c # cs"
      using c by (cases "i < 0") (simp_all add: format_int_def)
    then show ?thesis using step_begin_digit [OF r, of ps] d m by auto
  qed
qed

lemma lit_char_format_int: "list_all lit_char (format_int i)"
  using nat_digits_dig [of "nat (- i)"] nat_digits_dig [of "nat i"]
  by (auto simp: format_int_def lit_char_def list_all_iff)

lemma lex_lit: "list_all lit_char xs \<Longrightarrow> lex (LLit acc) (xs @ rest) = lex (LLit (acc @ xs)) rest"
  by (induction xs arbitrary: acc) simp_all

lemma format_int_Cons: "\<exists>d ds. format_int i = d # ds"
  using nat_digits_dig [of "nat (- i)"] nat_digits_dig [of "nat i"]
  by (cases "nat_digits (nat (- i))"; cases "nat_digits (nat i)") (simp_all add: format_int_def)

lemma lit_char_not_delim:
  "lit_char d \<Longrightarrow> d \<noteq> CHR ''{'' \<and> d \<noteq> CHR ''}'' \<and> d \<noteq> CHR ''['' \<and> d \<noteq> CHR '']'' \<and> d \<noteq> CHR '':'' \<and>
      d \<noteq> CHR '','' \<and> d \<noteq> dquote \<and> \<not> isSpace d"
  unfolding lit_char_def is_dig_def in_range_def isSpace_def by auto

lemma lex_format_int:
  assumes "\<not> lit_char c"
  shows "lex LNorm (format_int i @ c # rest) = TLit (format_int i) # lex LNorm (c # rest)"
proof -
  obtain d ds where f: "format_int i = d # ds" using format_int_Cons by blast
  have l: "lit_char d" "list_all lit_char ds" using lit_char_format_int [of i] unfolding f by simp_all
  have 1: "lex LNorm (d # (ds @ c # rest)) = lex (LLit [d]) (ds @ c # rest)"
    using lit_char_not_delim [OF l(1)] by (simp only: lex.simps(2) if_False)
  have 2: "lex (LLit [d]) (ds @ c # rest) = lex (LLit (d # ds)) (c # rest)"
    using lex_lit [OF l(2), of "[d]" "c # rest"] by simp
  have 3: "lex (LLit (d # ds)) (c # rest) = TLit (d # ds) # lex LNorm (c # rest)"
    using assms by (simp only: lex.simps(8) if_False)
  show ?thesis unfolding f using 1 2 3 by (simp only: append_Cons)
qed

subsection \<open>The lexer on an encoded string\<close>

lemma lex_str_plain:
  "\<forall>c\<in>set xs. c \<noteq> dquote \<and> c \<noteq> bslash \<Longrightarrow> lex (LStr acc) (xs @ rest) = lex (LStr (acc @ xs)) rest"
  by (induction xs arbitrary: acc) simp_all

lemma hex_digit_not_delim: "n < 16 \<Longrightarrow> hex_digit n \<noteq> dquote \<and> hex_digit n \<noteq> bslash"
  using nth_mem [of n "''0123456789abcdef''"] by (auto simp: hex_digit_def)

lemma lex_escape_ascii:
  "lex (LStr acc) (escape_ascii c @ rest) = lex (LStr (acc @ escape_ascii c)) rest"
  using hex_digit_not_delim [of "of_char c div 16"] hex_digit_not_delim [of "of_char c mod 16"]
    nat_of_char_less_256 [of c]
  by (simp add: escape_ascii_def less_mult_imp_div_less)

lemma lex_json_str: "lex (LStr acc) (json_str s @ rest) = lex (LStr (acc @ json_str s)) rest"
proof (induction s arbitrary: acc rule: json_str.induct)
  case (2 c cs)
  show ?case
  proof (cases "of_char c < (0x80::nat)")
    case True
    then show ?thesis using 2
      by (cases "html_safe c") (simp_all add: lex_escape_ascii html_safe_def)
  next
    case ascii: False
    show ?thesis
    proof (cases "utf8_seq (c # cs) = 0")
      case True
      then show ?thesis using 2 ascii by (simp del: utf8_seq.simps)
    next
      case valid: False
      show ?thesis
      proof (cases "line_sep (c # cs)")
        case True
        then show ?thesis using 2 ascii hex_digit_not_delim [of "of_char ((c # cs) ! 2) mod 16"]
          by (simp del: utf8_seq.simps)
      next
        case False
        have "\<forall>x\<in>set (take (utf8_seq (c # cs)) (c # cs)). x \<noteq> dquote \<and> x \<noteq> bslash"
          using seq_bytes_high [OF valid ascii] by (auto simp: str_byte_def)
        then show ?thesis
          using 2 ascii valid False lex_str_plain [of "take (utf8_seq (c # cs)) (c # cs)"]
          by (simp del: utf8_seq.simps)
      qed
    qed
  qed
qed simp

lemma lex_json_quote: "lex LNorm (json_quote k @ rest) = TStr (json_str k) # lex LNorm rest"
  using lex_json_str [of "[]" k "dquote # rest"] by (simp add: json_quote_def)

subsection \<open>The scanner on a marshalled count\<close>

lemma scan_key:
  assumes "st = BeginString \<or> st = BeginStringOrEmpty"
  shows "scan_run st (ParseObjectKey # ps) (json_quote k @ CHR '':'' # rest) =
         scan_run BeginValue (ParseObjectValue # ps) rest"
  using assms
  by (auto simp: json_quote_def scan_json_str stateBeginString_def stateEndValue_def isSpace_def)

lemma scan_str_value:
  "scan_run BeginValue (ParseObjectValue # ps) (json_quote v @ CHR '','' # rest) =
   scan_run BeginString (ParseObjectKey # ps) rest"
  by (simp add: json_quote_def scan_json_str stateBeginValue_def stateEndValue_def isSpace_def)

lemma step_num_end:
  "st = S0 \<or> st = S1 \<Longrightarrow> c = CHR '','' \<or> c = CHR ''}'' \<Longrightarrow> step st ps c = stateEndValue ps c"
  by (auto simp: is_dig_def in_range_def state0_def)

lemma scan_int_value:
  "scan_run BeginValue (ParseObjectValue # ps) (format_int i @ CHR '','' # rest) =
   scan_run BeginString (ParseObjectKey # ps) rest"
proof -
  obtain st where st: "st = S0 \<or> st = S1" and r: "scan_run BeginValue (ParseObjectValue # ps) (format_int i) = Cont st (ParseObjectValue # ps)"
    using scan_format_int [of "ParseObjectValue # ps" i] by (elim exE conjE)
  show ?thesis
    using scan_run_append [OF r] step_num_end [OF st, of "CHR '',''" "ParseObjectValue # ps"]
    by (simp add: stateEndValue_def isSpace_def)
qed

lemma readValue_int_close:
  "readValue BeginValue [ParseObjectValue] n ns (format_int i @ ''}'') = Inr (n + length (format_int i) + 1)"
proof -
  obtain st where st: "st = S0 \<or> st = S1" and r: "scan_run BeginValue [ParseObjectValue] (format_int i) = Cont st [ParseObjectValue]"
    using scan_format_int [of "[ParseObjectValue]" i] by (elim exE conjE)
  show ?thesis
    using readValue_run [OF r, of n ns "''}''"] step_num_end [OF st, of "CHR ''}''" "[ParseObjectValue]"]
    by (simp add: stateEndValue_def isSpace_def popParseState_def)
qed

lemma quote_plain_Cons: "plain_text d \<Longrightarrow> dquote # d @ dquote # rest = json_quote d @ rest"
  by (simp add: json_quote_plain)

lemma readValue_Marshal:
  assumes "plain_text d"
  shows "readValue BeginValue [] 0 False (Marshal_RelayCount d rc) = Inr (length (Marshal_RelayCount d rc))"
proof -
  let ?X = "json_quote ''appPublicKey'' @ CHR '':'' # json_quote (rc_AppPublicKey rc) @
     CHR '','' # json_quote ''day'' @ CHR '':'' # json_quote d @
     CHR '','' # json_quote ''success'' @ CHR '':'' # format_int (rc_Success rc) @
     CHR '','' # json_quote ''error'' @ [CHR '':'']"
  have m: "Marshal_RelayCount d rc = (CHR ''{'' # ?X) @ format_int (rc_Error rc) @ ''}''"
    using assms by (simp add: Marshal_RelayCount_def quote_plain_Cons)
  have r: "scan_run BeginValue [] (CHR ''{'' # ?X) = Cont BeginValue [ParseObjectValue]"
    by (simp add: scan_key scan_str_value scan_int_value scan_defs)
  show ?thesis
    unfolding m readValue_run [OF r] readValue_int_close by simp
qed

lemma not_lit_close: "\<not> lit_char CHR '','' \<and> \<not> lit_char CHR ''}''"
  by (simp add: lit_char_def is_dig_def in_range_def)

lemma json_str_keys:
  "json_str ''appPublicKey'' = ''appPublicKey''" "json_str ''day'' = ''day''"
  "json_str ''success'' = ''success''" "json_str ''error'' = ''error''"
  by (simp_all add: json_str_plain plain_text_def html_safe_def)

lemma lex_sep:
  "lex LNorm (CHR '','' # rest) = TComma # lex LNorm rest" "lex LNorm (CHR '':'' # rest) = TColon # lex LNorm rest"
  "lex LNorm (CHR ''{'' # rest) = TObj # lex LNorm rest" "lex LNorm (CHR ''}'' # rest) = TEndObj # lex LNorm rest"
  by simp_all

lemma Marshal_plain_day:
  assumes "plain_text d"
  shows "Marshal_RelayCount d rc =
     CHR ''{'' # json_quote ''appPublicKey'' @ CHR '':'' # json_quote (rc_AppPublicKey rc) @
     CHR '','' # json_quote ''day'' @ CHR '':'' # json_quote d @
     CHR '','' # json_quote ''success'' @ CHR '':'' # format_int (rc_Success rc) @
     CHR '','' # json_quote ''error'' @ CHR '':'' # format_int (rc_Error rc) @ CHR ''}'' # []"
  using assms by (simp add: Marshal_RelayCount_def quote_plain_Cons)

lemma lex_Marshal:
  assumes "plain_text d"
  shows "lex LNorm (Marshal_RelayCount d rc) =
    [TObj, TStr ''appPublicKey'', TColon, TStr (json_str (rc_AppPublicKey rc)), TComma,
     TStr ''day'', TColon, TStr d, TComma,
     TStr ''success'', TColon, TLit (format_int (rc_Success rc)), TComma,
     TStr ''error'', TColon, TLit (format_int (rc_Error rc)), TEndObj]"
  using not_lit_close unfolding Marshal_plain_day [OF assms]
  by (simp only: lex_sep lex_json_quote lex_format_int not_False_eq_True lex.simps(1)
      json_str_keys json_str_plain [OF assms])

subsection \<open>Unmarshalling the tokens\<close>

lemma fields_by_name: "field_of ''appPublicKey'' = Some FAppPublicKey" "field_of ''day'' = Some FDay"
  "field_of ''success'' = Some FSuccess" "field_of ''error'' = Some FError"
  by code_simp+

lemma unquote_json_str: "unquote (json_str s) = utf8_sanitize s"
  using read_json_str [of s "[]"] by (simp add: unquote_def)

lemma field_of_keys:
  "field_of (unquote ''appPublicKey'') = Some FAppPublicKey" "field_of (unquote ''day'') = Some FDay"
  "field_of (unquote ''success'') = Some FSuccess" "field_of (unquote ''error'') = Some FError"
proof -
  have "unquote k = k" if "json_str k = k" "ascii_str k" for k
    using unquote_json_str [of k] that by (simp add: utf8_sanitize_valid_id ascii_valid)
  moreover have "ascii_str ''appPublicKey''" "ascii_str ''day''" "ascii_str ''success''" "ascii_str ''error''"
    by (simp_all add: ascii_str_def)
  ultimately show "field_of (unquote ''appPublicKey'') = Some FAppPublicKey" "field_of (unquote ''day'') = Some FDay"
    "field_of (unquote ''success'') = Some FSuccess" "field_of (unquote ''error'') = Some FError"
    using json_str_keys by (simp_all only: fields_by_name)
qed

lemma format_int_not_keyword:
  "format_int i \<noteq> ''null'' \<and> format_int i \<noteq> ''true'' \<and> format_int i \<noteq> ''false''"
  using nat_digits_dig [of "nat i"] by (auto simp: format_int_def is_dig_def in_range_def)

lemma walk_Marshal:
  assumes "parseRFC3339 d = Some (rc_Day rc)" and "counts_int64 rc"
  shows "walk WKey zero_count None
    [TStr ''appPublicKey'', TColon, TStr (json_str (rc_AppPublicKey rc)), TComma,
     TStr ''day'', TColon, TStr d, TComma,
     TStr ''success'', TColon, TLit (format_int (rc_Success rc)), TComma,
     TStr ''error'', TColon, TLit (format_int (rc_Error rc)), TEndObj] =
    Inr (rc\<lparr>rc_AppPublicKey := utf8_sanitize (rc_AppPublicKey rc)\<rparr>)"
  using assms format_int_not_keyword [of "rc_Success rc"] format_int_not_keyword [of "rc_Error rc"]
    parse_format_int [of "rc_Success rc"] parse_format_int [of "rc_Error rc"]
  by (cases rc) (simp add: field_of_keys store_string_def store_literal_def unquote_json_str
      set_int_def finish_def zero_count_def counts_int64_def)

text \<open>\<open>json.Marshal\<close> then \<open>json.NewDecoder(...).Decode\<close> gives back the count,
  with the application key's invalid UTF-8 bytes replaced by U+FFFD, when the day
  text is what \<open>parseRFC3339\<close> reads as the count's instant and both counts are
  in the range of \<open>int64\<close>.\<close>

lemma Decode_Marshal:
  assumes "plain_text d" and "parseRFC3339 d = Some (rc_Day rc)" and "counts_int64 rc"
  shows "Decode (Marshal_RelayCount d rc) = Inr (rc\<lparr>rc_AppPublicKey := utf8_sanitize (rc_AppPublicKey rc)\<rparr>)"
  by (simp del: walk.simps add: Decode_def readValue_Marshal [OF assms(1)] lex_Marshal [OF assms(1)] walk_Marshal [OF assms(2,3)])

subsection \<open>Bodies with the two counts\<close>

text \<open>\<open>strconv.ParseInt\<close> on what \<open>strconv.AppendInt\<close> wrote: the value back inside the
  range of \<open>int64\<close>, the range error outside it, never a wrapped value.\<close>

lemma parse_int64_format_int:
  "parse_int64 (format_int i) = (if - (2 ^ 63) \<le> i \<and> i < 2 ^ 63 then Some i else None)"
proof (cases "i < 0")
  case True
  then show ?thesis
    using nat_digits_dig [of "nat (- i)"] nat_digits_val [of "nat (- i)"]
    by (simp add: parse_int64_def format_int_def Let_def)
next
  case False
  then show ?thesis
    using nat_digits_dig [of "nat i"] nat_digits_val [of "nat i"] nat_digits_not_minus [of "nat i"]
    by (simp add: parse_int64_def format_int_def Let_def)
qed

lemma counts_body:
  "''{\"success\":'' @ format_int a @ '',\"error\":'' @ format_int b @ ''}'' =
   (CHR ''{'' # json_quote ''success'' @ CHR '':'' # format_int a @ CHR '','' # json_quote ''error'' @ [CHR '':'']) @
     format_int b @ ''}''"
  unfolding json_quote_def json_str_keys by simp

lemma readValue_counts:
  "readValue BeginValue [] 0 False (''{\"success\":'' @ format_int a @ '',\"error\":'' @ format_int b @ ''}'') =
   Inr (length (''{\"success\":'' @ format_int a @ '',\"error\":'' @ format_int b @ ''}''))"
proof -
  let ?X = "json_quote ''success'' @ CHR '':'' # format_int a @ CHR '','' # json_quote ''error'' @ [CHR '':'']"
  have r: "scan_run BeginValue [] (CHR ''{'' # ?X) = Cont BeginValue [ParseObjectValue]"
    by (simp add: scan_key scan_int_value scan_defs)
  show ?thesis
    unfolding counts_body readValue_run [OF r] readValue_int_close by simp
qed

lemma lex_counts:
  "lex LNorm (''{\"success\":'' @ format_int a @ '',\"error\":'' @ format_int b @ ''}'') =
   [TObj, TStr ''success'', TColon, TLit (format_int a), TComma, TStr ''error'', TColon, TLit (format_int b), TEndObj]"
  using not_lit_close unfolding counts_body unfolding append.assoc append_Cons append_Nil
  by (simp only: lex_sep lex_json_quote lex_format_int not_False_eq_True lex.simps(1) json_str_keys)

text \<open>The decoder on \<open>{"success":a,"error":b}\<close>: both counts are stored when they fit
  in \<open>int64\<close>; a count outside the range is the saved \<open>UnmarshalTypeError\<close> naming the
  literal, the first one when both are out of range.\<close>

lemma Decode_counts:
  "Decode (''{\"success\":'' @ format_int a @ '',\"error\":'' @ format_int b @ ''}'') =
   (if \<not> (- (2 ^ 63) \<le> a \<and> a < 2 ^ 63) then Inl (type_error (''number '' @ format_int a) FSuccess)
    else if \<not> (- (2 ^ 63) \<le> b \<and> b < 2 ^ 63) then Inl (type_error (''number '' @ format_int b) FError)
    else Inr (zero_count\<lparr>rc_Success := a, rc_Error := b\<rparr>))"
  using format_int_not_keyword [of a] format_int_not_keyword [of b]
  unfolding Decode_def readValue_counts sum.case take_all [OF order_refl] lex_counts
  by (simp add: field_of_keys store_literal_def parse_int64_format_int set_int_def finish_def saveError_def)

end
