(* ===== verification/Scenarios.thy ===== *)
theory Scenarios
  imports Router Lifecycle JsonRoundtrip
begin

text \<open>
  The fixtures of \<open>router_test.go\<close>: the key map \<open>{"": true}\<close> every test builds
  its router with, the relay count the ingestion test sends and its JSON text (its
  \<open>json.Marshal\<close>, \<open>Marshal_RelayCount\<close>), the
  requests of the health and ingestion tests, and a store configured to succeed or to
  fail that records every call, standing for the test's \<open>MockDriver\<close>.
  \<open>test_decode\<close> is the decoder restricted to the two bodies the tests send: the
  marshalled count decodes to the count and \<open>wrong\<close> is the scanner's syntax error;
  it agrees there with the model \<open>Decode\<close> of the JsonDecode theory.  The
  table-driven tests themselves are modelled with their case tables, their loops
  and the testify mock they share, and run with \<open>Decode\<close>.
\<close>

definition test_keys :: "string \<rightharpoonup> bool" where
  "test_keys = [[] \<mapsto> True]"

definition rawCountToSend :: relay_count where
  "rawCountToSend = \<lparr>rc_AppPublicKey = ''21'', rc_Day = 1672531200000000000,
     rc_Success = 21, rc_Error = 7\<rparr>"

definition countToSend :: string where
  "countToSend = Marshal_RelayCount ''2023-01-01T00:00:00Z'' rawCountToSend"

definition test_decode :: decoder where
  "test_decode body =
     (if body = countToSend then Inr rawCountToSend
      else Inl (syntax_msg (CHR ''w'') ''looking for beginning of value''))"

definition health_req :: request where
  "health_req = \<lparr>req_method = MethodGet, req_path = ''/'', req_query = None, req_header = Map.empty,
     req_body = [], req_ctx_done = False\<rparr>"

definition count_req :: "string \<Rightarrow> string \<Rightarrow> request" where
  "count_req apiKey body = \<lparr>req_method = MethodPost, req_path = ''/v0/count'', req_query = None,
     req_header = [''Authorization'' \<mapsto> [apiKey]], req_body = body, req_ctx_done = False\<rparr>"

definition store_driver :: "goerr option \<Rightarrow> relay_count list driver" where
  "store_driver result =
     \<lparr>WriteRelayCount = (\<lambda>done c calls. (result, calls @ [c])),
      ReadRelayCounts = (\<lambda>done from to calls. (Inr calls, calls))\<rparr>"

definition test_router :: "goerr option \<Rightarrow> relay_count list Router" where
  "test_router result = fst (NewRouter test_decode (store_driver result) test_keys ''8080'')"

text \<open>\<open>TestRouter_RunServer\<close> runs \<open>RunServer\<close> under a context that times out after a
  millisecond (it is cancelled while the server listens, and the run ends) or after a
  minute (it outlives the test: the server keeps listening).  \<open>lc_after\<close> is the
  state a schedule of events leads to from the start of \<open>RunServer\<close> on port 8080.\<close>

definition ctx_finished_run :: "event list" where
  "ctx_finished_run = [Bind, Cancel, Wake, ServerClosed, Drained None, WaitReturns]"

definition ctx_not_finished_run :: "event list" where
  "ctx_not_finished_run = [Bind, Accept, Finish]"

definition lc_after :: "event list \<Rightarrow> lstate" where
  "lc_after evs = (case lc_run (run_start ''8080'' False) evs of Some t \<Rightarrow> t | None \<Rightarrow> run_start ''8080'' False)"

subsection \<open>The table-driven tests\<close>

text \<open>The case tables of \<open>TestRouter_HealthCheck\<close> and \<open>TestRouter_CreateSession\<close>,
  with the struct fields of the Go tables.\<close>

record health_case =
  hc_name :: string
  hc_expectedStatusCode :: int

definition health_tests :: "health_case list" where
  "health_tests = [\<lparr>hc_name = ''Success'', hc_expectedStatusCode = StatusOK\<rparr>]"

record session_case =
  sc_name :: string
  sc_expectedStatusCode :: int
  sc_reqInput :: string
  sc_errReturnedByDriver :: "goerr option"
  sc_apiKey :: string
  sc_setMock :: bool

definition create_session_tests :: "session_case list" where
  "create_session_tests =
     [\<lparr>sc_name = ''Success'', sc_expectedStatusCode = StatusOK, sc_reqInput = countToSend,
       sc_errReturnedByDriver = None, sc_apiKey = [], sc_setMock = True\<rparr>,
      \<lparr>sc_name = ''Wrong input'', sc_expectedStatusCode = StatusBadRequest, sc_reqInput = ''wrong'',
       sc_errReturnedByDriver = None, sc_apiKey = [], sc_setMock = False\<rparr>,
      \<lparr>sc_name = ''Failure on driver'', sc_expectedStatusCode = StatusInternalServerError,
       sc_reqInput = countToSend, sc_errReturnedByDriver = Some ''dummy'', sc_apiKey = [],
       sc_setMock = True\<rparr>,
      \<lparr>sc_name = ''Not authorized'', sc_expectedStatusCode = StatusUnauthorized, sc_reqInput = [],
       sc_errReturnedByDriver = None, sc_apiKey = ''wrong'', sc_setMock = False\<rparr>]"

text \<open>The generated \<open>MockDriver\<close> as the tests use it: \<open>WriteRelayCount\<close> answers the
  expectations registered with \<open>On(...).Return(err).Once()\<close> in order, each consumed
  by one call, and records the call.  A call with no expectation left makes testify
  fail the test; \<open>mock_failed\<close> records it.  The tests never read.\<close>

record mock_state =
  mock_expected :: "goerr option list"
  mock_calls :: "relay_count list"
  mock_failed :: bool

definition mock_driver :: "mock_state driver" where
  "mock_driver =
     \<lparr>WriteRelayCount = (\<lambda>done c m.
        case mock_expected m of
          [] \<Rightarrow> (None, m\<lparr>mock_calls := mock_calls m @ [c], mock_failed := True\<rparr>)
        | e # es \<Rightarrow> (e, m\<lparr>mock_expected := es, mock_calls := mock_calls m @ [c]\<rparr>)),
      ReadRelayCounts = (\<lambda>done from to m. (Inr [], m\<lparr>mock_failed := True\<rparr>))\<rparr>"

definition empty_mock :: mock_state where
  "empty_mock = \<lparr>mock_expected = [], mock_calls = [], mock_failed = False\<rparr>"

text \<open>The router of the tests: \<open>NewRouter(driverMock, map[string]bool{"": true},
  "8080", logrus.New())\<close>, decoding with Go's decoder.\<close>

definition mock_router :: "mock_state Router" where
  "mock_router = fst (NewRouter Decode mock_driver test_keys ''8080'')"

text \<open>The loops of the two tests: each case builds its request, registers the mock's
  expectation when \<open>setMock\<close> is set, serves the request with \<open>ServeHTTP\<close> into a
  recorder, and checks \<open>c.Equal(tt.expectedStatusCode, rr.Code)\<close>; a handler that
  panics fails the test as well.  The mock is shared by the cases, as in the test.\<close>

definition run_health_tests :: "'s Router \<Rightarrow> 's \<Rightarrow> health_case list \<Rightarrow> bool list" where
  "run_health_tests rt s tests =
     map (\<lambda>tt. let res = serve rt None s health_req
               in fst res = Returned \<and> hc_expectedStatusCode tt = resp_status (hs_w (snd res))) tests"

fun run_create_session :: "mock_state Router \<Rightarrow> mock_state \<Rightarrow> session_case list \<Rightarrow> mock_state \<times> bool list" where
  "run_create_session rt m [] = (m, [])"
| "run_create_session rt m (tt # tts) =
     (let m1 = (if sc_setMock tt then m\<lparr>mock_expected := mock_expected m @ [sc_errReturnedByDriver tt]\<rparr> else m);
          res = serve rt None m1 (count_req (sc_apiKey tt) (sc_reqInput tt));
          rest = run_create_session rt (hs_store (snd res)) tts
      in (fst rest, (fst res = Returned \<and> sc_expectedStatusCode tt = resp_status (hs_w (snd res))) # snd rest))"

text \<open>The status the specification gives an ingestion request of a case: 401 for a
  credential other than the test key, 400 for a body Go's decoder rejects, 200 or 500
  by the store's answer.  A case is consistent when it registers a mock expectation
  exactly when its request reaches the store; \<open>session_calls\<close> are the records the
  store receives from a table.\<close>

definition session_status :: "session_case \<Rightarrow> int" where
  "session_status tt =
     (if sc_apiKey tt \<noteq> [] then StatusUnauthorized
      else case Decode (sc_reqInput tt) of
        Inl _ \<Rightarrow> StatusBadRequest
      | Inr _ \<Rightarrow> if sc_errReturnedByDriver tt = None then StatusOK else StatusInternalServerError)"

definition session_consistent :: "session_case \<Rightarrow> bool" where
  "session_consistent tt \<longleftrightarrow>
     sc_setMock tt = (sc_apiKey tt = [] \<and> (case Decode (sc_reqInput tt) of Inr _ \<Rightarrow> True | Inl _ \<Rightarrow> False))"

definition session_calls :: "session_case list \<Rightarrow> relay_count list" where
  "session_calls tts =
     concat (map (\<lambda>tt. if sc_setMock tt then (case Decode (sc_reqInput tt) of Inr c \<Rightarrow> [c] | Inl _ \<Rightarrow> []) else []) tts)"

lemmas fixture_defs = test_keys_def rawCountToSend_def test_decode_def health_req_def
  count_req_def store_driver_def test_router_def

lemma count_req_simps [simp]:
  "req_method (count_req k b) = MethodPost" "req_path (count_req k b) = ''/v0/count''"
  "req_body (count_req k b) = b" "req_ctx_done (count_req k b) = False"
  by (simp_all add: count_req_def)

lemma health_req_simps [simp]:
  "req_method health_req = MethodGet" "req_path health_req = ''/''"
  by (simp_all add: health_req_def)

lemma countToSend_text:
  "countToSend = CHR ''{'' # json_quote ''appPublicKey'' @ '':'' @ json_quote ''21'' @ '',''
     @ json_quote ''day'' @ '':'' @ json_quote ''2023-01-01T00:00:00Z'' @ '',''
     @ json_quote ''success'' @ '':21,'' @ json_quote ''error'' @ '':7}''"
proof -
  have "format_int 21 = ''21''" "format_int 7 = ''7''" by code_simp+
  then show ?thesis
    by (simp add: countToSend_def Marshal_RelayCount_def rawCountToSend_def json_quote_plain plain_text_def
        html_safe_def)
qed

lemma countToSend_ne_wrong: "''wrong'' \<noteq> countToSend"
  by (simp add: countToSend_text)

text \<open>Go's decoder on the two bodies the tests send.\<close>

lemma Decode_test_bodies:
  "Decode countToSend = Inr rawCountToSend"
  "Decode ''wrong'' = Inl (syntax_msg (CHR ''w'') ''looking for beginning of value'')"
  by (simp_all add: Decode_def scan_defs unmarshal_defs time_defs countToSend_text json_quote_def
      rawCountToSend_def html_safe_def)

lemma authorized_count_req:
  "authorized test_keys (count_req k b) \<longleftrightarrow> k = []"
  by (simp add: authorized_def count_req_def test_keys_def header_get_def)

text \<open>One request of \<open>TestRouter_CreateSession\<close> against the mock, per outcome.\<close>

lemma mock_write:
  "mock_expected m = e # es \<Longrightarrow>
   WriteRelayCount mock_driver d c m = (e, m\<lparr>mock_expected := es, mock_calls := mock_calls m @ [c]\<rparr>)"
  by (simp add: mock_driver_def)

lemmas mock_serve_simps = mock_router_def serve_count_route auth_pass auth_reject authorized_count_req
  RespondWithJSON_healthy reject_response respondWithResultOK_def RespondWithError_def fresh_writer_def

lemma serve_mock_ok:
  assumes "Decode b = Inr c" and "mock_expected m = e # es"
  defines "res \<equiv> serve mock_router None m (count_req [] b)"
  shows "fst res = Returned \<and>
    resp_status (hs_w (snd res)) = (if e = None then StatusOK else StatusInternalServerError) \<and>
    hs_store (snd res) = m\<lparr>mock_expected := es, mock_calls := mock_calls m @ [c]\<rparr>"
  using assms mock_write [OF assms(2)]
  by (cases e) (simp_all add: mock_serve_simps CreateCount_ok CreateCount_write_error)

lemma serve_mock_bad_body:
  fixes m :: mock_state
  assumes "Decode b = Inl err"
  defines "res \<equiv> serve mock_router None m (count_req [] b)"
  shows "fst res = Returned \<and> resp_status (hs_w (snd res)) = StatusBadRequest \<and> hs_store (snd res) = m"
  using assms by (simp add: mock_serve_simps CreateCount_decode_error)

lemma serve_mock_unauthorized:
  fixes m :: mock_state and b :: string
  assumes "k \<noteq> []"
  defines "res \<equiv> serve mock_router None m (count_req k b)"
  shows "fst res = Returned \<and> resp_status (hs_w (snd res)) = StatusUnauthorized \<and> hs_store (snd res) = m"
  using assms by (simp add: mock_serve_simps hs_write_header_frame)

text \<open>One case of the loop of \<open>TestRouter_CreateSession\<close> on a mock with no expectation
  left: the request returns with the status of the specification's rule, and the mock
  ends with no expectation left, having recorded the case's record if it reached the
  store.\<close>

lemma serve_mock_case:
  assumes "session_consistent tt" and "mock_expected m = []"
  defines "m1 \<equiv> (if sc_setMock tt then m\<lparr>mock_expected := mock_expected m @ [sc_errReturnedByDriver tt]\<rparr> else m)"
  defines "res \<equiv> serve mock_router None m1 (count_req (sc_apiKey tt) (sc_reqInput tt))"
  shows "fst res = Returned \<and> resp_status (hs_w (snd res)) = session_status tt \<and>
    hs_store (snd res) = m\<lparr>mock_calls := mock_calls m @ session_calls [tt]\<rparr>"
proof (cases "sc_apiKey tt = []")
  case False
  then show ?thesis using assms serve_mock_unauthorized [OF False, of m "sc_reqInput tt"]
    by (simp add: session_consistent_def session_status_def session_calls_def)
next
  case key: True
  show ?thesis
  proof (cases "Decode (sc_reqInput tt)")
    case (Inl err)
    then show ?thesis using assms key serve_mock_bad_body [OF Inl, of m]
      by (simp add: session_consistent_def session_status_def session_calls_def)
  next
    case (Inr c)
    have "mock_expected m1 = sc_errReturnedByDriver tt # []"
      using assms(1,2) key Inr by (simp add: m1_def session_consistent_def)
    from serve_mock_ok [OF Inr this] show ?thesis using assms key Inr
      by (simp add: session_consistent_def session_status_def session_calls_def)
  qed
qed

lemma lc_after_reachable: "reachable (lc_after evs)"
proof (cases "lc_run (run_start ''8080'' False) evs")
  case None
  then show ?thesis by (simp add: lc_after_def reachable.start)
next
  case (Some t)
  then show ?thesis by (simp add: lc_after_def lc_run_reachable reachable.start)
qed

lemma lc_after_append:
  "lc_run (run_start ''8080'' False) xs = Some s \<Longrightarrow> lc_run s ys = Some t \<Longrightarrow> lc_after (xs @ ys) = t"
  by (simp add: lc_after_def lc_run_append)

lemmas lc_eval = lc_after_def run_start_def serve_return_def gctx_done_def ErrServerClosed_def

section \<open>Witnesses of the lifecycle properties\<close>

theorem returns_only_when_drained_witness:
  "returned (lc_after ctx_finished_run) \<and> active (lc_after ctx_finished_run) = 0"
proof -
  have ret: "returned (lc_after ctx_finished_run)" by (simp add: lc_eval ctx_finished_run_def)
  show ?thesis using returns_only_when_drained [OF lc_after_reachable ret] ret by simp
qed

theorem exit_reason_is_serve_error_witness:
  "returned (lc_after ctx_finished_run) \<and> group_err (lc_after ctx_finished_run) = Some ErrServerClosed"
proof -
  have ret: "returned (lc_after ctx_finished_run)" by (simp add: lc_eval ctx_finished_run_def)
  show ?thesis using exit_reason_is_serve_error [OF lc_after_reachable ret] ret
    by (simp add: lc_eval ctx_finished_run_def)
qed

theorem shutdown_run_bounded_witness:
  "in_shutdown (lc_after [Bind, Accept, Cancel, Wake]) \<and>
   length [Finish, ServerClosed, Drained None, WaitReturns] \<le> lc_measure (lc_after [Bind, Accept, Cancel, Wake])"
proof -
  have run: "lc_run (lc_after [Bind, Accept, Cancel, Wake]) [Finish, ServerClosed, Drained None, WaitReturns]
      = Some (lc_after [Bind, Accept, Cancel, Wake, Finish, ServerClosed, Drained None, WaitReturns])"
    by (simp add: lc_eval)
  have sd: "in_shutdown (lc_after [Bind, Accept, Cancel, Wake])" by (simp add: lc_eval)
  show ?thesis using shutdown_run_bounded [OF run sd] sd by simp
qed

theorem cancel_leads_to_return_witness:
  "gctx_done (lc_after [Bind, Accept, Cancel]) \<and>
   (\<exists>evs t. lc_run (lc_after [Bind, Accept, Cancel]) evs = Some t \<and> returned t)"
proof -
  have g: "gctx_done (lc_after [Bind, Accept, Cancel])" by (simp add: lc_eval)
  show ?thesis using cancel_leads_to_return [OF lc_after_reachable g] g by simp
qed

theorem hung_request_blocks_return_witness:
  "0 < active (lc_after [Bind, Accept, Cancel, Wake]) \<and>
   \<not> returned (lc_after [Bind, Accept, Cancel, Wake, ServerClosed])"
proof -
  have a: "0 < active (lc_after [Bind, Accept, Cancel, Wake])" by (simp add: lc_eval)
  have run: "lc_run (lc_after [Bind, Accept, Cancel, Wake]) [ServerClosed]
      = Some (lc_after [Bind, Accept, Cancel, Wake, ServerClosed])"
    by (simp add: lc_eval)
  have nf: "Finish \<notin> set [ServerClosed]" by simp
  show ?thesis using hung_request_blocks_return [OF lc_after_reachable a nf run] a by simp
qed

theorem idle_until_cancelled_witness:
  "\<not> gctx_done (lc_after ctx_not_finished_run) \<and> watcher_st (lc_after ctx_not_finished_run) = Waiting"
proof -
  have g: "\<not> gctx_done (lc_after ctx_not_finished_run)" by (simp add: lc_eval ctx_not_finished_run_def)
  show ?thesis using idle_until_cancelled [OF lc_after_reachable g] g by simp
qed

end
