(* ===== verification/Bodies.thy ===== *)
theory Bodies
  imports Router JsonRead
begin

text \<open>
  What a client receives in the body of a response of the router: every body is valid
  UTF-8 (the texts of \<open>http.Error\<close>, the rejection and the health check are ASCII, and a
  JSON envelope is ASCII around strings encoded by \<open>json_str\<close>), and the message of an
  error envelope \<open>{"error":"..."}\<close> reads back, with Go's string reader of the
  JsonRead theory, as the error the handler received.  The lemmas are stated for the
  body as it grows: each handler appends valid text to what the writer already holds.
\<close>

definition body_valid :: "'s hstate \<Rightarrow> bool" where
  "body_valid st \<longleftrightarrow> utf8_valid (w_body (hs_w st))"

text \<open>Whether the status the client receives is other than 301.\<close>

definition not_redirect :: "'s hstate \<Rightarrow> bool" where
  "not_redirect st \<longleftrightarrow> resp_status (hs_w st) \<noteq> StatusMovedPermanently"

text \<open>The prefix of an error envelope, up to the opening quote of the message.\<close>

definition error_prefix :: string where
  "error_prefix = CHR ''{'' # json_quote ''error'' @ '':'' @ [dquote]"

subsection \<open>JSON envelopes are valid UTF-8\<close>

text \<open>The rules that build a validity proof piece by piece; \<open>utf8_valid\<close> itself is
  kept folded in these proofs.\<close>

lemmas utf8_valid_build = utf8_valid.simps(1) utf8_valid_ascii_Cons utf8_valid_append
  ascii_valid ascii_str_def

lemma utf8_valid_quote: "utf8_valid (json_quote s)"
  by (simp del: utf8_valid.simps add: json_quote_def utf8_valid_build json_str_valid)

lemma utf8_valid_members: "utf8_valid (json_members kvs)"
proof (induction kvs rule: json_members.induct)
  case (2 kv)
  then show ?case by (simp del: utf8_valid.simps add: json_member_def utf8_valid_quote
      utf8_valid_build)
next
  case (3 kv v kvs)
  then show ?case by (simp del: utf8_valid.simps add: json_member_def utf8_valid_quote
      utf8_valid_build)
qed simp

lemma utf8_valid_json_map: "utf8_valid (json_map kvs)"
  by (simp del: utf8_valid.simps add: json_map_def utf8_valid_members utf8_valid_build)

subsection \<open>Each handler appends valid text\<close>

lemma body_valid_write:
  "body_valid st \<Longrightarrow> utf8_valid bs \<Longrightarrow> body_valid (snd (hs_write bs st))"
  by (cases "w_fail (hs_w st)")
     (simp_all add: body_valid_def hs_write_ok hs_write_fail utf8_valid_append)

lemma body_valid_frames [simp]:
  "body_valid (hs_write_header c st) = body_valid st"
  "body_valid (hs_header_set k v st) = body_valid st"
  "body_valid (logError m st) = body_valid st"
  "body_valid (st\<lparr>hs_store := s'\<rparr>) = body_valid st"
  "body_valid (start_state conn s)"
  "body_valid (snd (redirect loc st)) = body_valid st"
  "w_body w = w_body (hs_w st) \<Longrightarrow> body_valid (st\<lparr>hs_w := w\<rparr>) = body_valid st"
  by (simp_all add: body_valid_def hs_write_header_def hs_header_set_def header_set_def redirect_frame)

lemma body_valid_write_or_panic:
  "body_valid st \<Longrightarrow> utf8_valid bs \<Longrightarrow> body_valid (snd (write_or_panic bs st))"
  by (auto simp: write_or_panic_def body_valid_write dest: body_valid_write [of st bs]
      split: prod.split option.split)

lemma body_valid_RespondWithJSON:
  "body_valid st \<Longrightarrow> body_valid (snd (RespondWithJSON code kvs st))"
  by (simp add: RespondWithJSON_def body_valid_write_or_panic utf8_valid_json_map)

lemma body_valid_handlers:
  assumes "body_valid st"
  shows "body_valid (snd (HealthCheck r st))"
    and "body_valid (snd (NotFound r st))"
    and "body_valid (snd (methodNotAllowed r st))"
    and "body_valid (snd (CreateCount decode drv r st))"
  using assms
  by (simp_all del: utf8_valid.simps add: HealthCheck_def NotFound_def http_Error_def
      methodNotAllowed_def Let_def CreateCount_def RespondWithError_def respondWithResultOK_def
      body_valid_RespondWithJSON body_valid_write_or_panic body_valid_write utf8_valid_build
      split: sum.split prod.split option.split)

lemma body_valid_auth:
  "body_valid st \<Longrightarrow> (\<And>st. body_valid st \<Longrightarrow> body_valid (snd (h r st))) \<Longrightarrow>
   body_valid (snd (AuthorizationHandler keys h r st))"
  by (simp del: utf8_valid.simps add: AuthorizationHandler_def body_valid_write_or_panic
      utf8_valid_build)

subsection \<open>The message of an error envelope reads back\<close>

lemma error_envelope_read:
  "take (length error_prefix) (json_map [(''error'', m)]) = error_prefix \<and>
   read_str (drop (length error_prefix) (json_map [(''error'', m)])) = Inr (utf8_sanitize m, ''}'')"
proof -
  have "json_map [(''error'', m)] = error_prefix @ json_str m @ dquote # ''}''"
    by (simp add: json_map_single error_prefix_def json_quote_def)
  then show ?thesis by (simp add: read_json_str)
qed

text \<open>Both failure branches of the ingestion handler send the error envelope of the
  error they met, on a healthy connection.\<close>

lemma CreateCount_error_body:
  assumes "decode (req_body r) = Inl err \<or>
    (decode (req_body r) = Inr c \<and> fst (WriteRelayCount drv (req_ctx_done r) c s) = Some err)"
  shows "w_body (hs_w (snd (CreateCount decode drv r (start_state None s)))) = json_map [(''error'', err)]"
  using assms
  by (auto simp: CreateCount_def RespondWithError_def RespondWithJSON_healthy split: prod.split)

text \<open>On a healthy connection every answer of the ingestion handler is one JSON
  envelope: the error envelope or \<open>{"result":"ok"}\<close>.\<close>

lemma CreateCount_json_body:
  "\<exists>kvs. w_body (hs_w (snd (CreateCount decode drv r (start_state None s)))) = json_map kvs"
proof (cases "decode (req_body r)")
  case (Inl err)
  then have "w_body (hs_w (snd (CreateCount decode drv r (start_state None s)))) = json_map [(''error'', err)]"
    by (intro CreateCount_error_body) simp
  then show ?thesis by blast
next
  case (Inr c)
  show ?thesis
  proof (cases "fst (WriteRelayCount drv (req_ctx_done r) c s)")
    case (Some err)
    then have "w_body (hs_w (snd (CreateCount decode drv r (start_state None s)))) = json_map [(''error'', err)]"
      using Inr by (intro CreateCount_error_body) simp
    then show ?thesis by blast
  next
    case None
    then show ?thesis using Inr
      by (auto simp: CreateCount_def respondWithResultOK_def RespondWithJSON_healthy split: prod.split)
  qed
qed

text \<open>A body the decoder rejects with \<open>err\<close>, on the ingestion route, is answered with
  the error envelope of \<open>err\<close>.\<close>

lemma serve_decode_error_body:
  "ingests keys r \<Longrightarrow> decode (req_body r) = Inl err \<Longrightarrow>
   w_body (hs_w (snd (serve (fst (NewRouter decode drv keys port)) None s r))) = json_map [(''error'', err)]"
  using CreateCount_error_body [of decode r err undefined drv s]
  by (simp add: ingests_def serve_count_route auth_pass)

subsection \<open>No handler answers 301\<close>

text \<open>The statuses the handlers write are 200, 400, 401, 404, 405 and 500; a state
  whose status is not 301 keeps that through every step of a handler.\<close>

lemma not_redirect_frames [simp]:
  "c \<noteq> StatusMovedPermanently \<Longrightarrow> not_redirect (hs_write_header c st) = not_redirect st"
  "not_redirect (hs_header_set k v st) = not_redirect st"
  "not_redirect (logError m st) = not_redirect st"
  "not_redirect (st\<lparr>hs_store := s'\<rparr>) = not_redirect st"
  "not_redirect (start_state conn s)"
  "w_status w = w_status (hs_w st) \<Longrightarrow> not_redirect (st\<lparr>hs_w := w\<rparr>) = not_redirect st"
  by (simp_all add: not_redirect_def resp_status_def hs_write_header_def WriteHeader_def
      hs_header_set_def header_set_def split: option.split)

lemma not_redirect_write: "not_redirect (snd (hs_write bs st)) = not_redirect st"
  by (simp add: hs_write_def Write_def Let_def not_redirect_def resp_status_def WriteHeader_def
      split: option.split)

lemma not_redirect_write_or_panic: "not_redirect (snd (write_or_panic bs st)) = not_redirect st"
proof (cases "hs_write bs st")
  case (Pair e st')
  then show ?thesis using not_redirect_write [of bs st] by (cases e) (simp_all add: write_or_panic_def)
qed

lemma not_redirect_RespondWithJSON:
  "c \<noteq> StatusMovedPermanently \<Longrightarrow> not_redirect (snd (RespondWithJSON c kvs st)) = not_redirect st"
  by (simp add: RespondWithJSON_def not_redirect_write_or_panic)

lemma not_redirect_handlers:
  assumes "not_redirect st"
  shows "not_redirect (snd (HealthCheck r st))"
    and "not_redirect (snd (NotFound r st))"
    and "not_redirect (snd (methodNotAllowed r st))"
    and "not_redirect (snd (CreateCount decode drv r st))"
  using assms
  by (simp_all add: HealthCheck_def NotFound_def http_Error_def methodNotAllowed_def Let_def
      CreateCount_def RespondWithError_def respondWithResultOK_def not_redirect_RespondWithJSON
      not_redirect_write_or_panic not_redirect_write header_set_def header_del_def
      split: sum.split prod.split option.split)

lemma not_redirect_auth:
  "not_redirect st \<Longrightarrow> (\<And>st. not_redirect st \<Longrightarrow> not_redirect (snd (h r st))) \<Longrightarrow>
   not_redirect (snd (AuthorizationHandler keys h r st))"
  by (simp add: AuthorizationHandler_def not_redirect_write_or_panic)


end
