(* ===== verification/Spec2Isabelle.thy ===== *)
theory Spec2Isabelle
  imports Scenarios Bodies JsonAccept JsonRoundtrip
begin

text \<open>
  Verification development of pokt-foundation/relay-counter, package router
  (src/router/router.go, tested by src/router/router_test.go).

  \<^bold>\<open>The program.\<close> An HTTP ingestion endpoint.  A request passes the gorilla mux
  router built by \<open>NewRouter\<close>, the authorization middleware
  \<open>AuthorizationHandler\<close>, then one of two handlers: \<open>HealthCheck\<close> (GET /) or
  \<open>CreateCount\<close> (POST /v0/count), which decodes a relay count from the body and
  hands it to the store behind the \<open>Driver\<close> interface.  \<open>RunServer\<close> runs the
  HTTP server and a shutdown watcher in an errgroup.

  \<^bold>\<open>Theories.\<close>
  \<^item> \<open>Prelude\<close>: Go errors as their message, Go's zero-value map index
    \<open>go_index\<close>, header maps, the rule collections.
  \<^item> \<open>Http\<close>: net/http as the router uses it: \<open>request\<close>, the response
    \<open>writer\<close> with \<open>WriteHeader\<close>/\<open>Write\<close> semantics and a connection that may
    fail writes, the handler state \<open>hstate\<close> (writer, store state, log),
    \<open>write_or_panic\<close> (the write-then-panic idiom of router.go), \<open>http_Error\<close>
    and \<open>NotFound\<close>.
  \<^item> \<open>Json\<close>: Go's JSON string encoder \<open>json_str\<close> (HTML escaping, UTF-8
    validation by \<open>utf8_seq\<close>, U+2028/9) and \<open>json_map\<close> for map payloads.
  \<^item> \<open>Store\<close>: \<open>relay_count\<close> (types.RelayCount), \<open>driver\<close> (the Driver
    interface as a record of functions over an opaque store state), the decoder
    type, and \<open>mem_driver\<close>, an in-memory store meeting the interface contract.
  \<^item> \<open>Auth\<close>: \<open>authorized\<close> and \<open>AuthorizationHandler\<close> (router.go 88-109).
  \<^item> \<open>Handlers\<close>: \<open>logError\<close>, \<open>RespondWithJSON\<close>, \<open>RespondWithError\<close>,
    \<open>respondWithResultOK\<close>, \<open>HealthCheck\<close>, \<open>CreateCount\<close> (router.go 31-41,
    111-141), with one lemma per branch of \<open>CreateCount\<close>.
  \<^item> \<open>UrlPath\<close>: gorilla's \<open>cleanPath\<close> over Go's \<open>path.Clean\<close>, modelled as
    the byte loop of path/path.go (\<open>clean_loop\<close>, the output buffer reversed) and
    proved equal to the documented element rules (\<open>clean_ref\<close>,
    \<open>clean_loop_elems\<close>) and idempotent (\<open>cleanPath_idem\<close>); the \<open>Location\<close>
    text of the redirect (\<open>url_String\<close>: \<open>shouldEscape\<close> in \<open>encodePath\<close>
    mode, uppercase \<open>%XX\<close>, the query) and how net/url reads it back
    (\<open>unescape_path\<close>, \<open>parse_target\<close>), with the round trip
    \<open>parse_url_String\<close>.
  \<^item> \<open>Mux\<close>: gorilla mux's routes, \<open>HandleFunc\<close>, \<open>Use\<close>, \<open>match_routes\<close> and
    \<open>ServeHTTP\<close>: a path \<open>cleanPath\<close> changes is answered by \<open>redirect\<close> (301 and
    \<open>Location\<close>) before any matching; middlewares wrap matched routes only; 405
    and 404 otherwise.
  \<^item> \<open>Router\<close>: the \<open>Router\<close> record, \<open>NewRouter\<close> (router.go 43-60) and
    \<open>serve\<close>, one request through the built mux; dispatch lemmas per route and
    \<open>serve_invariant\<close>, the induction principle over the handlers a request can
    reach.
  \<^item> \<open>Lifecycle\<close>: \<open>RunServer\<close> (router.go 62-86) as a step function \<open>lc_step\<close>
    over events of the parties that run concurrently: the parent context
    (\<open>Cancel\<close>), the serve task (\<open>Bind\<close>, \<open>BindFail\<close>, \<open>AcceptFail\<close>,
    \<open>ServerClosed\<close> for \<open>ErrServerClosed\<close>), clients (\<open>Accept\<close>, \<open>Finish\<close>),
    the watcher (\<open>Wake\<close> on \<open>gCtx\<close>, \<open>Drained\<close> when \<open>Shutdown\<close> returns)
    and \<open>g.Wait\<close> (\<open>WaitReturns\<close>).  The state \<open>lstate\<close> holds the errgroup's
    first error (set by \<open>serve_return\<close>), whether \<open>gCtx\<close> is done
    (\<open>gctx_done\<close>), the server's shutdown flag and the number of requests in
    flight.  Runs are event lists (\<open>lc_run\<close>), \<open>reachable\<close> the states of all
    runs from \<open>run_start\<close>, \<open>lc_inv\<close> the invariant proved by rule induction.
  \<^item> \<open>JsonRead\<close>: reading a JSON string literal as Go's scanner and
    \<open>unquote\<close> do (\<open>read_str\<close>: escapes, surrogate pairs, U+FFFD for invalid
    UTF-8, the \<open>SyntaxError\<close> messages built by \<open>quoteChar\<close>), \<open>utf8_valid\<close> and
    \<open>utf8_sanitize\<close>; lemmas: the reader inverts \<open>json_str\<close> up to sanitisation
    (\<open>read_json_str\<close>) and \<open>json_str\<close> emits valid UTF-8 (\<open>json_str_valid\<close>).
  \<^item> \<open>JsonScan\<close>: the first phase of \<open>json.Decoder.Decode\<close>: the scanner of
    encoding/json as the step function \<open>step\<close> over \<open>sstate\<close> and a stack of
    \<open>parse_state\<close>s (depth limit 10000), \<open>readValue\<close> (the first value of the body,
    \<open>EOF\<close> / \<open>unexpected EOF\<close>), and \<open>lex\<close>, the tokens of the scanned value.
  \<^item> \<open>JsonDecode\<close>: the second phase into \<open>types.RelayCount\<close>: keys folded as
    Go's \<open>foldName\<close> (\<open>field_of\<close>), \<open>store_string\<close>/\<open>store_literal\<close>/
    \<open>store_compound\<close> (\<open>literalStore\<close>, saved \<open>UnmarshalTypeError\<close>s, the
    \<open>int64\<close> range of \<open>strconv.ParseInt\<close>), \<open>walk\<close> (the object loop with
    \<open>d.skip\<close>), \<open>unmarshal\<close>, \<open>parseRFC3339\<close> for the day, and \<open>Decode\<close>;
    lemmas: decoded counts fit \<open>int64\<close>, bytes after the first value are never read,
    a blank body is \<open>EOF\<close>.
  \<^item> \<open>JsonAccept\<close>: encoder against scanner: \<open>scan_run\<close> runs \<open>step\<close> over a
    string as an automaton over a word, runs compose (\<open>scan_run_append\<close>) and
    \<open>readValue\<close> follows them (\<open>readValue_run\<close>); what \<open>json_str\<close> writes keeps
    the scanner inside the literal (\<open>scan_json_str\<close>), and \<open>json_map\<close> is one
    complete value for \<open>readValue\<close> (\<open>readValue_json_map\<close>).
  \<^item> \<open>JsonRoundtrip\<close>: \<open>json.Marshal\<close> of a \<open>types.RelayCount\<close>
    (\<open>Marshal_RelayCount\<close>; counts written by \<open>format_int\<close>/\<open>nat_digits\<close>, the
    base-10 \<open>strconv.AppendInt\<close>), the printer/parser round trip
    \<open>parse_format_int\<close>, the scanner, lexer and \<open>walk\<close> on a marshalled count, and
    \<open>Decode_Marshal\<close>: Go's decoder inverts the encoder up to U+FFFD for invalid
    key bytes; \<open>Decode_counts\<close>: the decoder on \<open>{"success":a,"error":b}\<close> for
    every pair of integers, with the \<open>int64\<close> range error of \<open>strconv.ParseInt\<close>
    (\<open>parse_int64_format_int\<close>).
  \<^item> \<open>Bodies\<close>: what a client receives: every body handler appends valid
    UTF-8 (\<open>body_valid\<close>), and the error envelope's message reads back with
    \<open>read_str\<close> (\<open>error_envelope_read\<close>); no handler answers 301
    (\<open>not_redirect\<close>).
  \<^item> \<open>Scenarios\<close>: the fixtures of router_test.go (key map \<open>{"": true}\<close>, the
    relay count and its JSON text \<open>countToSend\<close>, built by \<open>Marshal_RelayCount\<close>
    as router_test.go builds it with \<open>json.Marshal\<close>, the test requests, a store configured to succeed
    or fail, the RunServer schedules of the context tests), the case tables of
    the two table-driven tests with their loops (\<open>health_tests\<close>,
    \<open>create_session_tests\<close>, \<open>run_health_tests\<close>, \<open>run_create_session\<close>),
    the specification's status rule for a case (\<open>session_status\<close>, with
    \<open>session_consistent\<close> and \<open>session_calls\<close>) and one loop iteration against
    it (\<open>serve_mock_case\<close>),
    the testify \<open>MockDriver\<close> as the tests use it (\<open>mock_driver\<close>: a queue of
    \<open>On(...).Return(err).Once()\<close> expectations), and the witnesses of the
    lifecycle properties.
  \<^item> this theory: the end-to-end properties of the testable-properties section of
    the specification, stated over every driver and every decoder, and their
    witnesses on the test fixtures.

  \<^bold>\<open>What the lemmas show.\<close> Health requests answer 200 (C1); unauthorized
  ingestion requests answer 401 without touching the store (C2); undecodable bodies
  answer 400 (C3); a decodable body causes exactly one store write with the decoded
  record (C4), answered 200 with \<open>{"result":"ok"}\<close> (C5) or 500 with the encoded
  error (C6).  "Never invoked" is stated as: the response is the same for every
  driver and decoder, and the store state is unchanged.  Canonical paths other than
  the two routes get 404 and wrong methods 405, in both cases without the gate (C7,
  C8); write failures panic rather than being swallowed (C9); a missing
  Authorization header is the empty credential (C10, in Auth).  For RunServer (in
  Lifecycle): it returns only after both tasks returned and no request is in flight
  (C11); the exit reason is always the serve task's error (C12); after shutdown
  began every schedule is finite, bounded by \<open>lc_measure\<close> (C13); once \<open>gCtx\<close> is
  done, by cancellation or by a serve failure such as a failed bind, a schedule to
  the return exists (C14); a request that never finishes blocks the return forever
  (C15); without cancellation or failure nothing shuts down (C16).  Across requests:
  served one after another against \<open>mem_driver\<close>, a sequence of requests extends
  the store by exactly the accepted records, in order (C17).  Responses: the error
  message of a 400 or 500 answer reads back from the body with Go's JSON reader
  (C18, a round trip through \<open>json_str\<close> and \<open>read_str\<close>); every body is valid
  UTF-8 (C19).  Decoding with the modelled Go decoder: a count literal outside
  \<open>int64\<close> is answered 400 with the type error naming it, never wrapped or stored
  (C20); bytes after the first JSON value change nothing (C21); a blank body
  answers 400 with \<open>EOF\<close> (C22); any \<open>int64\<close> counts, negative ones included, are
  stored as sent (C23), and the bodies \<open>{}\<close> and \<open>null\<close> store the zero record
  (C24), against the specification's record; the scanner's nesting limit is exact:
  10000 nested arrays pass it, 10001 do not (C25).  Non-canonical paths: gorilla
  answers them 301 before the gate runs, so an unauthorized POST to \<open>/v0//count\<close>
  gets 301 rather than 401 (C26); the \<open>Location\<close> reads back as the cleaned path
  and the request's query (C27); a cleaned path is never redirected again (C28).
  The tests: for every case table, the two table-driven tests of router_test.go
  decide each case by the specification's status rule and call the shared mock
  exactly once per registered expectation, with the decoded record (C29; the
  repository's own table is its witness).  Encoder and decoder together: every
  body the ingestion route sends is exactly one JSON value for Go's \<open>readValue\<close>
  (C30); a count marshalled by \<open>json.Marshal\<close> and posted with an accepted key
  reaches the store as that count, its key's invalid UTF-8 replaced by U+FFFD
  (C31).

  \<^bold>\<open>Bounds.\<close> No fuel is used: every recursion is structural or has a measure
  (\<open>json_str\<close>, \<open>read_str\<close>, \<open>utf8_sanitize\<close>, \<open>utf8_valid\<close>, \<open>fold_name\<close> on
  the length of the string, \<open>lex\<close> on twice the length plus one inside a literal;
  the scanner and \<open>walk\<close> consume one byte or token per call; \<open>clean_loop\<close> and
  \<open>path_elems\<close> on the length of the input left); termination of the lifecycle after
  shutdown is the measure \<open>lc_measure\<close>, which counts the moves left to the
  context, the two tasks, the in-flight requests and \<open>Wait\<close>.

  \<^bold>\<open>Plan for later sittings.\<close> Properties of the scanner (it accepts exactly
  the JSON grammar); the read side of the Driver contract against \<open>mem_driver\<close>;
  the Info and Printf lines of RunServer as logrus formats them.

  \<^bold>\<open>Not modelled.\<close> The detail Go's \<open>time.Parse\<close> appends to its error after
  the layout, and the zone of a decoded day (its instant is kept); the router's
  properties C1-C19 keep the decoder a parameter and hold for any decoder; request
  targets in absolute form (\<open>GET http://host/path\<close>), whose scheme and host
  gorilla would copy into \<open>Location\<close>, and gorilla's \<open>SkipClean\<close> and
  \<open>UseEncodedPath\<close> options, which router.go does not set; \<open>path.Clean\<close> on a
  relative path, which \<open>cleanPath\<close> never passes; logrus formatting; of the
  generated MockDriver, everything but \<open>WriteRelayCount\<close> with \<open>Once\<close>
  expectations (argument matchers, \<open>ReadRelayCounts\<close>, assertions); the
  \<open>time.Now()\<close> day of the test's record, fixed to 2023-01-01; the digits
  \<open>time.Time.MarshalJSON\<close> writes for a day, which \<open>Marshal_RelayCount\<close> takes as
  a parameter (C35 requires that they are plain text that \<open>parseRFC3339\<close> reads
  back as the count's instant); the fallback of \<open>parseStrictRFC3339\<close> to
  \<open>time.Parse(RFC3339, ...)\<close>, which also accepts a one-digit hour, a comma before
  the fraction or a zone hour of 24: \<open>parseRFC3339\<close> is Go's fast path only, and
  no property depends on the days it rejects.  Over-approximations: \<open>lc_step\<close>
  lets \<open>Shutdown\<close> return before the serve task has returned, which Go 1.20 and
  later never do; this only adds schedules, so the safety properties C11-C13, C15,
  C16 hold of Go's schedules too, while C14 shows that a schedule to the return
  exists among the model's schedules.  The
  utils-go helper \<open>RespondWithJSON\<close> is taken to panic on a failed write, as the
  handlers of router.go do; C9 relies on it.
\<close>

section \<open>End-to-end behaviour of the router\<close>

text \<open>C1: a GET request for the health path answers 200 with the fixed text, whatever
  its credentials, and leaves the store and the log as they were.\<close>

theorem health_check_ok:
  assumes "req_path r = ''/''" and "req_method r = MethodGet"
  shows "fst (serve (fst (NewRouter decode drv keys port)) None s r) = Returned \<and>
    resp_status (hs_w (snd (serve (fst (NewRouter decode drv keys port)) None s r))) = StatusOK \<and>
    w_body (hs_w (snd (serve (fst (NewRouter decode drv keys port)) None s r)))
      = ''Transaction HTTP DB is up and running!'' \<and>
    hs_store (snd (serve (fst (NewRouter decode drv keys port)) None s r)) = s"
  using assms HealthCheck_healthy [of "start_state None s" r]
  by (simp add: serve_health_route)

text \<open>C2: a POST to the ingestion path whose credential is not a key mapped to true is
  answered 401 with the body \<open>Unauthorized\<close>; the answer is the same whatever the
  driver and the decoder, so the store is never called, and the store is unchanged.\<close>

theorem unauthorized_rejected:
  assumes "req_path r = ''/v0/count''" and "req_method r = MethodPost" and "\<not> authorized keys r"
  shows "serve (fst (NewRouter decode drv keys port)) conn s r =
           serve (fst (NewRouter decode' drv' keys port')) conn s r \<and>
    fst (serve (fst (NewRouter decode drv keys port)) None s r) = Returned \<and>
    resp_status (hs_w (snd (serve (fst (NewRouter decode drv keys port)) None s r))) = StatusUnauthorized \<and>
    w_body (hs_w (snd (serve (fst (NewRouter decode drv keys port)) None s r))) = ''Unauthorized'' \<and>
    hs_store (snd (serve (fst (NewRouter decode drv keys port)) None s r)) = s"
  using assms reject_response [of "start_state None s"]
  by (simp add: serve_count_route auth_reject)

text \<open>C3: an authorized POST whose body does not decode is answered 400 with the
  decoder's error in the JSON envelope \<open>{"error": ...}\<close>, the failure is logged, and the
  store is unchanged.\<close>

theorem malformed_body_rejected:
  assumes "req_path r = ''/v0/count''" and "req_method r = MethodPost" and "authorized keys r"
    and "decode (req_body r) = Inl err"
  shows "fst (serve (fst (NewRouter decode drv keys port)) None s r) = Returned \<and>
    resp_status (hs_w (snd (serve (fst (NewRouter decode drv keys port)) None s r))) = StatusBadRequest \<and>
    w_body (hs_w (snd (serve (fst (NewRouter decode drv keys port)) None s r))) = json_map [(''error'', err)] \<and>
    hs_store (snd (serve (fst (NewRouter decode drv keys port)) None s r)) = s \<and>
    hs_log (snd (serve (fst (NewRouter decode drv keys port)) None s r)) =
      [\<lparr>log_lvl = Error, log_msg = ''WriteCount in JSON decoding failed: '' @ err,
        log_fields = [(''err'', ''WriteCount in JSON decoding failed: '' @ err)]\<rparr>]"
  using assms
    RespondWithJSON_healthy [of "logError (''WriteCount in JSON decoding failed: '' @ err) (start_state None s)"]
  by (simp add: serve_count_route auth_pass CreateCount_decode_error RespondWithError_def)

text \<open>C4: an authorized POST whose body decodes to a record leaves the store in the state
  of exactly one call of the driver's \<open>WriteRelayCount\<close> with that record and the
  request's context, on any connection.\<close>

theorem wellformed_body_written_once:
  assumes "req_path r = ''/v0/count''" and "req_method r = MethodPost" and "authorized keys r"
    and "decode (req_body r) = Inr c"
  shows "hs_store (snd (serve (fst (NewRouter decode drv keys port)) conn s r)) =
           snd (WriteRelayCount drv (req_ctx_done r) c s)"
  using assms CreateCount_store [of decode drv r "start_state conn s"]
  by (simp add: serve_count_route auth_pass)

text \<open>C5: when the store's write succeeds, the answer is 200 with the body
  \<open>{"result":"ok"}\<close>, nothing is logged, and the store is in the state the write left.\<close>

theorem store_success_ok:
  assumes "req_path r = ''/v0/count''" and "req_method r = MethodPost" and "authorized keys r"
    and "decode (req_body r) = Inr c" and "WriteRelayCount drv (req_ctx_done r) c s = (None, s')"
  shows "fst (serve (fst (NewRouter decode drv keys port)) None s r) = Returned \<and>
    resp_status (hs_w (snd (serve (fst (NewRouter decode drv keys port)) None s r))) = StatusOK \<and>
    w_body (hs_w (snd (serve (fst (NewRouter decode drv keys port)) None s r))) =
      [CHR ''{'', dquote] @ ''result'' @ [dquote, CHR '':'', dquote] @ ''ok'' @ [dquote, CHR ''}''] \<and>
    hs_store (snd (serve (fst (NewRouter decode drv keys port)) None s r)) = s' \<and>
    hs_log (snd (serve (fst (NewRouter decode drv keys port)) None s r)) = []"
  using assms RespondWithJSON_healthy [of "(start_state None s)\<lparr>hs_store := s'\<rparr>"]
  by (simp add: serve_count_route auth_pass CreateCount_ok respondWithResultOK_def result_ok_body)

text \<open>C6: when the store's write fails with error \<open>e\<close>, the answer is 500 with the
  envelope \<open>{"error": e}\<close>: the body contains the JSON encoding of \<open>e\<close>, and \<open>e\<close>
  itself when it is plain HTML-safe ASCII; the failure is logged once.\<close>

theorem store_failure_500:
  assumes "req_path r = ''/v0/count''" and "req_method r = MethodPost" and "authorized keys r"
    and "decode (req_body r) = Inr c" and "WriteRelayCount drv (req_ctx_done r) c s = (Some e, s')"
  shows "fst (serve (fst (NewRouter decode drv keys port)) None s r) = Returned \<and>
    resp_status (hs_w (snd (serve (fst (NewRouter decode drv keys port)) None s r))) = StatusInternalServerError \<and>
    w_body (hs_w (snd (serve (fst (NewRouter decode drv keys port)) None s r))) = json_map [(''error'', e)] \<and>
    sublist (json_str e) (w_body (hs_w (snd (serve (fst (NewRouter decode drv keys port)) None s r)))) \<and>
    (plain_text e \<longrightarrow> sublist e (w_body (hs_w (snd (serve (fst (NewRouter decode drv keys port)) None s r))))) \<and>
    hs_store (snd (serve (fst (NewRouter decode drv keys port)) None s r)) = s' \<and>
    hs_log (snd (serve (fst (NewRouter decode drv keys port)) None s r)) =
      [\<lparr>log_lvl = Error, log_msg = ''WriteCount in WriteSession failed: '' @ e,
        log_fields = [(''err'', ''WriteCount in WriteSession failed: '' @ e)]\<rparr>]"
proof -
  let ?st = "logError (''WriteCount in WriteSession failed: '' @ e) ((start_state None s)\<lparr>hs_store := s'\<rparr>)"
  have eq: "serve (fst (NewRouter decode drv keys port)) None s r =
      RespondWithJSON StatusInternalServerError [(''error'', e)] ?st"
    using assms by (simp add: serve_count_route auth_pass CreateCount_write_error RespondWithError_def)
  have plain: "plain_text e \<longrightarrow> sublist e (json_map [(''error'', e)])"
    using error_body_contains [of e "''error''"] by (auto simp: json_str_plain)
  show ?thesis
    using eq plain error_body_contains [of e "''error''"] RespondWithJSON_healthy [of ?st]
    by simp
qed

text \<open>C7: a request for any canonical path (one \<open>cleanPath\<close> leaves unchanged)
  other than the two routes is answered 404 by the mux whatever its credentials: the authorization gate is a middleware of matched routes
  and does not run.\<close>

theorem unknown_path_not_found:
  assumes "cleanPath (req_path r) = req_path r" and "req_path r \<notin> {''/'', ''/v0/count''}"
  shows "fst (serve (fst (NewRouter decode drv keys port)) None s r) = Returned \<and>
    resp_status (hs_w (snd (serve (fst (NewRouter decode drv keys port)) None s r))) = StatusNotFound \<and>
    w_body (hs_w (snd (serve (fst (NewRouter decode drv keys port)) None s r))) = ''404 page not found\<newline>'' \<and>
    hs_store (snd (serve (fst (NewRouter decode drv keys port)) None s r)) = s"
  using assms NotFound_healthy [of "start_state None s" r]
  by (simp add: serve_no_route resp_status_def)

text \<open>C8: a request for one of the two paths with the other method is answered 405
  with an empty body, without the gate and without the store; in particular a
  non-GET request for the health path is not answered 200.\<close>

theorem method_mismatch_405:
  assumes "(req_path r = ''/'' \<and> req_method r \<noteq> MethodGet) \<or>
    (req_path r = ''/v0/count'' \<and> req_method r \<noteq> MethodPost)"
  shows "fst (serve (fst (NewRouter decode drv keys port)) None s r) = Returned \<and>
    resp_status (hs_w (snd (serve (fst (NewRouter decode drv keys port)) None s r))) = StatusMethodNotAllowed \<and>
    w_body (hs_w (snd (serve (fst (NewRouter decode drv keys port)) None s r))) = [] \<and>
    hs_store (snd (serve (fst (NewRouter decode drv keys port)) None s r)) = s"
proof -
  have "serve (fst (NewRouter decode drv keys port)) None s r = methodNotAllowed r (start_state None s)"
    using assms by (intro serve_method_mismatch) auto
  then show ?thesis
    by (simp add: methodNotAllowed_def hs_write_header_def resp_status_def)
qed

text \<open>C9: on a connection whose writes fail, every request routed to a handler of
  router.go ends in a panic carrying the write error: the health check, the
  rejection of the gate and every branch of the ingestion handler propagate it.\<close>

theorem write_failure_panics:
  assumes "(req_path r = ''/'' \<and> req_method r = MethodGet) \<or>
    (req_path r = ''/v0/count'' \<and> req_method r = MethodPost)"
  shows "fst (serve (fst (NewRouter decode drv keys port)) (Some e) s r) = Panicked e"
  using assms
proof
  assume "req_path r = ''/'' \<and> req_method r = MethodGet"
  then show ?thesis
    by (simp add: serve_health_route HealthCheck_broken)
next
  assume route: "req_path r = ''/v0/count'' \<and> req_method r = MethodPost"
  show ?thesis
  proof (cases "authorized keys r")
    case True
    with route show ?thesis by (simp add: serve_count_route auth_pass CreateCount_broken)
  next
    case False
    with route show ?thesis by (simp add: serve_count_route auth_reject reject_broken)
  qed
qed

text \<open>C17: served one after another against the in-memory store, a sequence of
  requests leaves the store extended by exactly the records of the authorized
  ingestion requests whose body decodes and whose context is live, in request order:
  no other request writes, and none writes twice.\<close>

theorem serve_all_mem_store:
  "fst (serve_all (fst (NewRouter decode mem_driver keys port)) s rs) = s @ accepted_records decode keys rs"
proof (induction rs arbitrary: s)
  case Nil
  then show ?case by (simp add: accepted_records_def)
next
  case (Cons r rs)
  have one: "hs_store (snd (serve (fst (NewRouter decode mem_driver keys port)) None s r)) =
      s @ accepted_records decode keys [r]"
    by (simp add: serve_store accepted_records_def mem_driver_def split: sum.split)
  show ?case
    using Cons.IH [of "s @ accepted_records decode keys [r]"]
    by (simp add: Let_def one accepted_records_def)
qed

text \<open>C18: when an authorized ingestion request fails, because its body does not
  decode or because the store's write fails, a client that reads the body of the
  answer as JSON finds the prefix \<open>{"error":"\<close> followed by a string literal that
  decodes, with Go's reader, to the error the handler met (invalid UTF-8 replaced by
  U+FFFD), and then the closing brace: the message survives the escaping.\<close>

theorem error_message_readable:
  assumes "ingests keys r"
    and "decode (req_body r) = Inl err \<or>
      (decode (req_body r) = Inr c \<and> fst (WriteRelayCount drv (req_ctx_done r) c s) = Some err)"
  shows "take (length error_prefix)
      (w_body (hs_w (snd (serve (fst (NewRouter decode drv keys port)) None s r)))) = error_prefix \<and>
    read_str (drop (length error_prefix)
      (w_body (hs_w (snd (serve (fst (NewRouter decode drv keys port)) None s r)))))
      = Inr (utf8_sanitize err, ''}'')"
  using assms CreateCount_error_body [of decode r err c drv s, OF assms(2)] error_envelope_read [of err]
  by (simp add: ingests_def serve_count_route auth_pass)

text \<open>C19: every response body the router sends, on any route, for any decoder,
  store and key map, healthy connection or not, is valid UTF-8.\<close>

theorem response_body_valid:
  "utf8_valid (w_body (hs_w (snd (serve (fst (NewRouter decode drv keys port)) conn s r))))"
proof -
  have "body_valid (snd (serve (fst (NewRouter decode drv keys port)) conn s r))"
    by (rule serve_invariant) (simp_all add: body_valid_handlers body_valid_auth)
  then show ?thesis by (simp add: body_valid_def)
qed

text \<open>C20: an authorized ingestion request with body \<open>{"success":a,"error":b}\<close> whose
  success count lies outside the range of \<open>int64\<close> is answered 400 with Go's
  \<open>UnmarshalTypeError\<close> naming the literal, and the store is not touched: the decoder
  rejects the count; it neither wraps it into range nor stores it.\<close>

theorem out_of_range_count_rejected:
  assumes "ingests keys r" and "req_body r = ''{\"success\":'' @ format_int a @ '',\"error\":'' @ format_int b @ ''}''"
    and "\<not> (- (2 ^ 63) \<le> a \<and> a < 2 ^ 63)"
  shows "resp_status (hs_w (snd (serve (fst (NewRouter Decode drv keys port)) None s r))) = StatusBadRequest \<and>
    w_body (hs_w (snd (serve (fst (NewRouter Decode drv keys port)) None s r))) =
      json_map [(''error'', type_error (''number '' @ format_int a) FSuccess)] \<and>
    hs_store (snd (serve (fst (NewRouter Decode drv keys port)) None s r)) = s"
  using assms Decode_counts [of a b]
    RespondWithJSON_healthy [of "logError (''WriteCount in JSON decoding failed: '' @
      type_error (''number '' @ format_int a) FSuccess) (start_state None s)"]
  by (simp add: ingests_def serve_count_route auth_pass CreateCount_decode_error RespondWithError_def)

text \<open>C21: the ingestion handler reads only the first JSON value of the body: once the
  scanner has found its end before the end of the body, whatever follows it changes
  nothing, so \<open>{"success":1} garbage\<close> is handled as \<open>{"success":1}\<close>.\<close>

theorem trailing_bytes_ignored:
  assumes "readValue BeginValue [] 0 False body = Inr m" and "m < length body"
  shows "CreateCount Decode drv (r\<lparr>req_body := body @ rest\<rparr>) st = CreateCount Decode drv (r\<lparr>req_body := body\<rparr>) st"
  using Decode_append_after_value [OF assms] by (simp add: CreateCount_def split: sum.split)

text \<open>C22: an authorized ingestion request whose body is empty or only white space is
  answered 400 with the error envelope carrying \<open>EOF\<close>, and the store is not touched.\<close>

theorem blank_body_eof:
  assumes "ingests keys r" and "list_all isSpace (req_body r)"
  shows "resp_status (hs_w (snd (serve (fst (NewRouter Decode drv keys port)) None s r))) = StatusBadRequest \<and>
    w_body (hs_w (snd (serve (fst (NewRouter Decode drv keys port)) None s r))) = json_map [(''error'', ''EOF'')] \<and>
    hs_store (snd (serve (fst (NewRouter Decode drv keys port)) None s r)) = s"
  using assms Decode_blank [OF assms(2)]
    RespondWithJSON_healthy [of "logError (''WriteCount in JSON decoding failed: '' @ ''EOF'') (start_state None s)"]
  by (simp add: ingests_def serve_count_route auth_pass CreateCount_decode_error RespondWithError_def)

text \<open>C23: counts are stored as sent, negative ones included: an authorized live
  request with body \<open>{"success":a,"error":b}\<close>, both counts in the range of
  \<open>int64\<close>, stores the record with exactly those counts, although the
  specification's record has non-negative \<open>successCount\<close> and \<open>errorCount\<close>.\<close>

theorem negative_counts_stored:
  assumes "ingests keys r" and "req_body r = ''{\"success\":'' @ format_int a @ '',\"error\":'' @ format_int b @ ''}''"
    and "- (2 ^ 63) \<le> a" and "a < 2 ^ 63" and "- (2 ^ 63) \<le> b" and "b < 2 ^ 63" and "\<not> req_ctx_done r"
  shows "hs_store (snd (serve (fst (NewRouter Decode mem_driver keys port)) conn s r)) =
    s @ [zero_count\<lparr>rc_Success := a, rc_Error := b\<rparr>]"
  using assms Decode_counts [of a b] by (simp add: serve_store mem_driver_def)

text \<open>C24: an authorized ingestion request whose body is \<open>{}\<close> or \<open>null\<close> is not rejected:
  the decoder returns the zero record, and the store receives a record with an empty
  application key, the zero time and zero counts, although the specification answers
  a body that is not a record with 400.\<close>

theorem empty_body_stored:
  assumes "ingests keys r" and "req_body r \<in> {''{}'', ''null''}" and "\<not> req_ctx_done r"
  shows "hs_store (snd (serve (fst (NewRouter Decode mem_driver keys port)) conn s r)) = s @ [zero_count]"
  using assms Decode_zero by (auto simp: serve_store mem_driver_def)

text \<open>C25: the nesting bound of Go's scanner as the ingestion route sees it: a body of
  \<open>n\<close> nested arrays, \<open>n\<close> up to 10000, is scanned and answered 400 with the
  unmarshal type error, while 10001 or more levels are answered 400 with the
  scanner's \<open>exceeded max depth\<close> error, whatever follows.\<close>

theorem nesting_depth_bound:
  assumes "ingests keys r"
  shows "(0 < n \<and> n \<le> 10000 \<longrightarrow>
      w_body (hs_w (snd (serve (fst (NewRouter Decode drv keys port)) None s
        (r\<lparr>req_body := replicate n (CHR ''['') @ replicate n (CHR '']'')\<rparr>))))
      = json_map [(''error'', top_type_error ''array'')]) \<and>
    (10000 \<le> n \<longrightarrow>
      w_body (hs_w (snd (serve (fst (NewRouter Decode drv keys port)) None s
        (r\<lparr>req_body := replicate (Suc n) (CHR ''['') @ rest\<rparr>))))
      = json_map [(''error'', syntax_msg (CHR ''['') ''exceeded max depth'')])"
proof (intro conjI impI)
  have k: "ingests keys (r\<lparr>req_body := b\<rparr>)" for b using assms by (simp add: ingests_def authorized_def)
  assume "0 < n \<and> n \<le> 10000"
  then show "w_body (hs_w (snd (serve (fst (NewRouter Decode drv keys port)) None s
        (r\<lparr>req_body := replicate n (CHR ''['') @ replicate n (CHR '']'')\<rparr>))))
      = json_map [(''error'', top_type_error ''array'')]"
    by (intro serve_decode_error_body k) (simp add: Decode_nested_ok)
next
  have k: "ingests keys (r\<lparr>req_body := b\<rparr>)" for b using assms by (simp add: ingests_def authorized_def)
  assume "10000 \<le> n"
  then have d: "Decode (replicate (Suc n) (CHR ''['') @ rest) = Inl (syntax_msg (CHR ''['') ''exceeded max depth'')"
    by (rule Decode_nested_deep)
  show "w_body (hs_w (snd (serve (fst (NewRouter Decode drv keys port)) None s
        (r\<lparr>req_body := replicate (Suc n) (CHR ''['') @ rest\<rparr>))))
      = json_map [(''error'', syntax_msg (CHR ''['') ''exceeded max depth'')]"
    by (intro serve_decode_error_body k) (use d in simp)
qed

section \<open>Non-canonical paths\<close>

text \<open>C26: a request whose path gorilla's \<open>cleanPath\<close> changes (\<open>/v0//count\<close>,
  \<open>/a/../v0/count\<close>, a trailing \<open>/.\<close>) is answered 301 with the cleaned path in
  \<open>Location\<close>, an empty body, and nothing else: no route, no authorization gate, no
  store access and no log entry, whatever the key map and the credentials.\<close>

theorem noncanonical_path_redirected:
  assumes "cleanPath (req_path r) \<noteq> req_path r"
  shows "fst (serve (fst (NewRouter decode drv keys port)) None s r) = Returned \<and>
    resp_status (hs_w (snd (serve (fst (NewRouter decode drv keys port)) None s r))) = StatusMovedPermanently \<and>
    w_sent_header (hs_w (snd (serve (fst (NewRouter decode drv keys port)) None s r))) ''Location'' =
      Some [url_String (cleanPath (req_path r)) (req_query r)] \<and>
    w_body (hs_w (snd (serve (fst (NewRouter decode drv keys port)) None s r))) = [] \<and>
    hs_store (snd (serve (fst (NewRouter decode drv keys port)) None s r)) = s \<and>
    hs_log (snd (serve (fst (NewRouter decode drv keys port)) None s r)) = []"
  using assms redirect_fresh [of "start_state None s"]
  by (simp add: serve_redirect redirect_frame fresh_writer_def)

text \<open>C27: the \<open>Location\<close> of that redirect, read back as a request target the way
  \<open>net/url\<close> parses one (query cut at the first \<open>?\<close>, path unescaped), is the
  cleaned path with the request's own query: the escaping of \<open>url.String\<close> loses
  nothing, also for paths holding \<open>?\<close>, \<open>%\<close> or bytes outside ASCII.\<close>

theorem redirect_location_roundtrip:
  assumes "cleanPath (req_path r) \<noteq> req_path r"
  shows "\<exists>loc. w_sent_header (hs_w (snd (serve (fst (NewRouter decode drv keys port)) conn s r))) ''Location'' =
      Some [loc] \<and> parse_target loc = Inr (cleanPath (req_path r), req_query r)"
  using assms redirect_fresh [of "start_state conn s"] cleanPath_rooted [of "req_path r"]
  by (simp add: serve_redirect fresh_writer_def parse_url_String)

text \<open>C28: a request for a path \<open>cleanPath\<close> produced is never redirected again, on
  any route, for any decoder, store, key map and connection: following the redirect
  cannot loop (\<open>cleanPath\<close> is idempotent, and no handler of the router writes 301).\<close>

theorem cleaned_path_not_redirected:
  "resp_status (hs_w (snd (serve (fst (NewRouter decode drv keys port)) conn s (r\<lparr>req_path := cleanPath p\<rparr>))))
     \<noteq> StatusMovedPermanently"
proof -
  have "not_redirect (snd (serve (fst (NewRouter decode drv keys port)) conn s (r\<lparr>req_path := cleanPath p\<rparr>)))"
    by (rule serve_invariant) (simp_all add: cleanPath_idem not_redirect_handlers not_redirect_auth)
  then show ?thesis by (simp add: not_redirect_def)
qed

text \<open>C29: the two table-driven tests of router_test.go, run on the router the tests
  build (Go's decoder, the key map \<open>{"": true}\<close>, the shared testify mock), decide
  every case by the specification's status rule, for any case table: a case of
  \<open>TestRouter_CreateSession\<close> that registers a mock expectation exactly when its
  request reaches the store returns without panicking, and passes exactly when its
  expected status is 401 for a wrong key, 400 for a body Go's decoder rejects, and
  200 or 500 by the store's answer; the mock is called once per registered
  expectation, with the decoded record, in table order, and never fails; a case of
  \<open>TestRouter_HealthCheck\<close> passes exactly when it expects 200.\<close>

theorem session_tests_follow_status_rule:
  assumes "\<forall>tt\<in>set tts. session_consistent tt" and "mock_expected m = []"
  shows "run_create_session mock_router m tts =
      (m\<lparr>mock_calls := mock_calls m @ session_calls tts\<rparr>,
       map (\<lambda>tt. sc_expectedStatusCode tt = session_status tt) tts) \<and>
    run_health_tests mock_router m hts = map (\<lambda>tt. hc_expectedStatusCode tt = StatusOK) hts"
proof
  show "run_health_tests mock_router m hts = map (\<lambda>tt. hc_expectedStatusCode tt = StatusOK) hts"
    using HealthCheck_healthy [of "start_state None m"]
    by (simp add: run_health_tests_def mock_router_def serve_health_route fresh_writer_def)
  show "run_create_session mock_router m tts =
      (m\<lparr>mock_calls := mock_calls m @ session_calls tts\<rparr>,
       map (\<lambda>tt. sc_expectedStatusCode tt = session_status tt) tts)"
    using assms
  proof (induction tts arbitrary: m)
    case Nil
    then show ?case by (simp add: session_calls_def)
  next
    case (Cons tt tts)
    let ?m1 = "if sc_setMock tt then m\<lparr>mock_expected := mock_expected m @ [sc_errReturnedByDriver tt]\<rparr> else m"
    let ?res = "serve mock_router None ?m1 (count_req (sc_apiKey tt) (sc_reqInput tt))"
    have c: "fst ?res = Returned \<and> resp_status (hs_w (snd ?res)) = session_status tt \<and>
        hs_store (snd ?res) = m\<lparr>mock_calls := mock_calls m @ session_calls [tt]\<rparr>"
      using Cons.prems by (intro serve_mock_case) simp_all
    have "run_create_session mock_router (hs_store (snd ?res)) tts =
        (m\<lparr>mock_calls := mock_calls m @ session_calls [tt] @ session_calls tts\<rparr>,
         map (\<lambda>tt. sc_expectedStatusCode tt = session_status tt) tts)"
      using c Cons.prems Cons.IH [of "m\<lparr>mock_calls := mock_calls m @ session_calls [tt]\<rparr>"] by simp
    moreover have "session_calls (tt # tts) = session_calls [tt] @ session_calls tts"
      by (simp add: session_calls_def)
    ultimately show ?case using c by (simp add: Let_def)
  qed
qed

section \<open>Encoder and decoder together\<close>

text \<open>C30: every answer an authorized client gets from the ingestion route on a
  healthy connection (the error envelope of a rejected body or a failed store write,
  or \<open>{"result":"ok"}\<close>) is exactly one JSON value for Go's own decoder:
  \<open>Decoder.readValue\<close> on the body accepts it and stops at its last byte, whatever
  error text the envelope carries.\<close>

theorem ingestion_reply_one_json_value:
  assumes "ingests keys r"
  shows "readValue BeginValue [] 0 False (w_body (hs_w (snd (serve (fst (NewRouter decode drv keys port)) None s r)))) =
    Inr (length (w_body (hs_w (snd (serve (fst (NewRouter decode drv keys port)) None s r)))))"
proof -
  obtain kvs where "w_body (hs_w (snd (CreateCount decode drv r (start_state None s)))) = json_map kvs"
    using CreateCount_json_body [of decode drv r s] by (elim exE)
  then show ?thesis
    using assms readValue_json_map [of 0 False kvs "[]"] by (simp add: ingests_def serve_count_route auth_pass)
qed

text \<open>C31: a count a client marshals with \<open>json.Marshal\<close> (as router_test.go
  builds \<open>countToSend\<close>) and posts to the ingestion route with an accepted key
  reaches the store as that count, with the application key's invalid UTF-8 bytes
  replaced by U+FFFD, when its day text is what \<open>time.Time.UnmarshalJSON\<close> reads as
  its instant and both counts fit in \<open>int64\<close>: Go's decoder inverts Go's encoder on
  the router's input, whatever the connection.\<close>

theorem marshalled_count_stored:
  assumes "ingests keys r" and "req_body r = Marshal_RelayCount d c" and "plain_text d"
    and "parseRFC3339 d = Some (rc_Day c)" and "counts_int64 c"
  shows "hs_store (snd (serve (fst (NewRouter Decode drv keys port)) conn s r)) =
     snd (WriteRelayCount drv (req_ctx_done r) (c\<lparr>rc_AppPublicKey := utf8_sanitize (rc_AppPublicKey c)\<rparr>) s)"
  using assms by (simp add: serve_store Decode_Marshal)

section \<open>Witnesses\<close>

theorem health_check_ok_witness:
  "req_path health_req = ''/'' \<and> req_method health_req = MethodGet \<and>
   resp_status (hs_w (snd (serve (test_router None) None [] health_req))) = StatusOK"
  using health_check_ok [of health_req test_decode "store_driver None" test_keys "''8080''" "[]"]
  by (simp add: test_router_def)

theorem unauthorized_rejected_witness:
  "\<not> authorized test_keys (count_req ''bogus'' countToSend) \<and>
   resp_status (hs_w (snd (serve (test_router None) None [] (count_req ''bogus'' countToSend))))
     = StatusUnauthorized"
  using unauthorized_rejected [of "count_req ''bogus'' countToSend" test_keys test_decode
      "store_driver None" "''8080''" None "[]" test_decode "store_driver None" "''8080''"]
  by (simp add: test_router_def authorized_count_req)

theorem malformed_body_rejected_witness:
  "authorized test_keys (count_req [] ''wrong'') \<and>
   resp_status (hs_w (snd (serve (test_router None) None [] (count_req [] ''wrong''))))
     = StatusBadRequest"
  using malformed_body_rejected [of "count_req [] ''wrong''" test_keys test_decode
      "syntax_msg (CHR ''w'') ''looking for beginning of value''" "store_driver None" "''8080''" "[]"]
  by (simp add: test_router_def authorized_count_req test_decode_def countToSend_ne_wrong)

theorem wellformed_body_written_once_witness:
  "authorized test_keys (count_req [] countToSend) \<and>
   hs_store (snd (serve (test_router None) None [] (count_req [] countToSend))) = [rawCountToSend]"
  using wellformed_body_written_once [of "count_req [] countToSend" test_keys test_decode
      rawCountToSend "store_driver None" "''8080''" None "[]"]
  by (simp add: test_router_def authorized_count_req test_decode_def store_driver_def)

theorem store_success_ok_witness:
  "authorized test_keys (count_req [] countToSend) \<and>
   resp_status (hs_w (snd (serve (test_router None) None [] (count_req [] countToSend)))) = StatusOK"
  using store_success_ok [of "count_req [] countToSend" test_keys test_decode rawCountToSend
      "store_driver None" "[]" "[rawCountToSend]" "''8080''"]
  by (simp add: test_router_def authorized_count_req test_decode_def store_driver_def)

theorem store_failure_500_witness:
  "authorized test_keys (count_req [] countToSend) \<and>
   resp_status (hs_w (snd (serve (test_router (Some ''dummy'')) None [] (count_req [] countToSend))))
     = StatusInternalServerError"
  using store_failure_500 [of "count_req [] countToSend" test_keys test_decode rawCountToSend
      "store_driver (Some ''dummy'')" "[]" "''dummy''" "[rawCountToSend]" "''8080''"]
  by (simp add: test_router_def authorized_count_req test_decode_def store_driver_def)

theorem unknown_path_not_found_witness:
  "cleanPath (req_path (health_req\<lparr>req_path := ''/v1/count''\<rparr>)) = req_path (health_req\<lparr>req_path := ''/v1/count''\<rparr>) \<and>
   req_path (health_req\<lparr>req_path := ''/v1/count''\<rparr>) \<notin> {''/'', ''/v0/count''} \<and>
   resp_status (hs_w (snd (serve (test_router None) None [] (health_req\<lparr>req_path := ''/v1/count''\<rparr>))))
     = StatusNotFound"
  using unknown_path_not_found [of "health_req\<lparr>req_path := ''/v1/count''\<rparr>" test_decode
      "store_driver None" test_keys "''8080''" "[]"]
  by (simp add: test_router_def cleanPath_def path_Clean_def)

theorem method_mismatch_405_witness:
  "req_path (health_req\<lparr>req_method := MethodPost\<rparr>) = ''/'' \<and>
   resp_status (hs_w (snd (serve (test_router None) None [] (health_req\<lparr>req_method := MethodPost\<rparr>))))
     = StatusMethodNotAllowed"
  using method_mismatch_405 [of "health_req\<lparr>req_method := MethodPost\<rparr>" test_decode
      "store_driver None" test_keys "''8080''" "[]"]
  by (simp add: test_router_def health_req_def)

theorem write_failure_panics_witness:
  "fst (serve (test_router None) (Some ''broken pipe'') [] (count_req [] countToSend)) = Panicked ''broken pipe''"
  using write_failure_panics [of "count_req [] countToSend" test_decode "store_driver None" test_keys
      "''8080''" "''broken pipe''" "[]"]
  by (simp add: test_router_def)

theorem error_message_readable_witness:
  "ingests test_keys (count_req [] ''wrong'') \<and>
   read_str (drop (length error_prefix)
     (w_body (hs_w (snd (serve (test_router None) None [] (count_req [] ''wrong''))))))
   = Inr (''invalid character '' @ [squote, CHR ''w'', squote] @ '' looking for beginning of value'', ''}'')"
  using error_message_readable [of test_keys "count_req [] ''wrong''" test_decode
      "syntax_msg (CHR ''w'') ''looking for beginning of value''" rawCountToSend "store_driver None" "[]"
      "''8080''"]
  by (simp add: test_router_def ingests_def authorized_count_req test_decode_def countToSend_ne_wrong
      syntax_msg_def quoteChar_def go_quote_rune_def)

theorem empty_body_stored_witness:
  "ingests test_keys (count_req [] ''{}'') \<and>
   hs_store (snd (serve (fst (NewRouter Decode mem_driver test_keys ''8080'')) None [] (count_req [] ''{}'')))
     = [zero_count]"
  using empty_body_stored [of test_keys "count_req [] ''{}''" "''8080''" None "[]"]
  by (simp add: ingests_def authorized_count_req)

theorem out_of_range_count_rejected_witness:
  "ingests test_keys (count_req [] ''{\"success\":9223372036854775808,\"error\":0}'') \<and>
   req_body (count_req [] ''{\"success\":9223372036854775808,\"error\":0}'') =
     ''{\"success\":'' @ format_int (2 ^ 63) @ '',\"error\":'' @ format_int 0 @ ''}'' \<and>
   \<not> (- (2 ^ 63) \<le> (2 ^ 63 :: int) \<and> (2 ^ 63 :: int) < 2 ^ 63) \<and>
   w_body (hs_w (snd (serve (fst (NewRouter Decode mem_driver test_keys ''8080'')) None []
     (count_req [] ''{\"success\":9223372036854775808,\"error\":0}'')))) =
     json_map [(''error'', type_error (''number 9223372036854775808'') FSuccess)]"
proof -
  have f: "format_int (2 ^ 63) = ''9223372036854775808''" "format_int 0 = ''0''"
    by (simp_all add: format_int_def nat_digits.simps char_of_def bit_0)
  have i: "ingests test_keys (count_req [] ''{\"success\":9223372036854775808,\"error\":0}'')"
    by (simp add: ingests_def authorized_count_req)
  show ?thesis
    using out_of_range_count_rejected [OF i, of "2 ^ 63" 0 mem_driver "''8080''" "[]"] i f by simp
qed

theorem trailing_bytes_ignored_witness:
  "readValue BeginValue [] 0 False ''{} '' = Inr 2 \<and>
   CreateCount Decode mem_driver ((count_req [] [])\<lparr>req_body := ''{} '' @ ''x''\<rparr>) (start_state None []) =
   CreateCount Decode mem_driver ((count_req [] [])\<lparr>req_body := ''{} ''\<rparr>) (start_state None [])"
  using trailing_bytes_ignored [of "''{} ''" 2 mem_driver "''x''" "count_req [] []" "start_state None []"]
  by (simp add: scan_defs)

theorem blank_body_eof_witness:
  "ingests test_keys (count_req [] ''  '') \<and> list_all isSpace ''  '' \<and>
   resp_status (hs_w (snd (serve (fst (NewRouter Decode mem_driver test_keys ''8080'')) None [] (count_req [] ''  ''))))
     = StatusBadRequest"
  using blank_body_eof [of test_keys "count_req [] ''  ''" mem_driver "''8080''" "[]"]
  by (simp add: ingests_def authorized_count_req isSpace_def)

theorem negative_counts_stored_witness:
  "ingests test_keys (count_req [] ''{\"success\":-1,\"error\":-2}'') \<and>
   req_body (count_req [] ''{\"success\":-1,\"error\":-2}'') =
     ''{\"success\":'' @ format_int (-1) @ '',\"error\":'' @ format_int (-2) @ ''}'' \<and>
   hs_store (snd (serve (fst (NewRouter Decode mem_driver test_keys ''8080'')) None []
     (count_req [] ''{\"success\":-1,\"error\":-2}''))) = [zero_count\<lparr>rc_Success := -1, rc_Error := -2\<rparr>]"
proof -
  have f: "format_int (-1) = ''-1''" "format_int (-2) = ''-2''" by code_simp+
  have i: "ingests test_keys (count_req [] ''{\"success\":-1,\"error\":-2}'')"
    by (simp add: ingests_def authorized_count_req)
  show ?thesis
    using negative_counts_stored [OF i, of "-1" "-2" "''8080''" None "[]"] i f by simp
qed

theorem nesting_depth_bound_witness:
  "ingests test_keys (count_req [] []) \<and>
   w_body (hs_w (snd (serve (fst (NewRouter Decode mem_driver test_keys ''8080'')) None []
     ((count_req [] [])\<lparr>req_body := replicate 10000 (CHR ''['') @ replicate 10000 (CHR '']'')\<rparr>))))
   = json_map [(''error'', top_type_error ''array'')]"
  using nesting_depth_bound [of test_keys "count_req [] []" 10000 mem_driver "''8080''" "[]" "[]"]
  by (simp add: ingests_def authorized_count_req)


theorem noncanonical_path_redirected_witness:
  "cleanPath (req_path ((count_req ''wrong'' countToSend)\<lparr>req_path := ''/v0//count''\<rparr>)) \<noteq>
     req_path ((count_req ''wrong'' countToSend)\<lparr>req_path := ''/v0//count''\<rparr>) \<and>
   \<not> authorized test_keys ((count_req ''wrong'' countToSend)\<lparr>req_path := ''/v0//count''\<rparr>) \<and>
   resp_status (hs_w (snd (serve (test_router None) None []
     ((count_req ''wrong'' countToSend)\<lparr>req_path := ''/v0//count''\<rparr>)))) = StatusMovedPermanently"
  using noncanonical_path_redirected [of "(count_req ''wrong'' countToSend)\<lparr>req_path := ''/v0//count''\<rparr>"
      test_decode "store_driver None" test_keys "''8080''" "[]"]
  by (simp add: test_router_def cleanPath_def path_Clean_def authorized_iff header_get_def test_keys_def
      count_req_def)

theorem redirect_location_roundtrip_witness:
  "cleanPath (req_path (health_req\<lparr>req_path := ''/a b/../%?'', req_query := Some ''x=1''\<rparr>)) \<noteq>
     req_path (health_req\<lparr>req_path := ''/a b/../%?'', req_query := Some ''x=1''\<rparr>) \<and>
   (\<exists>loc. w_sent_header (hs_w (snd (serve (test_router None) None []
      (health_req\<lparr>req_path := ''/a b/../%?'', req_query := Some ''x=1''\<rparr>)))) ''Location'' = Some [loc] \<and>
    parse_target loc = Inr (''/%?'', Some ''x=1''))"
  using redirect_location_roundtrip [of "health_req\<lparr>req_path := ''/a b/../%?'', req_query := Some ''x=1''\<rparr>"
      test_decode "store_driver None" test_keys "''8080''" None "[]"]
  by (simp add: test_router_def cleanPath_def path_Clean_def)


theorem ingestion_reply_one_json_value_witness:
  "ingests test_keys (count_req [] ''wrong'') \<and>
   readValue BeginValue [] 0 False (w_body (hs_w (snd (serve (test_router None) None [] (count_req [] ''wrong''))))) =
     Inr (length (w_body (hs_w (snd (serve (test_router None) None [] (count_req [] ''wrong''))))))"
  using ingestion_reply_one_json_value [of test_keys "count_req [] ''wrong''" test_decode "store_driver None"
      "''8080''" "[]"]
  by (simp add: test_router_def ingests_def authorized_count_req)

theorem marshalled_count_stored_witness:
  "ingests test_keys (count_req [] countToSend) \<and>
   req_body (count_req [] countToSend) = Marshal_RelayCount ''2023-01-01T00:00:00Z'' rawCountToSend \<and>
   plain_text ''2023-01-01T00:00:00Z'' \<and>
   parseRFC3339 ''2023-01-01T00:00:00Z'' = Some (rc_Day rawCountToSend) \<and> counts_int64 rawCountToSend \<and>
   hs_store (snd (serve (fst (NewRouter Decode (store_driver None) test_keys ''8080'')) None []
     (count_req [] countToSend))) = [rawCountToSend]"
proof -
  have p: "plain_text ''2023-01-01T00:00:00Z''" by (simp add: plain_text_def html_safe_def)
  have t: "parseRFC3339 ''2023-01-01T00:00:00Z'' = Some (rc_Day rawCountToSend)"
    by (simp add: time_defs rawCountToSend_def is_dig_def in_range_def digits_val_def)
  have c: "counts_int64 rawCountToSend" by (simp add: counts_int64_def rawCountToSend_def)
  have i: "ingests test_keys (count_req [] countToSend)" by (simp add: ingests_def authorized_count_req)
  have u: "utf8_sanitize ''21'' = ''21''" by (simp add: utf8_sanitize_valid_id ascii_valid ascii_str_def)
  show ?thesis
    using marshalled_count_stored [OF i _ p t c, of "store_driver None" "''8080''" None "[]"] p t c i u
    by (simp add: countToSend_def store_driver_def rawCountToSend_def)
qed

theorem session_tests_follow_status_rule_witness:
  "list_all session_consistent create_session_tests \<and> mock_expected empty_mock = [] \<and>
   run_create_session mock_router empty_mock create_session_tests =
     (\<lparr>mock_expected = [], mock_calls = [rawCountToSend, rawCountToSend], mock_failed = False\<rparr>,
      [True, True, True, True]) \<and>
   run_health_tests mock_router empty_mock health_tests = [True]"
proof -
  have c: "\<forall>tt\<in>set create_session_tests. session_consistent tt"
    by (simp add: create_session_tests_def session_consistent_def Decode_test_bodies)
  have e: "mock_expected empty_mock = []" by (simp add: empty_mock_def)
  show ?thesis
    using session_tests_follow_status_rule [OF c e, of health_tests] c e
    by (simp add: create_session_tests_def health_tests_def session_status_def session_calls_def
        Decode_test_bodies empty_mock_def)
qed

end
